theory Spec2Isabelle
  imports Main "HOL-Library.Sublist"
begin

section \<open>The container runtime config controller\<close>

text \<open>
  A shallow embedding of
  \<^verbatim>\<open>pkg/controller/container-runtime-config/container_runtime_config_controller.go\<close>.
  Every method of the controller is a function from the state of the world to a result
  and the state after it. The world holds the informer caches the controller reads
  (the listers), the objects of the API server it writes through its clients, the two
  work queues and the process-wide error sink.

  A call of a client goes over the network and may fail for reasons the controller does
  not control. The world carries a script of such outcomes: each client call takes the
  next entry, fails with it when it is an error, and otherwise acts on the stored
  objects. Every client call and every lister read is appended to a trace, so that the
  order of the calls of one pass can be stated.

  The informers fill the caches concurrently with the controller; inside one call of a
  synchronisation function no informer event is modelled, so a cache changes only where
  the code itself writes through a pointer it got from a lister.
\<close>

subsection \<open>Errors\<close>

text \<open>
  A Go \<^verbatim>\<open>error\<close> is \<open>error option\<close>, \<open>None\<close> for \<^verbatim>\<open>nil\<close>. The API
  machinery's status errors that the code tests for are constructors of their own.
\<close>

datatype error = StatusNotFound | StatusConflict | Err string

fun Error :: "error \<Rightarrow> string" where
  "Error StatusNotFound = ''not found''"
| "Error StatusConflict = ''conflict''"
| "Error (Err s) = s"

definition IsNotFound :: "error option \<Rightarrow> bool" where
  "IsNotFound err = (err = Some StatusNotFound)"

definition IsConflict :: "error option \<Rightarrow> bool" where
  "IsConflict err = (err = Some StatusConflict)"

text \<open>
  A function that may panic returns \<open>Panic\<close> instead of a value: an index out of
  range or a nil pointer dereference ends the worker's goroutine.
\<close>

datatype 'a outcome = Panic string | Return 'a

subsection \<open>Strings\<close>

text \<open>\<^verbatim>\<open>strings.Split(s, sep)\<close> for a separator of one byte.\<close>

fun Split :: "string \<Rightarrow> char \<Rightarrow> string list" where
  "Split [] sep = [[]]"
| "Split (c # cs) sep =
     (if c = sep then [] # Split cs sep
      else (case Split cs sep of [] \<Rightarrow> [[c]] | p # ps \<Rightarrow> (c # p) # ps))"

text \<open>\<^verbatim>\<open>strings.Contains(s, substr)\<close>.\<close>

fun Contains :: "string \<Rightarrow> string \<Rightarrow> bool" where
  "Contains [] substr = (substr = [])"
| "Contains (c # cs) substr = (prefix substr (c # cs) \<or> Contains cs substr)"

text \<open>
  \<^verbatim>\<open>strconv.Atoi(s)\<close>: an optional sign and at least one decimal digit, the value
  within the 64-bit range; anything else is an error.
\<close>

definition isDigit :: "char \<Rightarrow> bool" where
  "isDigit c = (48 \<le> (of_char c :: nat) \<and> (of_char c :: nat) \<le> 57)"

definition digitsValue :: "string \<Rightarrow> int" where
  "digitsValue ds = foldl (\<lambda>n c. 10 * n + (int (of_char c) - 48)) 0 ds"

definition Atoi :: "string \<Rightarrow> error + int" where
  "Atoi s =
     (let (neg, ds) = (case s of
                         c # cs \<Rightarrow> if c = CHR ''-'' then (True, cs)
                                   else if c = CHR ''+'' then (False, cs) else (False, s)
                       | [] \<Rightarrow> (False, s))
      in if ds = [] \<or> \<not> list_all isDigit ds then Inl (Err ''invalid syntax'')
         else (let v = (if neg then - digitsValue ds else digitsValue ds)
               in if v < - (2 ^ 63) \<or> 2 ^ 63 - 1 < v then Inl (Err ''value out of range'')
                  else Inr v))"

text \<open>A Go \<^verbatim>\<open>map[string]string\<close> read at a key it does not hold gives the empty string.\<close>

definition at :: "(string \<rightharpoonup> string) \<Rightarrow> string \<Rightarrow> string" where
  "at m k = (case m k of None \<Rightarrow> '''' | Some v \<Rightarrow> v)"

subsection \<open>The objects\<close>

datatype ConditionType = ContainerRuntimeConfigSuccess | ContainerRuntimeConfigFailure

record Condition =
  condType :: ConditionType
  condStatus :: bool
  condMessage :: string
  condLastTransitionTime :: nat

datatype Operator = OpIn | OpNotIn | OpExists | OpDoesNotExist | OpOther string

record LabelSelectorRequirement =
  exprKey :: string
  exprOperator :: Operator
  exprValues :: "string list"

record LabelSelector =
  MatchLabels :: "(string \<times> string) list"
  MatchExpressions :: "LabelSelectorRequirement list"

record ContainerRuntimeConfiguration =
  LogLevel :: string
  PidsLimit :: "int option"
  LogSizeMax :: int
  OverlaySize :: int

record ContainerRuntimeConfig =
  crcName :: string
  crcUID :: string
  crcAnnotations :: "string \<rightharpoonup> string"
  crcFinalizers :: "string list"
  crcDeletionTimestamp :: "nat option"
  crcGeneration :: int
  crcMachineConfigPoolSelector :: "LabelSelector option"
  crcSpec :: ContainerRuntimeConfiguration
  crcObservedGeneration :: int
  crcConditions :: "Condition list"

record OwnerReference =
  orAPIVersion :: string
  orKind :: string
  orName :: string
  orUID :: string
  orController :: bool

record MachineConfig =
  mcName :: string
  mcRole :: string
  mcAnnotations :: "string \<rightharpoonup> string"
  mcRaw :: string
  mcOwnerReferences :: "OwnerReference list"

record MachineConfigPool =
  poolName :: string
  poolLabels :: "string \<rightharpoonup> string"

record ConfigMap =
  cmName :: string
  cmNamespace :: string

record Image =
  imgName :: string
  imgUID :: string
  InsecureRegistries :: "string list option"
  BlockedRegistries :: "string list option"
  AllowedRegistries :: "string list option"
  ContainerRuntimeSearchRegistries :: "string list option"

record File =
  filePathIgn :: string
  fileSource :: "string option"

record generatedConfigFile =
  filePath :: string
  data :: "string option"

type_synonym ControllerConfig = string
record ClusterVersion =
  cvDesiredImage :: string

type_synonym ImageContentSourcePolicy = string
type_synonym IgnConfig = "File list"

subsection \<open>The work queue\<close>

text \<open>
  Of a rate limiting queue the error handlers use the rate limiter's count of failures
  per key (\<^verbatim>\<open>NumRequeues\<close>, reset by \<^verbatim>\<open>Forget\<close>, read and incremented by
  \<^verbatim>\<open>AddRateLimited\<close> through the limiter's \<^verbatim>\<open>When\<close>) and the delaying queue's
  scheduled additions. A scheduled addition records its delay: \<open>RateLimited n\<close> is the
  limiter's delay for a key that has failed \<open>n\<close> times before, \<open>After d\<close> a fixed
  delay of \<open>d\<close> milliseconds.
\<close>

datatype delay = RateLimited nat | After nat

record workqueue =
  failures :: "string \<Rightarrow> nat"
  scheduled :: "(string \<times> delay) list"

definition Forget :: "string \<Rightarrow> workqueue \<Rightarrow> workqueue" where
  "Forget key q = q\<lparr>failures := (failures q)(key := 0)\<rparr>"

definition NumRequeues :: "string \<Rightarrow> workqueue \<Rightarrow> nat" where
  "NumRequeues key q = failures q key"

definition AddAfter :: "string \<Rightarrow> nat \<Rightarrow> workqueue \<Rightarrow> workqueue" where
  "AddAfter key d q = q\<lparr>scheduled := scheduled q @ [(key, After d)]\<rparr>"

definition AddRateLimited :: "string \<Rightarrow> workqueue \<Rightarrow> workqueue" where
  "AddRateLimited key q =
     q\<lparr>failures := (failures q)(key := Suc (failures q key)),
       scheduled := scheduled q @ [(key, RateLimited (failures q key))]\<rparr>"

subsection \<open>Label selectors\<close>

text \<open>
  The selectors of \<^verbatim>\<open>k8s.io/apimachinery/pkg/labels\<close> as the controller uses them:
  the selector that matches nothing, and a conjunction of requirements, which is
  \<^verbatim>\<open>labels.Everything()\<close> when it has none. The syntax checks of label keys and
  values are parameters (\<open>validKey\<close>, \<open>validValue\<close>).
\<close>

datatype SelectionOperator = Equals | In | NotIn | Exists | DoesNotExist

record Requirement =
  reqKey :: string
  reqOperator :: SelectionOperator
  reqValues :: "string list"

datatype Selector = NothingSelector | InternalSelector "Requirement list"

definition Everything :: Selector where
  "Everything = InternalSelector []"

fun Empty :: "Selector \<Rightarrow> bool" where
  "Empty NothingSelector = False"
| "Empty (InternalSelector rs) = (length rs = 0)"

fun requirementMatches :: "Requirement \<Rightarrow> (string \<rightharpoonup> string) \<Rightarrow> bool" where
  "requirementMatches r ls =
     (case reqOperator r of
        Equals \<Rightarrow> (case ls (reqKey r) of None \<Rightarrow> False | Some v \<Rightarrow> v \<in> set (reqValues r))
      | In \<Rightarrow> (case ls (reqKey r) of None \<Rightarrow> False | Some v \<Rightarrow> v \<in> set (reqValues r))
      | NotIn \<Rightarrow> (case ls (reqKey r) of None \<Rightarrow> True | Some v \<Rightarrow> v \<notin> set (reqValues r))
      | Exists \<Rightarrow> ls (reqKey r) \<noteq> None
      | DoesNotExist \<Rightarrow> ls (reqKey r) = None)"

fun Matches :: "Selector \<Rightarrow> (string \<rightharpoonup> string) \<Rightarrow> bool" where
  "Matches NothingSelector ls = False"
| "Matches (InternalSelector rs) ls = list_all (\<lambda>r. requirementMatches r ls) rs"

definition NewRequirement ::
  "(string \<Rightarrow> bool) \<Rightarrow> (string \<Rightarrow> bool) \<Rightarrow> string \<Rightarrow> SelectionOperator \<Rightarrow> string list \<Rightarrow> error + Requirement" where
  "NewRequirement validKey validValue key op vals =
     (if \<not> validKey key then Inl (Err ''invalid label key'')
      else if (op = In \<or> op = NotIn) \<and> length vals = 0
        then Inl (Err ''for in, notin operators, values set can not be empty'')
      else if op = Equals \<and> length vals \<noteq> 1
        then Inl (Err ''exact-match compatibility requires one single value'')
      else if (op = Exists \<or> op = DoesNotExist) \<and> length vals \<noteq> 0
        then Inl (Err ''values set must be empty for exists and does not exist'')
      else if \<not> list_all validValue vals then Inl (Err ''invalid label value'')
      else Inr \<lparr>reqKey = key, reqOperator = op, reqValues = vals\<rparr>)"

fun matchLabelsRequirements ::
  "(string \<Rightarrow> bool) \<Rightarrow> (string \<Rightarrow> bool) \<Rightarrow> (string \<times> string) list \<Rightarrow> error + Requirement list" where
  "matchLabelsRequirements validKey validValue [] = Inr []"
| "matchLabelsRequirements validKey validValue ((k, v) # kvs) =
     (case NewRequirement validKey validValue k Equals [v] of
        Inl err \<Rightarrow> Inl err
      | Inr r \<Rightarrow>
          (case matchLabelsRequirements validKey validValue kvs of
             Inl err \<Rightarrow> Inl err
           | Inr rs \<Rightarrow> Inr (r # rs)))"

fun matchExpressionsRequirements ::
  "(string \<Rightarrow> bool) \<Rightarrow> (string \<Rightarrow> bool) \<Rightarrow> LabelSelectorRequirement list \<Rightarrow> error + Requirement list" where
  "matchExpressionsRequirements validKey validValue [] = Inr []"
| "matchExpressionsRequirements validKey validValue (expr # exprs) =
     (case (case exprOperator expr of
              OpIn \<Rightarrow> Inr In
            | OpNotIn \<Rightarrow> Inr NotIn
            | OpExists \<Rightarrow> Inr Exists
            | OpDoesNotExist \<Rightarrow> Inr DoesNotExist
            | OpOther s \<Rightarrow> Inl (Err (s @ '' is not a valid pod selector operator''))) of
        Inl err \<Rightarrow> Inl err
      | Inr op \<Rightarrow>
          (case NewRequirement validKey validValue (exprKey expr) op (exprValues expr) of
             Inl err \<Rightarrow> Inl err
           | Inr r \<Rightarrow>
               (case matchExpressionsRequirements validKey validValue exprs of
                  Inl err \<Rightarrow> Inl err
                | Inr rs \<Rightarrow> Inr (r # rs))))"

text \<open>\<^verbatim>\<open>metav1.LabelSelectorAsSelector\<close>: nil selects nothing, the empty selector everything.\<close>

definition LabelSelectorAsSelector ::
  "(string \<Rightarrow> bool) \<Rightarrow> (string \<Rightarrow> bool) \<Rightarrow> LabelSelector option \<Rightarrow> error + Selector" where
  "LabelSelectorAsSelector validKey validValue ps =
     (case ps of
        None \<Rightarrow> Inr NothingSelector
      | Some s \<Rightarrow>
          if length (MatchLabels s) + length (MatchExpressions s) = 0 then Inr Everything
          else (case matchLabelsRequirements validKey validValue (MatchLabels s) of
                  Inl err \<Rightarrow> Inl err
                | Inr rs1 \<Rightarrow>
                    (case matchExpressionsRequirements validKey validValue (MatchExpressions s) of
                       Inl err \<Rightarrow> Inl err
                     | Inr rs2 \<Rightarrow> Inr (InternalSelector (rs1 @ rs2)))))"

text \<open>
  \<^verbatim>\<open>metav1.AddLabelToSelector\<close> sets one key of the selector's \<^verbatim>\<open>MatchLabels\<close>, and
  leaves the selector as it is for the empty key.
\<close>

definition AddLabelToSelector :: "LabelSelector \<Rightarrow> string \<Rightarrow> string \<Rightarrow> LabelSelector" where
  "AddLabelToSelector s labelKey labelValue =
     (if labelKey = [] then s
      else s\<lparr>MatchLabels := filter (\<lambda>(k, _). k \<noteq> labelKey) (MatchLabels s) @ [(labelKey, labelValue)]\<rparr>)"

subsection \<open>The world\<close>

datatype patch = NoChange | SetFinalizers "string list"

datatype call =
    ListerGetContainerRuntimeConfig string
  | ListerGetControllerConfig
  | ListerListMachineConfigPools
  | ListerGetImage
  | ListerGetClusterVersion
  | ListerListICSP
  | GetConfigMap string
  | CreateConfigMap string
  | GetMachineConfig string
  | CreateMachineConfig string
  | UpdateMachineConfig string
  | DeleteMachineConfig string
  | ListMachineConfigs
  | UpdateStatusContainerRuntimeConfig string
  | UpdateContainerRuntimeConfig string
  | PatchContainerRuntimeConfig string patch

text \<open>
  The scripted outcome of a client call. A fault is a conflict or another failure of the
  call; that an object is not found is never scripted, it follows from the stored
  objects.
\<close>

datatype fault = NoFault | FaultConflict | FaultOther string

fun faultError :: "fault \<Rightarrow> error option" where
  "faultError NoFault = None"
| "faultError FaultConflict = Some StatusConflict"
| "faultError (FaultOther s) = Some (Err s)"

record world =
  mccrLister :: "ContainerRuntimeConfig list"
  ccLister :: "ControllerConfig option"
  mcpLister :: "MachineConfigPool list"
  imgLister :: "Image option"
  clusterVersionLister :: "ClusterVersion option"
  icspLister :: "ImageContentSourcePolicy list"
  containerRuntimeConfigs :: "ContainerRuntimeConfig list"
  machineConfigs :: "MachineConfig list"
  configMaps :: "ConfigMap list"
  faults :: "fault list"
  trace :: "call list"
  queue :: workqueue
  imgQueue :: workqueue
  errorSink :: "error list"
  clock :: nat

text \<open>
  A store of named objects is the list of them; an object is found, replaced and deleted
  by its name.
\<close>

definition getByName :: "('a \<Rightarrow> string) \<Rightarrow> string \<Rightarrow> 'a list \<Rightarrow> 'a option" where
  "getByName nameOf name xs = find (\<lambda>x. nameOf x = name) xs"

definition replaceByName :: "('a \<Rightarrow> string) \<Rightarrow> string \<Rightarrow> 'a \<Rightarrow> 'a list \<Rightarrow> 'a list" where
  "replaceByName nameOf name obj xs = map (\<lambda>x. if nameOf x = name then obj else x) xs"

definition deleteByName :: "('a \<Rightarrow> string) \<Rightarrow> string \<Rightarrow> 'a list \<Rightarrow> 'a list" where
  "deleteByName nameOf name xs = filter (\<lambda>x. nameOf x \<noteq> name) xs"

definition traced :: "call \<Rightarrow> world \<Rightarrow> world" where
  "traced c w = w\<lparr>trace := trace w @ [c]\<rparr>"

text \<open>A client call: traced, and failing when the script says so.\<close>

definition clientCall :: "call \<Rightarrow> world \<Rightarrow> error option \<times> world" where
  "clientCall c w =
     (case faults w of
        [] \<Rightarrow> (None, traced c w)
      | f # fs \<Rightarrow> (faultError f, traced c (w\<lparr>faults := fs\<rparr>)))"

subsubsection \<open>Listers\<close>

text \<open>
  A lister reads the informer's cache: \<^verbatim>\<open>Get\<close> fails with not-found only, \<^verbatim>\<open>List\<close> does
  not fail. The ControllerConfig, the image config and the cluster version are asked for
  by one fixed name each, so their listers hold that object or none.
\<close>

definition mccrListerGet :: "string \<Rightarrow> world \<Rightarrow> (error + ContainerRuntimeConfig) \<times> world" where
  "mccrListerGet name w =
     (case getByName crcName name (mccrLister w) of
        None \<Rightarrow> (Inl StatusNotFound, traced (ListerGetContainerRuntimeConfig name) w)
      | Some cfg \<Rightarrow> (Inr cfg, traced (ListerGetContainerRuntimeConfig name) w))"

definition ccListerGet :: "world \<Rightarrow> (error + ControllerConfig) \<times> world" where
  "ccListerGet w =
     (case ccLister w of
        None \<Rightarrow> (Inl StatusNotFound, traced ListerGetControllerConfig w)
      | Some cc \<Rightarrow> (Inr cc, traced ListerGetControllerConfig w))"

definition mcpListerList :: "Selector \<Rightarrow> world \<Rightarrow> MachineConfigPool list \<times> world" where
  "mcpListerList sel w =
     (filter (\<lambda>p. Matches sel (poolLabels p)) (mcpLister w), traced ListerListMachineConfigPools w)"

definition imgListerGet :: "world \<Rightarrow> (error + Image) \<times> world" where
  "imgListerGet w =
     (case imgLister w of
        None \<Rightarrow> (Inl StatusNotFound, traced ListerGetImage w)
      | Some i \<Rightarrow> (Inr i, traced ListerGetImage w))"

definition clusterVersionListerGet :: "world \<Rightarrow> (error + ClusterVersion) \<times> world" where
  "clusterVersionListerGet w =
     (case clusterVersionLister w of
        None \<Rightarrow> (Inl StatusNotFound, traced ListerGetClusterVersion w)
      | Some v \<Rightarrow> (Inr v, traced ListerGetClusterVersion w))"

definition icspListerList :: "world \<Rightarrow> ImageContentSourcePolicy list \<times> world" where
  "icspListerList w = (icspLister w, traced ListerListICSP w)"

subsubsection \<open>Clients\<close>

text \<open>
  A typed client's \<^verbatim>\<open>Get\<close> returns a pointer to an object and an error; with an error
  the object is the empty one, not nil.
\<close>

definition emptyConfigMap :: ConfigMap where
  "emptyConfigMap = \<lparr>cmName = [], cmNamespace = []\<rparr>"

definition emptyMachineConfig :: MachineConfig where
  "emptyMachineConfig =
     \<lparr>mcName = [], mcRole = [], mcAnnotations = Map.empty, mcRaw = [], mcOwnerReferences = []\<rparr>"

definition ConfigMapsGet :: "string \<Rightarrow> world \<Rightarrow> (ConfigMap option \<times> error option) \<times> world" where
  "ConfigMapsGet name w =
     (case clientCall (GetConfigMap name) w of
        (Some e, w') \<Rightarrow> ((Some emptyConfigMap, Some e), w')
      | (None, w') \<Rightarrow>
          (case getByName cmName name (configMaps w') of
             None \<Rightarrow> ((Some emptyConfigMap, Some StatusNotFound), w')
           | Some cm \<Rightarrow> ((Some cm, None), w')))"

definition ConfigMapsCreate :: "ConfigMap \<Rightarrow> world \<Rightarrow> error option \<times> world" where
  "ConfigMapsCreate cm w =
     (case clientCall (CreateConfigMap (cmName cm)) w of
        (Some e, w') \<Rightarrow> (Some e, w')
      | (None, w') \<Rightarrow>
          (case getByName cmName (cmName cm) (configMaps w') of
             Some _ \<Rightarrow> (Some (Err ''already exists''), w')
           | None \<Rightarrow> (None, w'\<lparr>configMaps := configMaps w' @ [cm]\<rparr>)))"

definition MachineConfigsGet :: "string \<Rightarrow> world \<Rightarrow> (MachineConfig option \<times> error option) \<times> world" where
  "MachineConfigsGet name w =
     (case clientCall (GetMachineConfig name) w of
        (Some e, w') \<Rightarrow> ((Some emptyMachineConfig, Some e), w')
      | (None, w') \<Rightarrow>
          (case getByName mcName name (machineConfigs w') of
             None \<Rightarrow> ((Some emptyMachineConfig, Some StatusNotFound), w')
           | Some mc \<Rightarrow> ((Some mc, None), w')))"

definition MachineConfigsCreate :: "MachineConfig \<Rightarrow> world \<Rightarrow> error option \<times> world" where
  "MachineConfigsCreate mc w =
     (case clientCall (CreateMachineConfig (mcName mc)) w of
        (Some e, w') \<Rightarrow> (Some e, w')
      | (None, w') \<Rightarrow>
          (case getByName mcName (mcName mc) (machineConfigs w') of
             Some _ \<Rightarrow> (Some (Err ''already exists''), w')
           | None \<Rightarrow> (None, w'\<lparr>machineConfigs := machineConfigs w' @ [mc]\<rparr>)))"

definition MachineConfigsUpdate :: "MachineConfig \<Rightarrow> world \<Rightarrow> error option \<times> world" where
  "MachineConfigsUpdate mc w =
     (case clientCall (UpdateMachineConfig (mcName mc)) w of
        (Some e, w') \<Rightarrow> (Some e, w')
      | (None, w') \<Rightarrow>
          (case getByName mcName (mcName mc) (machineConfigs w') of
             None \<Rightarrow> (Some StatusNotFound, w')
           | Some _ \<Rightarrow>
               (None, w'\<lparr>machineConfigs := replaceByName mcName (mcName mc) mc (machineConfigs w')\<rparr>)))"

definition MachineConfigsDelete :: "string \<Rightarrow> world \<Rightarrow> error option \<times> world" where
  "MachineConfigsDelete name w =
     (case clientCall (DeleteMachineConfig name) w of
        (Some e, w') \<Rightarrow> (Some e, w')
      | (None, w') \<Rightarrow>
          (case getByName mcName name (machineConfigs w') of
             None \<Rightarrow> (Some StatusNotFound, w')
           | Some _ \<Rightarrow>
               (None, w'\<lparr>machineConfigs := deleteByName mcName name (machineConfigs w')\<rparr>)))"

definition MachineConfigsList :: "world \<Rightarrow> (error + MachineConfig list) \<times> world" where
  "MachineConfigsList w =
     (case clientCall ListMachineConfigs w of
        (Some e, w') \<Rightarrow> (Inl e, w')
      | (None, w') \<Rightarrow> (Inr (machineConfigs w'), w'))"

text \<open>
  The ContainerRuntimeConfig resource has a status subresource: \<^verbatim>\<open>UpdateStatus\<close> stores
  the status of the object it is given, \<^verbatim>\<open>Update\<close> everything but the status, and
  \<^verbatim>\<open>Patch\<close> applies a merge patch, which in this controller changes the finalizers at
  most. (That the server removes an object under deletion once its finalizers are gone
  is not modelled: the patched object stays readable. Nor are resource versions: a
  conflict is a scripted fault.)
\<close>

definition ContainerRuntimeConfigsUpdateStatus :: "ContainerRuntimeConfig \<Rightarrow> world \<Rightarrow> error option \<times> world" where
  "ContainerRuntimeConfigsUpdateStatus cfg w =
     (case clientCall (UpdateStatusContainerRuntimeConfig (crcName cfg)) w of
        (Some e, w') \<Rightarrow> (Some e, w')
      | (None, w') \<Rightarrow>
          (case getByName crcName (crcName cfg) (containerRuntimeConfigs w') of
             None \<Rightarrow> (Some StatusNotFound, w')
           | Some old \<Rightarrow>
               (None, w'\<lparr>containerRuntimeConfigs := replaceByName crcName (crcName cfg)
                  (old\<lparr>crcObservedGeneration := crcObservedGeneration cfg,
                       crcConditions := crcConditions cfg\<rparr>)
                  (containerRuntimeConfigs w')\<rparr>)))"

definition ContainerRuntimeConfigsUpdate :: "ContainerRuntimeConfig \<Rightarrow> world \<Rightarrow> error option \<times> world" where
  "ContainerRuntimeConfigsUpdate cfg w =
     (case clientCall (UpdateContainerRuntimeConfig (crcName cfg)) w of
        (Some e, w') \<Rightarrow> (Some e, w')
      | (None, w') \<Rightarrow>
          (case getByName crcName (crcName cfg) (containerRuntimeConfigs w') of
             None \<Rightarrow> (Some StatusNotFound, w')
           | Some old \<Rightarrow>
               (None, w'\<lparr>containerRuntimeConfigs := replaceByName crcName (crcName cfg)
                  (cfg\<lparr>crcObservedGeneration := crcObservedGeneration old,
                       crcConditions := crcConditions old\<rparr>)
                  (containerRuntimeConfigs w')\<rparr>)))"

definition applyPatch :: "patch \<Rightarrow> ContainerRuntimeConfig \<Rightarrow> ContainerRuntimeConfig" where
  "applyPatch p cfg = (case p of NoChange \<Rightarrow> cfg | SetFinalizers fs \<Rightarrow> cfg\<lparr>crcFinalizers := fs\<rparr>)"

definition ContainerRuntimeConfigsPatch :: "string \<Rightarrow> patch \<Rightarrow> world \<Rightarrow> error option \<times> world" where
  "ContainerRuntimeConfigsPatch name p w =
     (case clientCall (PatchContainerRuntimeConfig name p) w of
        (Some e, w') \<Rightarrow> (Some e, w')
      | (None, w') \<Rightarrow>
          (case getByName crcName name (containerRuntimeConfigs w') of
             None \<Rightarrow> (Some StatusNotFound, w')
           | Some old \<Rightarrow>
               (None, w'\<lparr>containerRuntimeConfigs :=
                  replaceByName crcName name (applyPatch p old) (containerRuntimeConfigs w')\<rparr>)))"

text \<open>
  \<^verbatim>\<open>jsonmergepatch.CreateThreeWayJSONMergePatch(cur, mod, cur)\<close> for two copies of one
  object of which the second differs in its finalizers at most: the merge patch holds
  the fields that differ, so it is empty when the lists are equal and sets the list of
  the modified copy otherwise.
\<close>

definition CreateThreeWayJSONMergePatch :: "ContainerRuntimeConfig \<Rightarrow> ContainerRuntimeConfig \<Rightarrow> patch" where
  "CreateThreeWayJSONMergePatch cur modified =
     (if crcFinalizers modified = crcFinalizers cur then NoChange
      else SetFinalizers (crcFinalizers modified))"

text \<open>
  \<^verbatim>\<open>retry.RetryOnConflict(updateBackoff, fn)\<close>: \<open>fn\<close> runs again while it returns a
  conflict, \<^verbatim>\<open>updateBackoff.Steps\<close> times at most; the last conflict is returned when the
  steps run out.
\<close>

definition updateBackoffSteps :: nat where
  "updateBackoffSteps = 5"

fun retrySteps :: "nat \<Rightarrow> ('s \<Rightarrow> error option outcome \<times> 's) \<Rightarrow> 's \<Rightarrow> error option outcome \<times> 's" where
  "retrySteps 0 fn w = (Return None, w)"
| "retrySteps (Suc n) fn w =
     (case fn w of
        (Panic p, w') \<Rightarrow> (Panic p, w')
      | (Return None, w') \<Rightarrow> (Return None, w')
      | (Return (Some e), w') \<Rightarrow>
          if IsConflict (Some e) then (if n = 0 then (Return (Some e), w') else retrySteps n fn w')
          else (Return (Some e), w'))"

definition RetryOnConflict :: "('s \<Rightarrow> error option outcome \<times> 's) \<Rightarrow> 's \<Rightarrow> error option outcome \<times> 's" where
  "RetryOnConflict fn w = retrySteps updateBackoffSteps fn w"

subsection \<open>The rest of the repository\<close>

text \<open>
  The controller calls functions and reads constants of its repository that are not in
  the file embedded here (\<^verbatim>\<open>helpers.go\<close> of the package, \<^verbatim>\<open>pkg/controller/common\<close>,
  \<^verbatim>\<open>pkg/controller/template\<close>, \<^verbatim>\<open>pkg/version\<close>) and of libraries that encode and
  decode. They are the fields of one record, a parameter of every function below. A
  function that is given a client is a function of the world.
\<close>

datatype arg = ArgStr string | ArgErr error

record env =
  templatesDir :: string
  namespace :: string
  versionHash :: string
  GeneratedByControllerVersionAnnotationKey :: string
  MCNameSuffixAnnotationKey :: string
  storageConfigPath :: string
  registriesConfigPath :: string
  policyConfigPath :: string
  errParsingReference :: error
  validateLabelKey :: "string \<Rightarrow> bool"
  validateLabelValue :: "string \<Rightarrow> bool"
  validateUserContainerRuntimeConfig :: "ContainerRuntimeConfig \<Rightarrow> error option"
  wrapErrorWithCondition :: "nat \<Rightarrow> error option \<Rightarrow> arg list \<Rightarrow> Condition"
  getManagedKeyCtrCfg :: "MachineConfigPool \<Rightarrow> ContainerRuntimeConfig \<Rightarrow> world \<Rightarrow> (error + string) \<times> world"
  getManagedKeyReg :: "MachineConfigPool \<Rightarrow> world \<Rightarrow> (error + string) \<times> world"
  getManagedKeySeccomp :: "MachineConfigPool \<Rightarrow> string"
  GenerateMachineConfigsForRole :: "ControllerConfig \<Rightarrow> string \<Rightarrow> string \<Rightarrow> error + MachineConfig list"
  findStorageConfig :: "MachineConfig \<Rightarrow> error + File"
  findRegistriesConfig :: "MachineConfig \<Rightarrow> error + File"
  findPolicyJSON :: "MachineConfig \<Rightarrow> error + File"
  DecodeString :: "string \<Rightarrow> error + string"
  updateStorageConfig :: "string \<Rightarrow> ContainerRuntimeConfiguration \<Rightarrow> error + string"
  updateRegistriesConfig ::
    "string \<Rightarrow> string list option \<Rightarrow> string list option \<Rightarrow> ImageContentSourcePolicy list \<Rightarrow> error + string"
  updatePolicyJSON :: "string \<Rightarrow> string list option \<Rightarrow> string list option \<Rightarrow> error + string"
  updateSearchRegistriesConfig :: "string list \<Rightarrow> generatedConfigFile list"
  createCRIODropinFiles :: "ContainerRuntimeConfig \<Rightarrow> generatedConfigFile list"
  createDefaultSeccompUseDefaultWhenEmptyFile :: "generatedConfigFile list"
  createNewIgnition :: "generatedConfigFile list \<Rightarrow> IgnConfig"
  NewIgnConfig :: IgnConfig
  Marshal :: "IgnConfig \<Rightarrow> error + string"
  MachineConfigFromIgnConfig :: "string \<Rightarrow> string \<Rightarrow> IgnConfig \<Rightarrow> error + MachineConfig"
  getValidBlockedRegistries :: "string \<Rightarrow> Image \<Rightarrow> string list option \<times> error option"

text \<open>
  Modelled from the spec: \<^verbatim>\<open>ctrlcommon.InSlice\<close> is not among the source files;
  a finalizer is appended "only if absent", so it tests membership.
\<close>

definition InSlice :: "string \<Rightarrow> string list \<Rightarrow> bool" where
  "InSlice elem slice = (elem \<in> set slice)"

definition builtInLabelKey :: string where
  "builtInLabelKey = ''machineconfiguration.openshift.io/mco-built-in''"

definition maxRetries :: nat where
  "maxRetries = 15"

text \<open>\<^verbatim>\<open>1*time.Minute\<close>, in milliseconds.\<close>

definition minute :: nat where
  "minute = 60000"

subsection \<open>Dispatch\<close>

text \<open>\<^verbatim>\<open>utilruntime.HandleError\<close> hands the error to the process's error handlers.\<close>

definition HandleError :: "error \<Rightarrow> world \<Rightarrow> world" where
  "HandleError e w = w\<lparr>errorSink := errorSink w @ [e]\<rparr>"

definition handleErr :: "error option \<Rightarrow> string \<Rightarrow> world \<Rightarrow> world" where
  "handleErr err key w =
     (case err of
        None \<Rightarrow> w\<lparr>queue := Forget key (queue w)\<rparr>
      | Some e \<Rightarrow>
          if NumRequeues key (queue w) < maxRetries
          then w\<lparr>queue := AddRateLimited key (queue w)\<rparr>
          else (let w1 = HandleError e w;
                    w2 = w1\<lparr>queue := Forget key (queue w1)\<rparr>
                in w2\<lparr>queue := AddAfter key minute (queue w2)\<rparr>))"

definition handleImgErr :: "error option \<Rightarrow> string \<Rightarrow> world \<Rightarrow> world" where
  "handleImgErr err key w =
     (case err of
        None \<Rightarrow> w\<lparr>imgQueue := Forget key (imgQueue w)\<rparr>
      | Some e \<Rightarrow>
          if NumRequeues key (imgQueue w) < maxRetries
          then w\<lparr>imgQueue := AddRateLimited key (imgQueue w)\<rparr>
          else (let w1 = HandleError e w;
                    w2 = w1\<lparr>imgQueue := Forget key (imgQueue w1)\<rparr>
                in w2\<lparr>imgQueue := AddAfter key minute (imgQueue w2)\<rparr>))"

subsection \<open>Status, annotations and finalizers\<close>

text \<open>
  Lines 442 to 446 of \<^verbatim>\<open>syncStatusOnly\<close>, on the list of conditions: append, or
  overwrite the last entry.
\<close>

definition recordCondition :: "Condition list \<Rightarrow> Condition \<Rightarrow> Condition list" where
  "recordCondition conds newStatusCondition =
     (if length conds = 0 \<or> condMessage newStatusCondition \<noteq> condMessage (conds ! (length conds - 1))
      then conds @ [newStatusCondition]
      else if condMessage (conds ! (length conds - 1)) = condMessage newStatusCondition
      then conds[length conds - 1 := newStatusCondition]
      else conds)"

text \<open>
  The function retried by \<^verbatim>\<open>syncStatusOnly\<close>. \<^verbatim>\<open>newcfg\<close> points into the lister's cache
  and is not copied: the assignments to its status change the cached object, whatever
  \<^verbatim>\<open>UpdateStatus\<close> returns.
\<close>

definition syncStatusOnlyOnce ::
  "env \<Rightarrow> ContainerRuntimeConfig \<Rightarrow> error option \<Rightarrow> arg list \<Rightarrow> world \<Rightarrow> error option outcome \<times> world" where
  "syncStatusOnlyOnce E cfg err args w =
     (case mccrListerGet (crcName cfg) w of
        (Inl getErr, w1) \<Rightarrow> (Return (Some getErr), w1)
      | (Inr newcfg, w1) \<Rightarrow>
          (let newcfg1 = (if crcGeneration newcfg \<noteq> crcObservedGeneration newcfg
                          then newcfg\<lparr>crcObservedGeneration := crcGeneration newcfg\<rparr>
                          else newcfg);
               newStatusCondition = wrapErrorWithCondition E (clock w1) err args;
               newcfg2 = newcfg1\<lparr>crcConditions := recordCondition (crcConditions newcfg1) newStatusCondition\<rparr>;
               w2 = w1\<lparr>mccrLister := replaceByName crcName (crcName cfg) newcfg2 (mccrLister w1)\<rparr>
           in (case ContainerRuntimeConfigsUpdateStatus newcfg2 w2 of
                 (updateErr, w3) \<Rightarrow> (Return updateErr, w3))))"

text \<open>A failure to update the status is logged; the error passed in is returned.\<close>

definition syncStatusOnly ::
  "env \<Rightarrow> ContainerRuntimeConfig \<Rightarrow> error option \<Rightarrow> arg list \<Rightarrow> world \<Rightarrow> error option outcome \<times> world" where
  "syncStatusOnly E cfg err args w =
     (case RetryOnConflict (syncStatusOnlyOnce E cfg err args) w of
        (Panic p, w') \<Rightarrow> (Panic p, w')
      | (Return statusUpdateErr, w') \<Rightarrow> (Return err, w'))"

definition addAnnotationOnce ::
  "ContainerRuntimeConfig \<Rightarrow> string \<Rightarrow> string \<Rightarrow> world \<Rightarrow> error option outcome \<times> world" where
  "addAnnotationOnce cfg annotationKey annotationVal w =
     (case mccrListerGet (crcName cfg) w of
        (Inl getErr, w1) \<Rightarrow> (Return (Some getErr), w1)
      | (Inr newcfg, w1) \<Rightarrow>
          (let newcfg1 = newcfg\<lparr>crcAnnotations := [annotationKey \<mapsto> annotationVal]\<rparr>;
               w2 = w1\<lparr>mccrLister := replaceByName crcName (crcName cfg) newcfg1 (mccrLister w1)\<rparr>
           in (case ContainerRuntimeConfigsUpdate newcfg1 w2 of
                 (updateErr, w3) \<Rightarrow> (Return updateErr, w3))))"

definition addAnnotation ::
  "ContainerRuntimeConfig \<Rightarrow> string \<Rightarrow> string \<Rightarrow> world \<Rightarrow> error option outcome \<times> world" where
  "addAnnotation cfg annotationKey annotationVal w =
     RetryOnConflict (addAnnotationOnce cfg annotationKey annotationVal) w"

text \<open>
  The function retried by \<^verbatim>\<open>popFinalizerFromContainerRuntimeConfig\<close>. Its state is
  the world and the finalizers of \<^verbatim>\<open>ctrCfg\<close>, the object the caller passed:
  \<^verbatim>\<open>append(ctrCfg.Finalizers[:0], ctrCfg.Finalizers[1:]...)\<close> writes into the array of
  that slice, so that a retry starts from the shifted array. Slicing an empty list at 1
  panics. The two copies are compared as objects: encoding them and computing a patch
  between two encodings of one object does not fail.
\<close>

definition popFinalizerOnce ::
  "string \<Rightarrow> string list \<times> world \<Rightarrow> error option outcome \<times> (string list \<times> world)" where
  "popFinalizerOnce name s =
     (case s of (finalizers, w) \<Rightarrow>
        (case mccrListerGet name w of
           (Inl err, w1) \<Rightarrow>
             if IsNotFound (Some err) then (Return None, (finalizers, w1))
             else (Return (Some err), (finalizers, w1))
         | (Inr newcfg, w1) \<Rightarrow>
             if length finalizers < 1
             then (Panic ''slice bounds out of range'', (finalizers, w1))
             else (let ctrCfgTmp = newcfg\<lparr>crcFinalizers := tl finalizers\<rparr>;
                       finalizers' = tl finalizers @ [last finalizers];
                       patch = CreateThreeWayJSONMergePatch newcfg ctrCfgTmp
                   in (case ContainerRuntimeConfigsPatch name patch w1 of
                         (err, w2) \<Rightarrow> (Return err, (finalizers', w2))))))"

definition popFinalizerFromContainerRuntimeConfig ::
  "ContainerRuntimeConfig \<Rightarrow> world \<Rightarrow> error option outcome \<times> world" where
  "popFinalizerFromContainerRuntimeConfig ctrCfg w =
     (case RetryOnConflict (popFinalizerOnce (crcName ctrCfg)) (crcFinalizers ctrCfg, w) of
        (r, (finalizers, w')) \<Rightarrow> (r, w'))"

definition addFinalizerOnce :: "string \<Rightarrow> MachineConfig \<Rightarrow> world \<Rightarrow> error option outcome \<times> world" where
  "addFinalizerOnce name mc w =
     (case mccrListerGet name w of
        (Inl err, w1) \<Rightarrow>
          if IsNotFound (Some err) then (Return None, w1) else (Return (Some err), w1)
      | (Inr newcfg, w1) \<Rightarrow>
          (let ctrCfgTmp = (if \<not> InSlice (mcName mc) (crcFinalizers newcfg)
                            then newcfg\<lparr>crcFinalizers := crcFinalizers newcfg @ [mcName mc]\<rparr>
                            else newcfg);
               patch = CreateThreeWayJSONMergePatch newcfg ctrCfgTmp
           in (case ContainerRuntimeConfigsPatch name patch w1 of
                 (err, w2) \<Rightarrow> (Return err, w2))))"

definition addFinalizerToContainerRuntimeConfig ::
  "ContainerRuntimeConfig \<Rightarrow> MachineConfig \<Rightarrow> world \<Rightarrow> error option outcome \<times> world" where
  "addFinalizerToContainerRuntimeConfig ctrCfg mc w =
     RetryOnConflict (addFinalizerOnce (crcName ctrCfg) mc) w"

definition cascadeDelete :: "ContainerRuntimeConfig \<Rightarrow> world \<Rightarrow> error option outcome \<times> world" where
  "cascadeDelete cfg w =
     (if length (crcFinalizers cfg) = 0 then (Return None, w)
      else (let mcName' = crcFinalizers cfg ! 0
            in (case MachineConfigsDelete mcName' w of
                  (err, w1) \<Rightarrow>
                    if err \<noteq> None \<and> \<not> IsNotFound err then (Return err, w1)
                    else (case popFinalizerFromContainerRuntimeConfig cfg w1 of
                            (Panic p, w2) \<Rightarrow> (Panic p, w2)
                          | (Return (Some e), w2) \<Rightarrow> (Return (Some e), w2)
                          | (Return None, w2) \<Rightarrow> (Return None, w2)))))"

subsection \<open>The pools of a ContainerRuntimeConfig\<close>

text \<open>The loop of \<^verbatim>\<open>getPoolsForContainerRuntimeConfig\<close> over the listed pools.\<close>

definition matchedPools :: "Selector \<Rightarrow> MachineConfigPool list \<Rightarrow> MachineConfigPool list" where
  "matchedPools selector pList =
     filter (\<lambda>p. \<not> (Empty selector \<or> \<not> Matches selector (poolLabels p))) pList"

definition getPoolsForContainerRuntimeConfig ::
  "env \<Rightarrow> ContainerRuntimeConfig \<Rightarrow> world \<Rightarrow> (error + MachineConfigPool list) \<times> world" where
  "getPoolsForContainerRuntimeConfig E config w =
     (case mcpListerList Everything w of
        (pList, w1) \<Rightarrow>
          (case LabelSelectorAsSelector (validateLabelKey E) (validateLabelValue E)
                  (crcMachineConfigPoolSelector config) of
             Inl err \<Rightarrow> (Inl (Err (''invalid label selector: '' @ Error err)), w1)
           | Inr selector \<Rightarrow>
               (let pools = matchedPools selector pList
                in if length pools = 0
                   then (Inl (Err (''could not find any MachineConfigPool set for ContainerRuntimeConfig ''
                                    @ crcName config)), w1)
                   else (Inr pools, w1))))"

subsection \<open>The default configuration files\<close>

text \<open>
  One of the three searches of \<^verbatim>\<open>generateOriginalContainerRuntimeConfigs\<close>: the first
  generated config in which the file is found ends the search with a nil error; otherwise
  the error is the one of the last config looked at, and nil when there was none.
\<close>

fun findConfig ::
  "(MachineConfig \<Rightarrow> error + File) \<Rightarrow> MachineConfig list \<Rightarrow> error option \<Rightarrow> File option \<times> error option" where
  "findConfig findFile [] err = (None, err)"
| "findConfig findFile (gmc # gmcs) err =
     (case findFile gmc of
        Inr config \<Rightarrow> (Some config, None)
      | Inl e \<Rightarrow> findConfig findFile gmcs (Some e))"

definition errText :: "error option \<Rightarrow> string" where
  "errText err = (case err of None \<Rightarrow> ''<nil>'' | Some e \<Rightarrow> Error e)"

definition generateOriginalContainerRuntimeConfigs ::
  "env \<Rightarrow> string \<Rightarrow> ControllerConfig \<Rightarrow> string \<Rightarrow> error + (File option \<times> File option \<times> File option)" where
  "generateOriginalContainerRuntimeConfigs E templateDir cc role =
     (case GenerateMachineConfigsForRole E cc role templateDir of
        Inl err \<Rightarrow> Inl (Err (''generateMachineConfigsforRole failed with error '' @ Error err))
      | Inr generatedConfigs \<Rightarrow>
          (case findConfig (findStorageConfig E) generatedConfigs None of
             (gmcStorageConfig, errStorage) \<Rightarrow>
          (case findConfig (findRegistriesConfig E) generatedConfigs None of
             (gmcRegistriesConfig, errRegistries) \<Rightarrow>
          (case findConfig (findPolicyJSON E) generatedConfigs None of
             (gmcPolicyJSON, errPolicy) \<Rightarrow>
               if errStorage \<noteq> None \<or> errRegistries \<noteq> None \<or> errPolicy \<noteq> None
               then Inl (Err (''could not generate old container runtime configs: '' @ errText errStorage
                              @ '', '' @ errText errRegistries @ '', '' @ errText errPolicy))
               else Inr (gmcStorageConfig, gmcRegistriesConfig, gmcPolicyJSON)))))"

text \<open>Reading a field through a nil \<^verbatim>\<open>origFile\<close> panics.\<close>

definition mergeConfigChanges ::
  "env \<Rightarrow> File option \<Rightarrow> ContainerRuntimeConfig
     \<Rightarrow> (string \<Rightarrow> ContainerRuntimeConfiguration \<Rightarrow> error + string) \<Rightarrow> (error + string) outcome" where
  "mergeConfigChanges E origFile cfg update =
     (case origFile of
        None \<Rightarrow> Panic ''nil pointer dereference''
      | Some f \<Rightarrow>
          (case fileSource f of
             None \<Rightarrow> Return (Inl (Err ''original Container Runtime config is empty''))
           | Some source \<Rightarrow>
               (case DecodeString E source of
                  Inl err \<Rightarrow>
                    Return (Inl (Err (''could not decode original Container Runtime config: '' @ Error err)))
                | Inr dataURL \<Rightarrow>
                    (case update dataURL (crcSpec cfg) of
                       Inl err \<Rightarrow>
                         Return (Inl (Err (''could not update container runtime config with new changes: ''
                                           @ Error err)))
                     | Inr cfgTOML \<Rightarrow> Return (Inr cfgTOML)))))"

subsection \<open>The seccomp machine configs\<close>

definition emptyLabelSelector :: LabelSelector where
  "emptyLabelSelector = \<lparr>MatchLabels = [], MatchExpressions = []\<rparr>"

definition builtInSelector :: "env \<Rightarrow> error + Selector" where
  "builtInSelector E =
     LabelSelectorAsSelector (validateLabelKey E) (validateLabelValue E)
       (Some (AddLabelToSelector emptyLabelSelector builtInLabelKey []))"

text \<open>The body of the loop of \<^verbatim>\<open>createSeccompUseDefaultMC\<close>; \<open>None\<close> goes on to the next pool.\<close>

definition createSeccompPool :: "env \<Rightarrow> MachineConfigPool \<Rightarrow> world \<Rightarrow> error option outcome option \<times> world" where
  "createSeccompPool E pool w =
     (let managedKey = getManagedKeySeccomp E pool
      in (case MachineConfigsGet managedKey w of
            ((mc, err), w1) \<Rightarrow>
              (let isNotFound = IsNotFound err
               in if err \<noteq> None \<and> \<not> isNotFound
                  then (Some (Return (Some (Err (''error checking for '' @ managedKey
                                @ '' machine config: '' @ errText err)))), w1)
                  else if mc \<noteq> None \<and> \<not> isNotFound then (None, w1)
                  else (case MachineConfigFromIgnConfig E (poolName pool) managedKey (NewIgnConfig E) of
                          Inl err \<Rightarrow>
                            (Some (Return (Some (Err (''could not create crio-seccomp-use-default MachineConfig from new Ignition config: ''
                                  @ Error err)))), w1)
                        | Inr mc' \<Rightarrow>
                            (case Marshal E (createNewIgnition E (createDefaultSeccompUseDefaultWhenEmptyFile E)) of
                               Inl err \<Rightarrow>
                                 (Some (Return (Some (Err (''error marshalling crio-seccomp-use-default config ignition: ''
                                       @ Error err)))), w1)
                             | Inr rawCapsIgnition \<Rightarrow>
                                 (case RetryOnConflict
                                         (\<lambda>w. case MachineConfigsCreate (mc'\<lparr>mcRaw := rawCapsIgnition\<rparr>) w of
                                                 (err, w') \<Rightarrow> (Return err, w')) w1 of
                                    (Panic p, w2) \<Rightarrow> (Some (Panic p), w2)
                                  | (Return (Some err), w2) \<Rightarrow>
                                      (Some (Return (Some (Err (''could not create MachineConfig for crio-seccomp-use-default: ''
                                            @ Error err)))), w2)
                                  | (Return None, w2) \<Rightarrow> (None, w2)))))))"

fun createSeccompPools :: "env \<Rightarrow> MachineConfigPool list \<Rightarrow> world \<Rightarrow> error option outcome option \<times> world" where
  "createSeccompPools E [] w = (None, w)"
| "createSeccompPools E (pool # pools) w =
     (case createSeccompPool E pool w of
        (Some r, w') \<Rightarrow> (Some r, w')
      | (None, w') \<Rightarrow> createSeccompPools E pools w')"

definition configMapName :: string where
  "configMapName = ''crio-seccomp-use-default-when-empty''"

definition createSeccompUseDefaultMC :: "env \<Rightarrow> world \<Rightarrow> error option outcome \<times> world" where
  "createSeccompUseDefaultMC E w =
     (case ConfigMapsGet configMapName w of
        ((seccompUseDefaultCM, err), w1) \<Rightarrow>
          (let seccompCMIsNotFound = IsNotFound err
           in if err \<noteq> None \<and> \<not> seccompCMIsNotFound
              then (Return (Some (Err (''error checking for '' @ configMapName @ '' config map: ''
                                       @ errText err))), w1)
              else if seccompUseDefaultCM \<noteq> None \<and> \<not> seccompCMIsNotFound then (Return None, w1)
              else (case builtInSelector E of
                      Inl err \<Rightarrow> (Return (Some err), w1)
                    | Inr sel \<Rightarrow>
                        (case mcpListerList sel w1 of
                           (mcpPoolsAll, w2) \<Rightarrow>
                             (case createSeccompPools E mcpPoolsAll w2 of
                                (Some r, w3) \<Rightarrow> (r, w3)
                              | (None, w3) \<Rightarrow>
                                  (case seccompUseDefaultCM of
                                     None \<Rightarrow> (Panic ''nil pointer dereference'', w3)
                                   | Some cm \<Rightarrow>
                                       (case ConfigMapsCreate
                                               (cm\<lparr>cmName := configMapName, cmNamespace := namespace E\<rparr>) w3 of
                                          (Some err, w4) \<Rightarrow>
                                            (Return (Some (Err (''error creating '' @ configMapName
                                                                @ '' config map: '' @ Error err))), w4)
                                        | (None, w4) \<Rightarrow> (Return None, w4))))))))"

subsection \<open>Cleaning up duplicated machine configs\<close>

definition generatedCtrCfg :: string where
  "generatedCtrCfg = ''generated-containerruntime''"

fun cleanUpItems :: "env \<Rightarrow> MachineConfig list \<Rightarrow> world \<Rightarrow> error option \<times> world" where
  "cleanUpItems E [] w = (None, w)"
| "cleanUpItems E (mc # mcs) w =
     (if \<not> Contains (mcName mc) generatedCtrCfg then cleanUpItems E mcs w
      else if at (mcAnnotations mc) (GeneratedByControllerVersionAnnotationKey E) \<noteq> versionHash E
      then (case MachineConfigsDelete (mcName mc) w of
              (Some err, w') \<Rightarrow>
                (Some (Err (''error deleting degraded containerruntime machine config '' @ mcName mc
                            @ '': '' @ Error err)), w')
            | (None, w') \<Rightarrow> cleanUpItems E mcs w')
      else cleanUpItems E mcs w)"

definition cleanUpDuplicatedMC :: "env \<Rightarrow> world \<Rightarrow> error option \<times> world" where
  "cleanUpDuplicatedMC E w =
     (case MachineConfigsList w of
        (Inl err, w1) \<Rightarrow>
          (Some (Err (''error listing containerruntime machine configs: '' @ Error err)), w1)
      | (Inr items, w1) \<Rightarrow> cleanUpItems E items w1)"

subsection \<open>Synchronising a ContainerRuntimeConfig\<close>

text \<open>\<^verbatim>\<open>cache.SplitMetaNamespaceKey\<close>: a name, or a namespace and a name.\<close>

definition SplitMetaNamespaceKey :: "string \<Rightarrow> error + (string \<times> string)" where
  "SplitMetaNamespaceKey key =
     (case Split key CHR ''/'' of
        [name] \<Rightarrow> Inr ([], name)
      | [ns, name] \<Rightarrow> Inr (ns, name)
      | _ \<Rightarrow> Inl (Err (''unexpected key format: '' @ key)))"

definition controllerKindAPIVersion :: string where
  "controllerKindAPIVersion = ''machineconfiguration.openshift.io/v1''"

definition controllerKindKind :: string where
  "controllerKindKind = ''ContainerRuntimeConfig''"

text \<open>\<^verbatim>\<open>metav1.NewControllerRef(cfg, controllerKind)\<close>.\<close>

definition NewControllerRef :: "ContainerRuntimeConfig \<Rightarrow> OwnerReference" where
  "NewControllerRef cfg =
     \<lparr>orAPIVersion = controllerKindAPIVersion, orKind = controllerKindKind,
      orName = crcName cfg, orUID = crcUID cfg, orController = True\<rparr>"

text \<open>
  How one iteration of the loop over the pools ends: at the \<^verbatim>\<open>continue\<close> of line 557,
  at the end of the body, or by returning from the function.
\<close>

datatype iteration = Skip | Applied | Stop "error option outcome"

text \<open>
  The condition of lines 554 to 559. Go evaluates the conjunction from the left and
  indexes the conditions at \<^verbatim>\<open>len - 1\<close> only when the two conjuncts before hold; on an
  empty list that index is out of range. \<open>Return True\<close> is the \<^verbatim>\<open>continue\<close>.
\<close>

definition seenAndCurrent ::
  "env \<Rightarrow> ContainerRuntimeConfig \<Rightarrow> MachineConfig option \<Rightarrow> bool \<Rightarrow> bool outcome" where
  "seenAndCurrent E cfg mc isNotFound =
     (if \<not> isNotFound \<and> crcObservedGeneration cfg \<ge> crcGeneration cfg
      then (if length (crcConditions cfg) = 0 then Panic ''index out of range [-1]''
            else if condType (crcConditions cfg ! (length (crcConditions cfg) - 1)) = ContainerRuntimeConfigSuccess
            then (case mc of
                    None \<Rightarrow> Panic ''nil pointer dereference''
                  | Some m \<Rightarrow>
                      Return (at (mcAnnotations m) (GeneratedByControllerVersionAnnotationKey E) = versionHash E))
            else Return False)
      else Return False)"

text \<open>Lines 566 to 577: the storage config, when an overlay size is set.\<close>

definition storageConfigFiles ::
  "env \<Rightarrow> ContainerRuntimeConfig \<Rightarrow> File option \<Rightarrow> world \<Rightarrow> generatedConfigFile list outcome \<times> world" where
  "storageConfigFiles E cfg originalStorageIgn w =
     (if OverlaySize (crcSpec cfg) \<noteq> 0
      then (case mergeConfigChanges E originalStorageIgn cfg (updateStorageConfig E) of
              Panic p \<Rightarrow> (Panic p, w)
            | Return (Inl err) \<Rightarrow>
                (case syncStatusOnly E cfg (Some err) [] w of
                   (Panic p, w') \<Rightarrow> (Panic p, w')
                 | (Return _, w') \<Rightarrow> (Return [], w'))
            | Return (Inr storageTOML) \<Rightarrow>
                (case syncStatusOnly E cfg None [] w of
                   (Panic p, w') \<Rightarrow> (Panic p, w')
                 | (Return _, w') \<Rightarrow>
                     (Return [\<lparr>filePath = storageConfigPath E, data = Some storageTOML\<rparr>], w')))
      else (Return [], w))"

text \<open>
  Lines 585 to 603: a machine config that was not found is made anew, and a numeric
  suffix of its name is kept as an annotation of the ContainerRuntimeConfig. \<open>Inl\<close>
  returns from the function.
\<close>

definition newMachineConfig ::
  "env \<Rightarrow> ContainerRuntimeConfig \<Rightarrow> string \<Rightarrow> string \<Rightarrow> world
     \<Rightarrow> (error option outcome + MachineConfig option) \<times> world" where
  "newMachineConfig E cfg role managedKey w =
     (case MachineConfigFromIgnConfig E role managedKey (NewIgnConfig E) of
        Inl err \<Rightarrow>
          (case syncStatusOnly E cfg (Some err)
                  [ArgStr ''could not create MachineConfig from new Ignition config: %v'', ArgErr err] w of
             (r, w') \<Rightarrow> (Inl r, w'))
      | Inr mc \<Rightarrow>
          (let ok = (crcAnnotations cfg (MCNameSuffixAnnotationKey E) \<noteq> None);
               arr = Split managedKey CHR ''-''
           in if length arr > 4 \<and> \<not> ok
              then (case Atoi (arr ! (length arr - 1)) of
                      Inl _ \<Rightarrow> (Inr (Some mc), w)
                    | Inr _ \<Rightarrow>
                        (case addAnnotation cfg (MCNameSuffixAnnotationKey E) (arr ! (length arr - 1)) w of
                           (Panic p, w') \<Rightarrow> (Inl (Panic p), w')
                         | (Return (Some err), w') \<Rightarrow>
                             (case syncStatusOnly E cfg (Some err)
                                     [ArgStr ''could not update annotation for containerRuntimeConfig''] w' of
                                (r, w'') \<Rightarrow> (Inl r, w''))
                         | (Return None, w') \<Rightarrow> (Inr (Some mc), w')))
              else (Inr (Some mc), w)))"

text \<open>Lines 605 to 634: the payload, the version stamp, the owner, the write, the finalizer.\<close>

definition writeMachineConfig ::
  "env \<Rightarrow> ContainerRuntimeConfig \<Rightarrow> generatedConfigFile list \<Rightarrow> MachineConfig option \<Rightarrow> bool \<Rightarrow> world
     \<Rightarrow> iteration \<times> world" where
  "writeMachineConfig E cfg configFileList mc isNotFound w =
     (case Marshal E (createNewIgnition E configFileList) of
        Inl err \<Rightarrow>
          (case syncStatusOnly E cfg (Some err)
                  [ArgStr ''error marshalling container runtime config Ignition: %v'', ArgErr err] w of
             (r, w') \<Rightarrow> (Stop r, w'))
      | Inr rawCtrRuntimeConfigIgn \<Rightarrow>
          (case mc of
             None \<Rightarrow> (Stop (Panic ''nil pointer dereference''), w)
           | Some m \<Rightarrow>
               (let mc' = m\<lparr>mcRaw := rawCtrRuntimeConfigIgn,
                             mcAnnotations := [GeneratedByControllerVersionAnnotationKey E \<mapsto> versionHash E],
                             mcOwnerReferences := [NewControllerRef cfg]\<rparr>
                in (case RetryOnConflict
                           (\<lambda>w. case (if isNotFound then MachineConfigsCreate mc' w
                                       else MachineConfigsUpdate mc' w) of
                                   (err, w') \<Rightarrow> (Return err, w')) w of
                      (Panic p, w1) \<Rightarrow> (Stop (Panic p), w1)
                    | (Return (Some err), w1) \<Rightarrow>
                        (case syncStatusOnly E cfg (Some err)
                                [ArgStr ''could not Create/Update MachineConfig: %v'', ArgErr err] w1 of
                           (r, w') \<Rightarrow> (Stop r, w'))
                    | (Return None, w1) \<Rightarrow>
                        (case addFinalizerToContainerRuntimeConfig cfg mc' w1 of
                           (Panic p, w2) \<Rightarrow> (Stop (Panic p), w2)
                         | (Return (Some err), w2) \<Rightarrow>
                             (case syncStatusOnly E cfg (Some err)
                                     [ArgStr ''could not add finalizers to ContainerRuntimeConfig: %v'',
                                      ArgErr err] w2 of
                                (r, w') \<Rightarrow> (Stop r, w'))
                         | (Return None, w2) \<Rightarrow> (Applied, w2))))))"

text \<open>Lines 560 to 634: the machine config of the pool is generated and written.\<close>

definition applyPool ::
  "env \<Rightarrow> ContainerRuntimeConfig \<Rightarrow> ControllerConfig \<Rightarrow> string \<Rightarrow> string \<Rightarrow> MachineConfig option \<Rightarrow> bool
     \<Rightarrow> world \<Rightarrow> iteration \<times> world" where
  "applyPool E cfg controllerConfig role managedKey mc isNotFound w =
     (case generateOriginalContainerRuntimeConfigs E (templatesDir E) controllerConfig role of
        Inl err \<Rightarrow>
          (case syncStatusOnly E cfg (Some err)
                  [ArgStr ''could not generate origin ContainerRuntime Configs: %v'', ArgErr err] w of
             (r, w') \<Rightarrow> (Stop r, w'))
      | Inr (originalStorageIgn, _, _) \<Rightarrow>
          (case storageConfigFiles E cfg originalStorageIgn w of
             (Panic p, w1) \<Rightarrow> (Stop (Panic p), w1)
           | (Return storageFiles, w1) \<Rightarrow>
               (let ctrcfg = crcSpec cfg;
                    configFileList =
                      (if LogLevel ctrcfg \<noteq> [] \<or> PidsLimit ctrcfg \<noteq> None \<or> LogSizeMax ctrcfg \<noteq> 0
                       then storageFiles @ createCRIODropinFiles E cfg
                       else storageFiles)
                in if isNotFound
                   then (case newMachineConfig E cfg role managedKey w1 of
                           (Inl r, w2) \<Rightarrow> (Stop r, w2)
                         | (Inr mc', w2) \<Rightarrow> writeMachineConfig E cfg configFileList mc' isNotFound w2)
                   else writeMachineConfig E cfg configFileList mc isNotFound w1)))"

text \<open>The body of the loop over the pools.\<close>

definition syncPool ::
  "env \<Rightarrow> ContainerRuntimeConfig \<Rightarrow> ControllerConfig \<Rightarrow> MachineConfigPool \<Rightarrow> world \<Rightarrow> iteration \<times> world" where
  "syncPool E cfg controllerConfig pool w =
     (let role = poolName pool
      in (case getManagedKeyCtrCfg E pool cfg w of
            (Inl err, w0) \<Rightarrow>
              (case syncStatusOnly E cfg (Some err) [ArgStr ''could not get ctrcfg key: %v'', ArgErr err] w0 of
                 (r, w') \<Rightarrow> (Stop r, w'))
          | (Inr managedKey, w0) \<Rightarrow>
              (case MachineConfigsGet managedKey w0 of
                 ((mc, err), w1) \<Rightarrow>
                   (let isNotFound = IsNotFound err
                    in if err \<noteq> None \<and> \<not> isNotFound
                       then (case syncStatusOnly E cfg err
                                    [ArgStr ''could not find MachineConfig: %v'', ArgStr managedKey] w1 of
                               (r, w') \<Rightarrow> (Stop r, w'))
                       else (case seenAndCurrent E cfg mc isNotFound of
                               Panic p \<Rightarrow> (Stop (Panic p), w1)
                             | Return True \<Rightarrow> (Skip, w1)
                             | Return False \<Rightarrow>
                                 applyPool E cfg controllerConfig role managedKey mc isNotFound w1)))))"

fun syncPools ::
  "env \<Rightarrow> ContainerRuntimeConfig \<Rightarrow> ControllerConfig \<Rightarrow> MachineConfigPool list \<Rightarrow> world
     \<Rightarrow> error option outcome option \<times> world" where
  "syncPools E cfg controllerConfig [] w = (None, w)"
| "syncPools E cfg controllerConfig (pool # pools) w =
     (case syncPool E cfg controllerConfig pool w of
        (Stop r, w') \<Rightarrow> (Some r, w')
      | (Skip, w') \<Rightarrow> syncPools E cfg controllerConfig pools w'
      | (Applied, w') \<Rightarrow> syncPools E cfg controllerConfig pools w')"

definition forceSyncOnUpgrade :: string where
  "forceSyncOnUpgrade = ''force-sync-on-upgrade''"

definition syncContainerRuntimeConfig :: "env \<Rightarrow> string \<Rightarrow> world \<Rightarrow> error option outcome \<times> world" where
  "syncContainerRuntimeConfig E key w =
     (case createSeccompUseDefaultMC E w of
        (Panic p, w1) \<Rightarrow> (Panic p, w1)
      | (Return (Some err), w1) \<Rightarrow>
          (Return (Some (Err (''failed to create the crio-seccomp-use-default MC: '' @ Error err))), w1)
      | (Return None, w1) \<Rightarrow>
          if key = forceSyncOnUpgrade then (Return None, w1)
          else (case SplitMetaNamespaceKey key of
                  Inl err \<Rightarrow> (Return (Some err), w1)
                | Inr (_, name) \<Rightarrow>
          (case mccrListerGet name w1 of
             (Inl err, w2) \<Rightarrow>
               if IsNotFound (Some err) then (Return None, w2) else (Return (Some err), w2)
           | (Inr cfg, w2) \<Rightarrow>
               if crcDeletionTimestamp cfg \<noteq> None
               then (if length (crcFinalizers cfg) > 0 then cascadeDelete cfg w2 else (Return None, w2))
               else (case validateUserContainerRuntimeConfig E cfg of
                       Some err \<Rightarrow> syncStatusOnly E cfg (Some err) [] w2
                     | None \<Rightarrow>
          (case ccListerGet w2 of
             (Inl err, w3) \<Rightarrow> (Return (Some (Err (''could not get ControllerConfig '' @ Error err))), w3)
           | (Inr controllerConfig, w3) \<Rightarrow>
          (case getPoolsForContainerRuntimeConfig E cfg w3 of
             (Inl err, w4) \<Rightarrow> syncStatusOnly E cfg (Some err) [] w4
           | (Inr mcpPools, w4) \<Rightarrow>
          (case syncPools E cfg controllerConfig mcpPools w4 of
             (Some r, w5) \<Rightarrow> (r, w5)
           | (None, w5) \<Rightarrow>
          (case cleanUpDuplicatedMC E w5 of
             (Some err, w6) \<Rightarrow> (Return (Some err), w6)
           | (None, w6) \<Rightarrow> syncStatusOnly E cfg None [] w6))))))))"

text \<open>
  \<^verbatim>\<open>processNextWorkItem\<close> for the key that \<^verbatim>\<open>Get\<close> took from the queue: the key is
  synchronised and the result handed to \<^verbatim>\<open>handleErr\<close>. A panic ends the worker.
\<close>

definition processNextWorkItem :: "env \<Rightarrow> string \<Rightarrow> world \<Rightarrow> bool outcome \<times> world" where
  "processNextWorkItem E key w =
     (case syncContainerRuntimeConfig E key w of
        (Panic p, w') \<Rightarrow> (Panic p, w')
      | (Return err, w') \<Rightarrow> (Return True, handleErr err key w'))"

subsection \<open>Synchronising the image config\<close>

definition registriesConfigIgnition ::
  "env \<Rightarrow> string \<Rightarrow> ControllerConfig \<Rightarrow> string \<Rightarrow> string list option \<Rightarrow> string list option
     \<Rightarrow> string list option \<Rightarrow> string list option \<Rightarrow> ImageContentSourcePolicy list
     \<Rightarrow> (error + IgnConfig) outcome" where
  "registriesConfigIgnition E templateDir controllerConfig role insecureRegs blockedRegs allowedRegs
       searchRegs icspRules =
     (case generateOriginalContainerRuntimeConfigs E templateDir controllerConfig role of
        Inl err \<Rightarrow> Return (Inl (Err (''could not generate origin ContainerRuntime Configs: '' @ Error err)))
      | Inr (_, originalRegistriesIgn, originalPolicyIgn) \<Rightarrow>
          (case (if insecureRegs \<noteq> None \<or> blockedRegs \<noteq> None \<or> length icspRules \<noteq> 0
                 then (case originalRegistriesIgn of
                         None \<Rightarrow> Panic ''nil pointer dereference''
                       | Some f \<Rightarrow>
                           (case fileSource f of
                              None \<Rightarrow> Return (Inl (Err ''original registries config is empty''))
                            | Some source \<Rightarrow>
                                (case DecodeString E source of
                                   Inl err \<Rightarrow>
                                     Return (Inl (Err (''could not decode original registries config: ''
                                                       @ Error err)))
                                 | Inr dataURL \<Rightarrow>
                                     (case updateRegistriesConfig E dataURL insecureRegs blockedRegs icspRules of
                                        Inl err \<Rightarrow>
                                          Return (Inl (Err (''could not update registries config with new changes: ''
                                                            @ Error err)))
                                      | Inr toml \<Rightarrow> Return (Inr (Some toml))))))
                 else Return (Inr None)) of
             Panic p \<Rightarrow> Panic p
           | Return (Inl err) \<Rightarrow> Return (Inl err)
           | Return (Inr registriesTOML) \<Rightarrow>
          (case (if blockedRegs \<noteq> None \<or> allowedRegs \<noteq> None
                 then (case originalPolicyIgn of
                         None \<Rightarrow> Panic ''nil pointer dereference''
                       | Some f \<Rightarrow>
                           (case fileSource f of
                              None \<Rightarrow> Return (Inl (Err ''original policy json is empty''))
                            | Some source \<Rightarrow>
                                (case DecodeString E source of
                                   Inl err \<Rightarrow>
                                     Return (Inl (Err (''could not decode original policy json: '' @ Error err)))
                                 | Inr dataURL \<Rightarrow>
                                     (case updatePolicyJSON E dataURL blockedRegs allowedRegs of
                                        Inl err \<Rightarrow>
                                          Return (Inl (Err (''could not update policy json with new changes: ''
                                                            @ Error err)))
                                      | Inr json \<Rightarrow> Return (Inr (Some json))))))
                 else Return (Inr None)) of
             Panic p \<Rightarrow> Panic p
           | Return (Inl err) \<Rightarrow> Return (Inl err)
           | Return (Inr policyJSON) \<Rightarrow>
               (let generatedConfigFileList =
                      [\<lparr>filePath = registriesConfigPath E, data = registriesTOML\<rparr>,
                       \<lparr>filePath = policyConfigPath E, data = policyJSON\<rparr>]
                      @ (case searchRegs of None \<Rightarrow> [] | Some regs \<Rightarrow> updateSearchRegistriesConfig E regs)
                in Return (Inr (createNewIgnition E generatedConfigFileList))))))"

definition imageOwnerReference :: "Image \<Rightarrow> OwnerReference" where
  "imageOwnerReference imgcfg =
     \<lparr>orAPIVersion = ''config.openshift.io/v1'', orKind = ''Image'',
      orName = imgName imgcfg, orUID = imgUID imgcfg, orController = False\<rparr>"

text \<open>
  The function retried for one pool by \<^verbatim>\<open>syncImageConfig\<close>. Its state is the world and
  the variable \<^verbatim>\<open>applied\<close>, which it clears when it leaves the machine config as it is.
\<close>

definition syncImagePoolOnce ::
  "env \<Rightarrow> ControllerConfig \<Rightarrow> string \<Rightarrow> Image \<Rightarrow> string list option
     \<Rightarrow> ImageContentSourcePolicy list \<Rightarrow> string \<Rightarrow> bool \<times> world \<Rightarrow> error option outcome \<times> (bool \<times> world)" where
  "syncImagePoolOnce E controllerConfig role imgcfg blockedRegs icspRules managedKey s =
     (case s of (applied, w) \<Rightarrow>
     (case registriesConfigIgnition E (templatesDir E) controllerConfig role
             (InsecureRegistries imgcfg) blockedRegs (AllowedRegistries imgcfg)
             (ContainerRuntimeSearchRegistries imgcfg) icspRules of
        Panic p \<Rightarrow> (Panic p, (applied, w))
      | Return (Inl err) \<Rightarrow> (Return (Some err), (applied, w))
      | Return (Inr registriesIgn) \<Rightarrow>
     (case Marshal E registriesIgn of
        Inl err \<Rightarrow>
          (Return (Some (Err (''could not encode registries Ignition config: '' @ Error err))), (applied, w))
      | Inr rawRegistriesIgn \<Rightarrow>
     (case MachineConfigsGet managedKey w of
        ((mc, err), w1) \<Rightarrow>
          if err \<noteq> None \<and> \<not> IsNotFound err
          then (Return (Some (Err (''could not find MachineConfig: '' @ errText err))), (applied, w1))
          else (let isNotFound = IsNotFound err
                in (case (if \<not> isNotFound
                          then (case mc of
                                  None \<Rightarrow> Panic ''nil pointer dereference''
                                | Some m \<Rightarrow>
                                    Return (rawRegistriesIgn = mcRaw m
                                            \<and> at (mcAnnotations m) (GeneratedByControllerVersionAnnotationKey E)
                                                = versionHash E))
                          else Return False) of
                      Panic p \<Rightarrow> (Panic p, (applied, w1))
                    | Return True \<Rightarrow> (Return None, (False, w1))
                    | Return False \<Rightarrow>
                        (case (if isNotFound
                               then (case MachineConfigFromIgnConfig E role managedKey (NewIgnConfig E) of
                                       Inl err \<Rightarrow>
                                         Inl (Err (''could not create MachineConfig from new Ignition config: ''
                                                   @ Error err))
                                     | Inr mc' \<Rightarrow> Inr (Some mc'))
                               else Inr mc) of
                           Inl err \<Rightarrow> (Return (Some err), (applied, w1))
                         | Inr None \<Rightarrow> (Panic ''nil pointer dereference'', (applied, w1))
                         | Inr (Some m) \<Rightarrow>
                             (let mc' = m\<lparr>mcRaw := rawRegistriesIgn,
                                           mcAnnotations :=
                                             [GeneratedByControllerVersionAnnotationKey E \<mapsto> versionHash E],
                                           mcOwnerReferences := [imageOwnerReference imgcfg]\<rparr>
                              in (case (if isNotFound then MachineConfigsCreate mc' w1
                                        else MachineConfigsUpdate mc' w1) of
                                    (err, w2) \<Rightarrow> (Return err, (applied, w2)))))))))))"

definition syncImagePool ::
  "env \<Rightarrow> ControllerConfig \<Rightarrow> Image \<Rightarrow> string list option \<Rightarrow> ImageContentSourcePolicy list
     \<Rightarrow> MachineConfigPool \<Rightarrow> world \<Rightarrow> error option outcome option \<times> world" where
  "syncImagePool E controllerConfig imgcfg blockedRegs icspRules pool w =
     (let role = poolName pool
      in (case getManagedKeyReg E pool w of
            (Inl err, w0) \<Rightarrow> (Some (Return (Some err)), w0)
          | (Inr managedKey, w0) \<Rightarrow>
              (case RetryOnConflict
                      (syncImagePoolOnce E controllerConfig role imgcfg blockedRegs icspRules managedKey)
                      (True, w0) of
                 (Panic p, (applied, w1)) \<Rightarrow> (Some (Panic p), w1)
               | (Return (Some err), (applied, w1)) \<Rightarrow>
                   (Some (Return (Some (Err (''could not Create/Update MachineConfig: '' @ Error err)))), w1)
               | (Return None, (applied, w1)) \<Rightarrow> (None, w1))))"

fun syncImagePools ::
  "env \<Rightarrow> ControllerConfig \<Rightarrow> Image \<Rightarrow> string list option \<Rightarrow> ImageContentSourcePolicy list
     \<Rightarrow> MachineConfigPool list \<Rightarrow> world \<Rightarrow> error option outcome option \<times> world" where
  "syncImagePools E controllerConfig imgcfg blockedRegs icspRules [] w = (None, w)"
| "syncImagePools E controllerConfig imgcfg blockedRegs icspRules (pool # pools) w =
     (case syncImagePool E controllerConfig imgcfg blockedRegs icspRules pool w of
        (Some r, w') \<Rightarrow> (Some r, w')
      | (None, w') \<Rightarrow> syncImagePools E controllerConfig imgcfg blockedRegs icspRules pools w')"

definition syncImageConfig :: "env \<Rightarrow> string \<Rightarrow> world \<Rightarrow> error option outcome \<times> world" where
  "syncImageConfig E key w =
     (case imgListerGet w of
        (Inl err, w1) \<Rightarrow>
          if IsNotFound (Some err) then (Return None, w1) else (Return (Some err), w1)
      | (Inr imgcfg, w1) \<Rightarrow>
     (case clusterVersionListerGet w1 of
        (Inl err, w2) \<Rightarrow>
          if IsNotFound (Some err) then (Return None, w2) else (Return (Some err), w2)
      | (Inr clusterVersionCfg, w2) \<Rightarrow>
     (case getValidBlockedRegistries E (cvDesiredImage clusterVersionCfg) imgcfg of
        (blockedRegs, err) \<Rightarrow>
          if \<not> (err \<noteq> None \<and> err \<noteq> Some (errParsingReference E)) \<and> err = Some (errParsingReference E)
          then (Return err, w2)
          else
     (case ccListerGet w2 of
        (Inl err, w3) \<Rightarrow> (Return (Some (Err (''could not get ControllerConfig '' @ Error err))), w3)
      | (Inr controllerConfig, w3) \<Rightarrow>
     (case icspListerList w3 of
        (icspRules, w4) \<Rightarrow>
     (case builtInSelector E of
        Inl err \<Rightarrow> (Return (Some err), w4)
      | Inr sel \<Rightarrow>
     (case mcpListerList sel w4 of
        (mcpPools, w5) \<Rightarrow>
     (case syncImagePools E controllerConfig imgcfg blockedRegs icspRules mcpPools w5 of
        (Some r, w6) \<Rightarrow> (r, w6)
      | (None, w6) \<Rightarrow> (Return None, w6)))))))))"

subsection \<open>A sample cluster\<close>

text \<open>
  An instance of the parameters and some worlds, on which the theorems below are
  evaluated. The instance stands for the code that is not embedded: keys follow the
  pattern \<^verbatim>\<open>99-<pool>-generated-<kind>\<close>, the encoder writes the paths and contents of the
  files one after the other, and a condition carries the text of the error.
\<close>

text \<open>
  Modelled from the spec: \<^verbatim>\<open>validateUserContainerRuntimeConfig\<close> is not among the source
  files; of its rules ("log level must be one of a fixed enum, pids limit positive,
  sizes non-negative quantities") the sample checks the pids limit and the sizes.
\<close>

definition sampleValidate :: "ContainerRuntimeConfig \<Rightarrow> error option" where
  "sampleValidate cfg =
     (if (case PidsLimit (crcSpec cfg) of None \<Rightarrow> False | Some n \<Rightarrow> n \<le> 0)
      then Some (Err ''invalid PidsLimit'')
      else if LogSizeMax (crcSpec cfg) < 0 \<or> OverlaySize (crcSpec cfg) < 0
      then Some (Err ''invalid size'')
      else None)"

definition sampleCondition :: "nat \<Rightarrow> error option \<Rightarrow> arg list \<Rightarrow> Condition" where
  "sampleCondition now err args =
     (case err of
        None \<Rightarrow> \<lparr>condType = ContainerRuntimeConfigSuccess, condStatus = True,
                 condMessage = ''Success'', condLastTransitionTime = now\<rparr>
      | Some e \<Rightarrow> \<lparr>condType = ContainerRuntimeConfigFailure, condStatus = False,
                   condMessage = ''Error: '' @ Error e, condLastTransitionTime = now\<rparr>)"

definition sampleFile :: "string \<Rightarrow> File" where
  "sampleFile p = \<lparr>filePathIgn = p, fileSource = Some ''default''\<rparr>"

definition sampleMarshal :: "IgnConfig \<Rightarrow> error + string" where
  "sampleMarshal ign =
     Inr (concat (map (\<lambda>f. filePathIgn f @ ''='' @ (case fileSource f of None \<Rightarrow> [] | Some s \<Rightarrow> s) @ '';'') ign))"

definition sampleMachineConfig :: "string \<Rightarrow> string \<Rightarrow> MachineConfig" where
  "sampleMachineConfig role name =
     \<lparr>mcName = name, mcRole = role, mcAnnotations = Map.empty, mcRaw = [], mcOwnerReferences = []\<rparr>"

definition versionKey :: string where
  "versionKey = ''machineconfiguration.openshift.io/generated-by-controller-version''"

definition E0 :: env where
  "E0 = \<lparr>templatesDir = ''/etc/mcc/templates'',
          namespace = ''openshift-machine-config-operator'',
          versionHash = ''v2'',
          GeneratedByControllerVersionAnnotationKey = versionKey,
          MCNameSuffixAnnotationKey = ''machineconfiguration.openshift.io/mc-name-suffix'',
          storageConfigPath = ''/etc/containers/storage.conf'',
          registriesConfigPath = ''/etc/containers/registries.conf'',
          policyConfigPath = ''/etc/containers/policy.json'',
          errParsingReference = Err ''error parsing reference of release image'',
          validateLabelKey = (\<lambda>k. k \<noteq> []),
          validateLabelValue = (\<lambda>v. True),
          validateUserContainerRuntimeConfig = sampleValidate,
          wrapErrorWithCondition = sampleCondition,
          getManagedKeyCtrCfg = (\<lambda>pool cfg w. (Inr (''99-'' @ poolName pool @ ''-generated-containerruntime''), w)),
          getManagedKeyReg = (\<lambda>pool w. (Inr (''99-'' @ poolName pool @ ''-generated-registries''), w)),
          getManagedKeySeccomp = (\<lambda>pool. ''99-'' @ poolName pool @ ''-generated-crio-seccomp-use-default''),
          GenerateMachineConfigsForRole = (\<lambda>cc role dir. Inr [sampleMachineConfig role ''00-'']),
          findStorageConfig = (\<lambda>mc. Inr (sampleFile ''/etc/containers/storage.conf'')),
          findRegistriesConfig = (\<lambda>mc. Inr (sampleFile ''/etc/containers/registries.conf'')),
          findPolicyJSON = (\<lambda>mc. Inr (sampleFile ''/etc/containers/policy.json'')),
          DecodeString = (\<lambda>s. Inr s),
          updateStorageConfig = (\<lambda>d c. Inr (d @ ''+size'')),
          updateRegistriesConfig = (\<lambda>d insecure blocked icsp. Inr (d @ ''+registries'')),
          updatePolicyJSON = (\<lambda>d blocked allowed. Inr (d @ ''+policy'')),
          updateSearchRegistriesConfig = (\<lambda>regs. [\<lparr>filePath = ''/etc/containers/registries.conf.d/01-search.conf'',
                                                       data = Some (concat regs)\<rparr>]),
          createCRIODropinFiles = (\<lambda>cfg. [\<lparr>filePath = ''/etc/crio/crio.conf.d/01-ctrcfg'', data = Some ''crio''\<rparr>]),
          createDefaultSeccompUseDefaultWhenEmptyFile =
            [\<lparr>filePath = ''/etc/crio/crio.conf.d/01-mc-seccompUseDefault'', data = Some ''seccomp''\<rparr>],
          createNewIgnition = map (\<lambda>f. \<lparr>filePathIgn = filePath f, fileSource = data f\<rparr>),
          NewIgnConfig = [],
          Marshal = sampleMarshal,
          MachineConfigFromIgnConfig = (\<lambda>role name ign. Inr (sampleMachineConfig role name)),
          getValidBlockedRegistries = (\<lambda>image img. (BlockedRegistries img, None))\<rparr>"

definition emptyQueue :: workqueue where
  "emptyQueue = \<lparr>failures = (\<lambda>k. 0), scheduled = []\<rparr>"

definition workerPool :: MachineConfigPool where
  "workerPool = \<lparr>poolName = ''worker'',
                  poolLabels = [''pools.operator.machineconfiguration.openshift.io/worker'' \<mapsto> [],
                                builtInLabelKey \<mapsto> []]\<rparr>"

definition workerSelector :: LabelSelector where
  "workerSelector =
     \<lparr>MatchLabels = [(''pools.operator.machineconfiguration.openshift.io/worker'', [])],
      MatchExpressions = []\<rparr>"

definition marker :: ConfigMap where
  "marker = \<lparr>cmName = configMapName, cmNamespace = ''openshift-machine-config-operator''\<rparr>"

text \<open>A ContainerRuntimeConfig that sets a pids limit for the worker pool.\<close>

definition pidsCfg :: ContainerRuntimeConfig where
  "pidsCfg = \<lparr>crcName = ''set-pids'', crcUID = ''uid-1'', crcAnnotations = Map.empty,
               crcFinalizers = [], crcDeletionTimestamp = None, crcGeneration = 1,
               crcMachineConfigPoolSelector = Some workerSelector,
               crcSpec = \<lparr>LogLevel = [], PidsLimit = Some 2048, LogSizeMax = 0, OverlaySize = 0\<rparr>,
               crcObservedGeneration = 0, crcConditions = []\<rparr>"

text \<open>A world with the marker config map, one pool and one ContainerRuntimeConfig.\<close>

definition worldOf :: "ContainerRuntimeConfig \<Rightarrow> MachineConfig list \<Rightarrow> fault list \<Rightarrow> world" where
  "worldOf cfg mcs fs =
     \<lparr>mccrLister = [cfg], ccLister = Some ''controller-config'', mcpLister = [workerPool],
      imgLister = None, clusterVersionLister = None, icspLister = [],
      containerRuntimeConfigs = [cfg], machineConfigs = mcs, configMaps = [marker],
      faults = fs, trace = [], queue = emptyQueue, imgQueue = emptyQueue, errorSink = [], clock = 7\<rparr>"

text \<open>A queue in which every key has used up its retries.\<close>

definition droppedQueue :: workqueue where
  "droppedQueue = \<lparr>failures = (\<lambda>k. 15), scheduled = []\<rparr>"

text \<open>A ContainerRuntimeConfig that carries an annotation of its owner's.\<close>

definition annotatedCfg :: ContainerRuntimeConfig where
  "annotatedCfg = pidsCfg\<lparr>crcAnnotations := [''team'' \<mapsto> ''a'']\<rparr>"

subsection \<open>Notions used in the properties\<close>

text \<open>The calls of an attempt to remove the last finalizer of the ContainerRuntimeConfig \<open>name\<close>.\<close>

definition popCalls :: "string \<Rightarrow> call set" where
  "popCalls name =
     {ListerGetContainerRuntimeConfig name, PatchContainerRuntimeConfig name (SetFinalizers [])}"

text \<open>A ContainerRuntimeConfig under deletion that owns the machine config of the worker pool.\<close>

definition deletedCfg :: ContainerRuntimeConfig where
  "deletedCfg = pidsCfg\<lparr>crcDeletionTimestamp := Some 5,
                         crcFinalizers := [''99-worker-generated-containerruntime'']\<rparr>"

definition workerMC :: MachineConfig where
  "workerMC = sampleMachineConfig ''worker'' ''99-worker-generated-containerruntime''"

text \<open>
  A ContainerRuntimeConfig whose generation has been seen and synchronised with success,
  and the machine config of the worker pool as written by this build and by an older one.
\<close>

definition syncedCfg :: ContainerRuntimeConfig where
  "syncedCfg = pidsCfg\<lparr>crcFinalizers := [''99-worker-generated-containerruntime''],
                        crcObservedGeneration := 1,
                        crcConditions := [sampleCondition 3 None []]\<rparr>"

definition currentMC :: MachineConfig where
  "currentMC = workerMC\<lparr>mcAnnotations := [versionKey \<mapsto> ''v2'']\<rparr>"

definition staleMC :: MachineConfig where
  "staleMC = workerMC\<lparr>mcAnnotations := [versionKey \<mapsto> ''v1'']\<rparr>"

text \<open>A ContainerRuntimeConfig whose generation counts as observed and that has no condition.\<close>

definition seenCfg :: ContainerRuntimeConfig where
  "seenCfg = pidsCfg\<lparr>crcObservedGeneration := 1\<rparr>"

text \<open>The calls of an attempt to update the status of the ContainerRuntimeConfig \<open>name\<close>.\<close>

definition statusCalls :: "string \<Rightarrow> call set" where
  "statusCalls name =
     {ListerGetContainerRuntimeConfig name, UpdateStatusContainerRuntimeConfig name}"

text \<open>A ContainerRuntimeConfig with a pids limit that validation refuses.\<close>

definition invalidCfg :: ContainerRuntimeConfig where
  "invalidCfg = pidsCfg\<lparr>crcSpec := \<lparr>LogLevel = [], PidsLimit = Some 0, LogSizeMax = 0, OverlaySize = 0\<rparr>\<rparr>"



text \<open>A world whose calls begin with the calls of another.\<close>

definition later :: "world \<Rightarrow> world \<Rightarrow> bool" where
  "later w w' = prefix (trace w) (trace w')"

text \<open>
  An image config with one insecure registry, the payload rendered from it for the
  worker pool, and the registries machine config of that pool as written by the build
  \<open>v\<close>.
\<close>

definition sampleImage :: Image where
  "sampleImage = \<lparr>imgName = ''cluster'', imgUID = ''uid-2'',
                   InsecureRegistries = Some [''local.registry:5000''], BlockedRegistries = None,
                   AllowedRegistries = None, ContainerRuntimeSearchRegistries = None\<rparr>"

definition registriesPayload :: string where
  "registriesPayload =
     ''/etc/containers/registries.conf=default+registries;/etc/containers/policy.json=;''"

definition registriesMC :: "string \<Rightarrow> MachineConfig" where
  "registriesMC v = \<lparr>mcName = ''99-worker-generated-registries'', mcRole = ''worker'',
                      mcAnnotations = [versionKey \<mapsto> v], mcRaw = registriesPayload,
                      mcOwnerReferences = []\<rparr>"

text \<open>A selector for a pool that the sample cluster does not have.\<close>

definition infraSelector :: LabelSelector where
  "infraSelector =
     \<lparr>MatchLabels = [(''pools.operator.machineconfiguration.openshift.io/infra'', [])],
      MatchExpressions = []\<rparr>"

section \<open>Properties\<close>

subsection \<open>Stores and retries\<close>

lemma getByName_name: "getByName nameOf name xs = Some x \<Longrightarrow> nameOf x = name"
  unfolding getByName_def by (induction xs) (auto split: if_splits)

lemma getByName_mem: "getByName nameOf name xs = Some x \<Longrightarrow> x \<in> set xs"
  unfolding getByName_def by (induction xs) (auto split: if_splits)

lemma getByName_replace:
  "getByName nameOf name xs = Some old \<Longrightarrow> nameOf obj = name
     \<Longrightarrow> getByName nameOf name (replaceByName nameOf name obj xs) = Some obj"
  unfolding getByName_def replaceByName_def by (induction xs) (auto split: if_splits)

lemma getByName_delete: "getByName nameOf name (deleteByName nameOf name xs) = None"
  unfolding getByName_def deleteByName_def by (induction xs) auto


text \<open>A retried function that succeeded did so in its last run.\<close>

lemma retrySteps_success:
  assumes "retrySteps n fn s = (Return None, s')" and "0 < n"
    and "I s" and "\<And>s r t. I s \<Longrightarrow> fn s = (r, t) \<Longrightarrow> I t"
  shows "\<exists>s0. I s0 \<and> fn s0 = (Return None, s')"
  using assms(1,2,3)
proof (induction n arbitrary: s)
  case 0
  then show ?case by simp
next
  case (Suc n)
  obtain r t where step: "fn s = (r, t)" by (cases "fn s")
  have It: "I t" using assms(4) Suc.prems(3) step by blast
  show ?case
  proof (cases r)
    case (Panic p)
    with step Suc.prems(1) show ?thesis by simp
  next
    case (Return eo)
    show ?thesis
    proof (cases eo)
      case None
      with step Return Suc.prems(1,3) show ?thesis by auto
    next
      case (Some e)
      show ?thesis
      proof (cases "IsConflict (Some e) \<and> n \<noteq> 0")
        case True
        with step Return Some Suc.prems(1) have "retrySteps n fn t = (Return None, s')" by simp
        with True It Suc.IH show ?thesis by blast
      next
        case False
        with step Return Some Suc.prems(1) show ?thesis by (auto split: if_splits)
      qed
    qed
  qed
qed

text \<open>What every run keeps, the retries keep.\<close>

lemma retrySteps_invariant:
  assumes "I s" and "\<And>s r t. I s \<Longrightarrow> fn s = (r, t) \<Longrightarrow> I t"
  shows "I (snd (retrySteps n fn s))"
  using assms(1)
proof (induction n arbitrary: s)
  case 0
  then show ?case by simp
next
  case (Suc n)
  obtain r t where step: "fn s = (r, t)" by (cases "fn s")
  have It: "I t" using assms(2) Suc.prems step by blast
  show ?case
  proof (cases r)
    case (Panic p)
    with step It show ?thesis by simp
  next
    case (Return eo)
    with step It Suc.IH[OF It] show ?thesis by (cases eo) auto
  qed
qed

text \<open>A function that does not panic is retried without a panic.\<close>

lemma retrySteps_no_panic:
  assumes "\<And>s. \<exists>eo t. fn s = (Return eo, t)"
  shows "\<exists>eo t. retrySteps n fn s = (Return eo, t)"
proof (induction n arbitrary: s)
  case 0
  show ?case by simp
next
  case (Suc n)
  obtain eo t where step: "fn s = (Return eo, t)" using assms by blast
  show ?case
  proof (cases eo)
    case None
    with step show ?thesis by simp
  next
    case (Some e)
    with step Suc.IH[of t] show ?thesis by auto
  qed
qed

text \<open>At least one run is made when a step is left.\<close>

lemma retrySteps_first:
  assumes "0 < n" and "I s" and "\<And>s r t. I s \<Longrightarrow> fn s = (r, t) \<Longrightarrow> J t"
    and "\<And>s r t. J s \<Longrightarrow> fn s = (r, t) \<Longrightarrow> J t"
  shows "J (snd (retrySteps n fn s))"
proof -
  obtain m where n: "n = Suc m" using assms(1) by (cases n) auto
  obtain r t where step: "fn s = (r, t)" by (cases "fn s")
  have Jt: "J t" using assms(2,3) step by blast
  have rest: "J (snd (retrySteps m fn t))"
    using retrySteps_invariant[of J t fn m] Jt assms(4) by blast
  show ?thesis
  proof (cases r)
    case (Panic p)
    with step n Jt show ?thesis by simp
  next
    case (Return eo)
    with step n Jt rest show ?thesis by (cases eo) auto
  qed
qed

lemma retrySteps_done:
  "fn s = (Return None, t) \<Longrightarrow> 0 < n \<Longrightarrow> retrySteps n fn s = (Return None, t)"
  by (cases n) auto

text \<open>The definitions of the clients and listers, for evaluating a run.\<close>

lemmas run_defs = clientCall_def traced_def getByName_def replaceByName_def deleteByName_def
  mccrListerGet_def ccListerGet_def mcpListerList_def
  ConfigMapsGet_def ConfigMapsCreate_def MachineConfigsGet_def MachineConfigsCreate_def
  MachineConfigsUpdate_def MachineConfigsDelete_def MachineConfigsList_def
  ContainerRuntimeConfigsUpdateStatus_def ContainerRuntimeConfigsUpdate_def
  ContainerRuntimeConfigsPatch_def applyPatch_def CreateThreeWayJSONMergePatch_def
  RetryOnConflict_def updateBackoffSteps_def IsNotFound_def IsConflict_def Let_def

subsection \<open>The error handler of the queue\<close>

text \<open>
  C6. When synchronising a key returns an error and the key has been requeued fewer than
  15 times, \<^verbatim>\<open>handleErr\<close> adds the key rate limited: the count of the key goes up by
  one, one addition is scheduled with the limiter's delay, and nothing reaches the error
  sink. With 15 requeues or more it hands the error to the error sink, resets the count
  of the key to 0 and schedules exactly one addition after one minute. When
  synchronising succeeds the count is reset and nothing is scheduled. The result of a
  pass of the worker is what \<^verbatim>\<open>handleErr\<close> makes of the returned value.
\<close>

theorem handleErr_policy:
  "(NumRequeues key (queue w) < 15 \<longrightarrow>
      queue (handleErr (Some e) key w) = AddRateLimited key (queue w)
      \<and> NumRequeues key (queue (handleErr (Some e) key w)) = Suc (NumRequeues key (queue w))
      \<and> scheduled (queue (handleErr (Some e) key w))
          = scheduled (queue w) @ [(key, RateLimited (NumRequeues key (queue w)))]
      \<and> errorSink (handleErr (Some e) key w) = errorSink w)
   \<and> (15 \<le> NumRequeues key (queue w) \<longrightarrow>
      errorSink (handleErr (Some e) key w) = errorSink w @ [e]
      \<and> NumRequeues key (queue (handleErr (Some e) key w)) = 0
      \<and> scheduled (queue (handleErr (Some e) key w)) = scheduled (queue w) @ [(key, After 60000)])
   \<and> NumRequeues key (queue (handleErr None key w)) = 0
   \<and> scheduled (queue (handleErr None key w)) = scheduled (queue w)
   \<and> errorSink (handleErr None key w) = errorSink w
   \<and> (\<forall>err w'. syncContainerRuntimeConfig E key w = (Return err, w')
         \<longrightarrow> snd (processNextWorkItem E key w) = handleErr err key w')"
  by (simp add: handleErr_def maxRetries_def NumRequeues_def AddRateLimited_def AddAfter_def
      Forget_def HandleError_def minute_def processNextWorkItem_def)

theorem handleErr_policy_witness:
  "NumRequeues ''set-pids'' (queue (worldOf pidsCfg [] [])) < 15
   \<and> scheduled (queue (handleErr (Some (Err ''boom'')) ''set-pids'' (worldOf pidsCfg [] [])))
       = [(''set-pids'', RateLimited 0)]
   \<and> 15 \<le> NumRequeues ''set-pids'' (queue ((worldOf pidsCfg [] [])\<lparr>queue := droppedQueue\<rparr>))
   \<and> scheduled (queue (handleErr (Some (Err ''boom'')) ''set-pids'' ((worldOf pidsCfg [] [])\<lparr>queue := droppedQueue\<rparr>)))
       = [(''set-pids'', After 60000)]
   \<and> errorSink (handleErr (Some (Err ''boom'')) ''set-pids'' ((worldOf pidsCfg [] [])\<lparr>queue := droppedQueue\<rparr>))
       = [Err ''boom'']
   \<and> syncContainerRuntimeConfig E0 forceSyncOnUpgrade (worldOf pidsCfg [] [])
       = (Return None, traced (GetConfigMap configMapName) (worldOf pidsCfg [] []))
   \<and> snd (processNextWorkItem E0 forceSyncOnUpgrade (worldOf pidsCfg [] []))
       = handleErr None forceSyncOnUpgrade (traced (GetConfigMap configMapName) (worldOf pidsCfg [] []))"
proof -
  let ?W = "worldOf pidsCfg [] []"
  let ?D = "(worldOf pidsCfg [] [])\<lparr>queue := droppedQueue\<rparr>"
  have s: "syncContainerRuntimeConfig E0 forceSyncOnUpgrade ?W
       = (Return None, traced (GetConfigMap configMapName) ?W)"
    by (simp add: syncContainerRuntimeConfig_def createSeccompUseDefaultMC_def ConfigMapsGet_def
        clientCall_def worldOf_def traced_def getByName_def marker_def IsNotFound_def)
  have a: "NumRequeues ''set-pids'' (queue ?W) < 15"
    by (simp add: NumRequeues_def worldOf_def emptyQueue_def)
  have b: "15 \<le> NumRequeues ''set-pids'' (queue ?D)"
    by (simp add: NumRequeues_def droppedQueue_def)
  have c: "scheduled (queue (handleErr (Some (Err ''boom'')) ''set-pids'' ?W))
       = scheduled (queue ?W) @ [(''set-pids'', RateLimited (NumRequeues ''set-pids'' (queue ?W)))]"
    using handleErr_policy[of "''set-pids''" ?W "Err ''boom''" E0] a by blast
  have c': "scheduled (queue (handleErr (Some (Err ''boom'')) ''set-pids'' ?W)) = [(''set-pids'', RateLimited 0)]"
    unfolding c by (simp add: NumRequeues_def worldOf_def emptyQueue_def)
  have d: "scheduled (queue (handleErr (Some (Err ''boom'')) ''set-pids'' ?D))
             = scheduled (queue ?D) @ [(''set-pids'', After 60000)]
           \<and> errorSink (handleErr (Some (Err ''boom'')) ''set-pids'' ?D) = errorSink ?D @ [Err ''boom'']"
    using handleErr_policy[of "''set-pids''" ?D "Err ''boom''" E0] b by blast
  have d': "scheduled (queue (handleErr (Some (Err ''boom'')) ''set-pids'' ?D)) = [(''set-pids'', After 60000)]"
    "errorSink (handleErr (Some (Err ''boom'')) ''set-pids'' ?D) = [Err ''boom'']"
    using d by (simp_all add: droppedQueue_def worldOf_def)
  have e: "snd (processNextWorkItem E0 forceSyncOnUpgrade ?W)
       = handleErr None forceSyncOnUpgrade (traced (GetConfigMap configMapName) ?W)"
    using handleErr_policy[of forceSyncOnUpgrade ?W "Err ''boom''" E0] s by blast
  show ?thesis using a b c' d' s e by simp
qed

subsection \<open>Recording a status condition\<close>

lemma recordCondition_eq:
  "recordCondition cs c =
     (if cs = [] \<or> condMessage c \<noteq> condMessage (last cs) then cs @ [c] else butlast cs @ [c])"
proof (cases cs rule: rev_cases)
  case Nil
  then show ?thesis by (simp add: recordCondition_def)
next
  case (snoc ys y)
  then show ?thesis by (simp add: recordCondition_def nth_append list_update_append)
qed

lemma recordCondition_same_message:
  assumes "cs \<noteq> []" and "\<forall>c\<in>set cs. condMessage c = m"
  shows "length (foldl recordCondition [] cs) = 1
         \<and> condMessage (last (foldl recordCondition [] cs)) = m"
  using assms
proof (induction cs rule: rev_induct)
  case Nil
  then show ?case by simp
next
  case (snoc c cs)
  have step: "foldl recordCondition [] (cs @ [c]) = recordCondition (foldl recordCondition [] cs) c"
    by simp
  have cm: "condMessage c = m" using snoc.prems by simp
  show ?case
  proof (cases "cs = []")
    case True
    have "foldl recordCondition [] (cs @ [c]) = [c]"
      unfolding step using True by (simp add: recordCondition_def)
    then show ?thesis using cm by simp
  next
    case False
    with snoc have IH: "length (foldl recordCondition [] cs) = 1"
      "condMessage (last (foldl recordCondition [] cs)) = m" by auto
    then obtain x where x: "foldl recordCondition [] cs = [x]"
      by (cases "foldl recordCondition [] cs") auto
    have "condMessage x = m" using IH(2) x by simp
    then have "recordCondition [x] c = [c]" using cm by (simp add: recordCondition_def)
    then show ?thesis unfolding step x using cm by simp
  qed
qed

text \<open>One run of the status update, seen from the cache.\<close>

lemma syncStatusOnlyOnce_cache:
  assumes "getByName crcName (crcName cfg) (mccrLister w) = Some c"
  shows "\<exists>c'. getByName crcName (crcName cfg) (mccrLister (snd (syncStatusOnlyOnce E cfg err args w))) = Some c'
           \<and> crcConditions c' = recordCondition (crcConditions c) (wrapErrorWithCondition E (clock w) err args)
           \<and> crcObservedGeneration c' = crcGeneration c"
    and "clock (snd (syncStatusOnlyOnce E cfg err args w)) = clock w"
proof -
  have nm: "crcName c = crcName cfg" using assms by (rule getByName_name)
  let ?c1 = "if crcGeneration c \<noteq> crcObservedGeneration c
             then c\<lparr>crcObservedGeneration := crcGeneration c\<rparr> else c"
  let ?c2 = "?c1\<lparr>crcConditions := recordCondition (crcConditions ?c1)
                      (wrapErrorWithCondition E (clock w) err args)\<rparr>"
  have l: "mccrLister (snd (syncStatusOnlyOnce E cfg err args w))
             = replaceByName crcName (crcName cfg) ?c2 (mccrLister w)"
    using assms
    by (simp add: syncStatusOnlyOnce_def mccrListerGet_def traced_def Let_def
        ContainerRuntimeConfigsUpdateStatus_def clientCall_def
        split: list.split option.split prod.split)
  have g: "getByName crcName (crcName cfg) (replaceByName crcName (crcName cfg) ?c2 (mccrLister w)) = Some ?c2"
    using assms nm by (intro getByName_replace) auto
  show "\<exists>c'. getByName crcName (crcName cfg) (mccrLister (snd (syncStatusOnlyOnce E cfg err args w))) = Some c'
           \<and> crcConditions c' = recordCondition (crcConditions c) (wrapErrorWithCondition E (clock w) err args)
           \<and> crcObservedGeneration c' = crcGeneration c"
    unfolding l g by auto
  show "clock (snd (syncStatusOnlyOnce E cfg err args w)) = clock w"
    using assms
    by (simp add: syncStatusOnlyOnce_def mccrListerGet_def traced_def Let_def
        ContainerRuntimeConfigsUpdateStatus_def clientCall_def
        split: list.split option.split prod.split)
qed

lemma syncStatusOnly_snd:
  "snd (syncStatusOnly E cfg err args w) = snd (retrySteps updateBackoffSteps (syncStatusOnlyOnce E cfg err args) w)"
  by (simp add: syncStatusOnly_def RetryOnConflict_def split: prod.split outcome.split)

lemma syncStatusOnly_same_message:
  assumes "getByName crcName (crcName cfg) (mccrLister w) = Some c0" and "crcConditions c0 = []"
    and "0 < n"
  shows "\<exists>c. getByName crcName (crcName cfg)
               (mccrLister (((\<lambda>w. snd (syncStatusOnly E cfg err args w)) ^^ n) w)) = Some c
             \<and> length (crcConditions c) = 1"
proof -
  define new where "new = wrapErrorWithCondition E (clock w) err args"
  define I where "I = (\<lambda>s::world. clock s = clock w \<and> (\<exists>c. getByName crcName (crcName cfg) (mccrLister s) = Some c
                      \<and> (crcConditions c = [] \<or> crcConditions c = [new])))"
  define J where "J = (\<lambda>s::world. clock s = clock w \<and> (\<exists>c. getByName crcName (crcName cfg) (mccrLister s) = Some c
                      \<and> crcConditions c = [new]))"
  have IJ: "J t" if "I s" and "syncStatusOnlyOnce E cfg err args s = (r, t)" for s r t
  proof -
    from that(1) obtain c where c: "getByName crcName (crcName cfg) (mccrLister s) = Some c"
      "crcConditions c = [] \<or> crcConditions c = [new]" and ck: "clock s = clock w"
      unfolding I_def by blast
    have t: "t = snd (syncStatusOnlyOnce E cfg err args s)" using that(2) by simp
    from syncStatusOnlyOnce_cache[OF c(1), of E err args]
    obtain c' where c': "getByName crcName (crcName cfg) (mccrLister t) = Some c'"
      "crcConditions c' = recordCondition (crcConditions c) new" and ck': "clock t = clock w"
      unfolding t new_def ck by auto
    have "recordCondition (crcConditions c) new = [new]"
      using c(2) by (auto simp: recordCondition_def)
    with c' ck' show ?thesis unfolding J_def by auto
  qed
  have JI: "I s" if "J s" for s using that unfolding I_def J_def by auto
  have JJ: "J t" if "J s" and "syncStatusOnlyOnce E cfg err args s = (r, t)" for s r t
    using IJ[OF JI[OF that(1)] that(2)] .
  have pass: "J (snd (syncStatusOnly E cfg err args s))" if "I s" for s
    unfolding syncStatusOnly_snd
    by (rule retrySteps_first[where I=I]) (use that IJ JJ in \<open>auto simp: updateBackoffSteps_def\<close>)
  have I0: "I w" unfolding I_def using assms(1,2) by auto
  have "J (((\<lambda>w. snd (syncStatusOnly E cfg err args w)) ^^ n) w)" using assms(3)
  proof (induction n)
    case 0
    then show ?case by simp
  next
    case (Suc n)
    show ?case
    proof (cases "n = 0")
      case True
      then show ?thesis using pass[OF I0] by simp
    next
      case False
      then have "J (((\<lambda>w. snd (syncStatusOnly E cfg err args w)) ^^ n) w)" using Suc.IH by simp
      from pass[OF JI[OF this]] show ?thesis by simp
    qed
  qed
  then show ?thesis unfolding J_def by auto
qed

text \<open>
  C4. Recording a condition appends it when the list is empty or its message differs
  from the message of the last condition, and otherwise replaces the last condition.
  So recording, from the empty list, any non-empty sequence of conditions that carry one
  message leaves a list of length 1. \<^verbatim>\<open>syncStatusOnly\<close> records in this way on the
  object it reads from the lister's cache, and \<open>n > 0\<close> calls of it for one error,
  from an object without conditions, leave exactly one condition on the cached object.
\<close>

theorem status_recording_policy:
  "recordCondition cs c =
     (if cs = [] \<or> condMessage c \<noteq> condMessage (last cs) then cs @ [c] else butlast cs @ [c])
   \<and> (rs \<noteq> [] \<and> (\<forall>r\<in>set rs. condMessage r = m) \<longrightarrow> length (foldl recordCondition [] rs) = 1)
   \<and> (getByName crcName (crcName cfg) (mccrLister w) = Some c0 \<longrightarrow>
        (\<exists>c'. getByName crcName (crcName cfg)
                (mccrLister (snd (syncStatusOnlyOnce E cfg err args w))) = Some c'
              \<and> crcConditions c' = recordCondition (crcConditions c0)
                                      (wrapErrorWithCondition E (clock w) err args)))
   \<and> (getByName crcName (crcName cfg) (mccrLister w) = Some c0 \<and> crcConditions c0 = [] \<and> 0 < n \<longrightarrow>
        (\<exists>c'. getByName crcName (crcName cfg)
                (mccrLister (((\<lambda>w. snd (syncStatusOnly E cfg err args w)) ^^ n) w)) = Some c'
              \<and> length (crcConditions c') = 1))"
proof (intro conjI impI)
  show "recordCondition cs c =
     (if cs = [] \<or> condMessage c \<noteq> condMessage (last cs) then cs @ [c] else butlast cs @ [c])"
    by (rule recordCondition_eq)
next
  assume "rs \<noteq> [] \<and> (\<forall>r\<in>set rs. condMessage r = m)"
  then show "length (foldl recordCondition [] rs) = 1"
    using recordCondition_same_message[of rs m] by blast
next
  assume "getByName crcName (crcName cfg) (mccrLister w) = Some c0"
  from syncStatusOnlyOnce_cache(1)[OF this, of E err args]
  show "\<exists>c'. getByName crcName (crcName cfg)
                (mccrLister (snd (syncStatusOnlyOnce E cfg err args w))) = Some c'
              \<and> crcConditions c' = recordCondition (crcConditions c0)
                                      (wrapErrorWithCondition E (clock w) err args)"
    by blast
next
  assume "getByName crcName (crcName cfg) (mccrLister w) = Some c0 \<and> crcConditions c0 = [] \<and> 0 < n"
  then show "\<exists>c'. getByName crcName (crcName cfg)
                (mccrLister (((\<lambda>w. snd (syncStatusOnly E cfg err args w)) ^^ n) w)) = Some c'
              \<and> length (crcConditions c') = 1"
    using syncStatusOnly_same_message[of cfg w c0 n E err args] by blast
qed

theorem status_recording_policy_witness:
  "[sampleCondition 1 (Some (Err ''boom'')) [], sampleCondition 2 (Some (Err ''boom'')) [],
    sampleCondition 3 (Some (Err ''boom'')) []] \<noteq> []
   \<and> map condMessage [sampleCondition 1 (Some (Err ''boom'')) [], sampleCondition 2 (Some (Err ''boom'')) [],
                        sampleCondition 3 (Some (Err ''boom'')) []]
       = [''Error: boom'', ''Error: boom'', ''Error: boom'']
   \<and> length (foldl recordCondition []
        [sampleCondition 1 (Some (Err ''boom'')) [], sampleCondition 2 (Some (Err ''boom'')) [],
         sampleCondition 3 (Some (Err ''boom'')) []]) = 1
   \<and> getByName crcName (crcName pidsCfg) (mccrLister (worldOf pidsCfg [] [])) = Some pidsCfg
   \<and> crcConditions pidsCfg = []
   \<and> (\<exists>c'. getByName crcName (crcName pidsCfg)
           (mccrLister (((\<lambda>w. snd (syncStatusOnly E0 pidsCfg (Some (Err ''boom'')) [] w)) ^^ 3)
              (worldOf pidsCfg [] []))) = Some c'
         \<and> length (crcConditions c') = 1)"
proof -
  let ?rs = "[sampleCondition 1 (Some (Err ''boom'')) [], sampleCondition 2 (Some (Err ''boom'')) [],
              sampleCondition 3 (Some (Err ''boom'')) []]"
  have a: "?rs \<noteq> [] \<and> (\<forall>r\<in>set ?rs. condMessage r = ''Error: boom'')"
    by (simp add: sampleCondition_def)
  have b: "getByName crcName (crcName pidsCfg) (mccrLister (worldOf pidsCfg [] [])) = Some pidsCfg
           \<and> crcConditions pidsCfg = [] \<and> (0::nat) < 3"
    by (simp add: getByName_def worldOf_def pidsCfg_def)
  note t = status_recording_policy[of "[]" "sampleCondition 1 None []" ?rs "''Error: boom''" pidsCfg
      "worldOf pidsCfg [] []" pidsCfg E0 "Some (Err ''boom'')" "[]" 3]
  have c: "length (foldl recordCondition [] ?rs) = 1" using t a by blast
  have d: "\<exists>c'. getByName crcName (crcName pidsCfg)
           (mccrLister (((\<lambda>w. snd (syncStatusOnly E0 pidsCfg (Some (Err ''boom'')) [] w)) ^^ 3)
              (worldOf pidsCfg [] []))) = Some c'
         \<and> length (crcConditions c') = 1"
    using t b by blast
  have e: "map condMessage ?rs = [''Error: boom'', ''Error: boom'', ''Error: boom'']"
    by (simp add: sampleCondition_def)
  show ?thesis using a b c d e by blast
qed

subsection \<open>The pools a selector matches\<close>

lemma matchedPools_Nothing: "matchedPools NothingSelector pList = []"
  by (simp add: matchedPools_def)

lemma matchedPools_Everything: "matchedPools Everything pList = []"
  by (simp add: matchedPools_def Everything_def)

lemma getPools_not_empty: "fst (getPoolsForContainerRuntimeConfig E config w) \<noteq> Inr []"
  by (simp add: getPoolsForContainerRuntimeConfig_def mcpListerList_def Let_def
      split: sum.split prod.split)

lemma getPools_result:
  assumes "LabelSelectorAsSelector (validateLabelKey E) (validateLabelValue E)
             (crcMachineConfigPoolSelector config) = Inr sel"
  shows "fst (getPoolsForContainerRuntimeConfig E config w)
       = (if matchedPools sel (mcpLister w) = []
          then Inl (Err (''could not find any MachineConfigPool set for ContainerRuntimeConfig ''
                         @ crcName config))
          else Inr (matchedPools sel (mcpLister w)))"
  using assms
  by (simp add: getPoolsForContainerRuntimeConfig_def mcpListerList_def Everything_def Let_def
      split: prod.split)

text \<open>
  C5. A ContainerRuntimeConfig whose pool selector is nil, or has neither labels nor
  expressions, selects none of the listed pools, whatever the pools are, and
  \<^verbatim>\<open>getPoolsForContainerRuntimeConfig\<close> returns an error for it. For no selector does the
  function return an empty list of pools: for every selector that converts, when none of
  the pools of the lister is matched the function returns the error
  \<^verbatim>\<open>could not find any MachineConfigPool set for ContainerRuntimeConfig <name>\<close>, and
  otherwise it returns the matched pools.
\<close>

theorem empty_selector_matches_nothing:
  "(crcMachineConfigPoolSelector config = None
      \<or> (\<exists>s. crcMachineConfigPoolSelector config = Some s
               \<and> length (MatchLabels s) + length (MatchExpressions s) = 0) \<longrightarrow>
      (\<exists>sel. LabelSelectorAsSelector (validateLabelKey E) (validateLabelValue E)
                (crcMachineConfigPoolSelector config) = Inr sel
             \<and> matchedPools sel pList = [])
      \<and> (\<exists>e. fst (getPoolsForContainerRuntimeConfig E config w) = Inl e))
   \<and> fst (getPoolsForContainerRuntimeConfig E config w) \<noteq> Inr []
   \<and> (\<forall>sel. LabelSelectorAsSelector (validateLabelKey E) (validateLabelValue E)
                (crcMachineConfigPoolSelector config) = Inr sel \<longrightarrow>
         (matchedPools sel (mcpLister w) = [] \<longrightarrow>
            fst (getPoolsForContainerRuntimeConfig E config w)
              = Inl (Err (''could not find any MachineConfigPool set for ContainerRuntimeConfig ''
                          @ crcName config)))
         \<and> (matchedPools sel (mcpLister w) \<noteq> [] \<longrightarrow>
            fst (getPoolsForContainerRuntimeConfig E config w) = Inr (matchedPools sel (mcpLister w))))"
proof (intro conjI impI allI)
  assume sel: "crcMachineConfigPoolSelector config = None
      \<or> (\<exists>s. crcMachineConfigPoolSelector config = Some s
               \<and> length (MatchLabels s) + length (MatchExpressions s) = 0)"
  then have as: "LabelSelectorAsSelector (validateLabelKey E) (validateLabelValue E)
                   (crcMachineConfigPoolSelector config) = Inr NothingSelector
                 \<or> LabelSelectorAsSelector (validateLabelKey E) (validateLabelValue E)
                   (crcMachineConfigPoolSelector config) = Inr Everything"
    by (auto simp: LabelSelectorAsSelector_def)
  then show "\<exists>sel. LabelSelectorAsSelector (validateLabelKey E) (validateLabelValue E)
                (crcMachineConfigPoolSelector config) = Inr sel
             \<and> matchedPools sel pList = []"
    using matchedPools_Nothing matchedPools_Everything by auto
  from as show "\<exists>e. fst (getPoolsForContainerRuntimeConfig E config w) = Inl e"
    by (auto simp: getPoolsForContainerRuntimeConfig_def mcpListerList_def Let_def
        matchedPools_Nothing matchedPools_Everything split: prod.split)
next
  show "fst (getPoolsForContainerRuntimeConfig E config w) \<noteq> Inr []"
    by (rule getPools_not_empty)
next
  fix sel
  assume a: "LabelSelectorAsSelector (validateLabelKey E) (validateLabelValue E)
                (crcMachineConfigPoolSelector config) = Inr sel"
  { assume "matchedPools sel (mcpLister w) = []"
    then show "fst (getPoolsForContainerRuntimeConfig E config w)
              = Inl (Err (''could not find any MachineConfigPool set for ContainerRuntimeConfig ''
                          @ crcName config))"
      using getPools_result[OF a, of w] by simp }
  { assume "matchedPools sel (mcpLister w) \<noteq> []"
    then show "fst (getPoolsForContainerRuntimeConfig E config w) = Inr (matchedPools sel (mcpLister w))"
      using getPools_result[OF a, of w] by simp }
qed

theorem empty_selector_matches_nothing_witness:
  "crcMachineConfigPoolSelector (pidsCfg\<lparr>crcMachineConfigPoolSelector := None\<rparr>) = None
   \<and> fst (getPoolsForContainerRuntimeConfig E0 (pidsCfg\<lparr>crcMachineConfigPoolSelector := None\<rparr>)
            (worldOf pidsCfg [] []))
       = Inl (Err ''could not find any MachineConfigPool set for ContainerRuntimeConfig set-pids'')
   \<and> crcMachineConfigPoolSelector (pidsCfg\<lparr>crcMachineConfigPoolSelector := Some emptyLabelSelector\<rparr>)
       = Some emptyLabelSelector
   \<and> length (MatchLabels emptyLabelSelector) + length (MatchExpressions emptyLabelSelector) = 0
   \<and> fst (getPoolsForContainerRuntimeConfig E0
            (pidsCfg\<lparr>crcMachineConfigPoolSelector := Some emptyLabelSelector\<rparr>) (worldOf pidsCfg [] []))
       = Inl (Err ''could not find any MachineConfigPool set for ContainerRuntimeConfig set-pids'')
   \<and> LabelSelectorAsSelector (validateLabelKey E0) (validateLabelValue E0)
        (crcMachineConfigPoolSelector (pidsCfg\<lparr>crcMachineConfigPoolSelector := Some infraSelector\<rparr>))
       = Inr (InternalSelector [\<lparr>reqKey = ''pools.operator.machineconfiguration.openshift.io/infra'',
                                  reqOperator = Equals, reqValues = [[]]\<rparr>])
   \<and> matchedPools (InternalSelector [\<lparr>reqKey = ''pools.operator.machineconfiguration.openshift.io/infra'',
                                       reqOperator = Equals, reqValues = [[]]\<rparr>])
        (mcpLister (worldOf pidsCfg [] [])) = []
   \<and> fst (getPoolsForContainerRuntimeConfig E0
            (pidsCfg\<lparr>crcMachineConfigPoolSelector := Some infraSelector\<rparr>) (worldOf pidsCfg [] []))
       = Inl (Err ''could not find any MachineConfigPool set for ContainerRuntimeConfig set-pids'')
   \<and> LabelSelectorAsSelector (validateLabelKey E0) (validateLabelValue E0)
        (crcMachineConfigPoolSelector pidsCfg)
       = Inr (InternalSelector [\<lparr>reqKey = ''pools.operator.machineconfiguration.openshift.io/worker'',
                                  reqOperator = Equals, reqValues = [[]]\<rparr>])
   \<and> matchedPools (InternalSelector [\<lparr>reqKey = ''pools.operator.machineconfiguration.openshift.io/worker'',
                                       reqOperator = Equals, reqValues = [[]]\<rparr>])
        (mcpLister (worldOf pidsCfg [] [])) = [workerPool]
   \<and> fst (getPoolsForContainerRuntimeConfig E0 pidsCfg (worldOf pidsCfg [] [])) = Inr [workerPool]"
proof -
  let ?n = "pidsCfg\<lparr>crcMachineConfigPoolSelector := None\<rparr>"
  let ?e = "pidsCfg\<lparr>crcMachineConfigPoolSelector := Some emptyLabelSelector\<rparr>"
  let ?i = "pidsCfg\<lparr>crcMachineConfigPoolSelector := Some infraSelector\<rparr>"
  let ?W = "worldOf pidsCfg [] []"
  let ?si = "InternalSelector [\<lparr>reqKey = ''pools.operator.machineconfiguration.openshift.io/infra'',
                                  reqOperator = Equals, reqValues = [[]]\<rparr>]"
  let ?sw = "InternalSelector [\<lparr>reqKey = ''pools.operator.machineconfiguration.openshift.io/worker'',
                                  reqOperator = Equals, reqValues = [[]]\<rparr>]"
  let ?msg = "Inl (Err ''could not find any MachineConfigPool set for ContainerRuntimeConfig set-pids'')
                :: error + MachineConfigPool list"
  have nm: "crcName ?n = ''set-pids''" "crcName ?e = ''set-pids''" "crcName ?i = ''set-pids''"
    by (simp_all add: pidsCfg_def)
  have hn: "crcMachineConfigPoolSelector ?n = None" by simp
  have he: "crcMachineConfigPoolSelector ?e = Some emptyLabelSelector
            \<and> length (MatchLabels emptyLabelSelector) + length (MatchExpressions emptyLabelSelector) = 0"
    by (simp add: emptyLabelSelector_def)
  have sn: "LabelSelectorAsSelector (validateLabelKey E0) (validateLabelValue E0)
              (crcMachineConfigPoolSelector ?n) = Inr NothingSelector"
    by (simp add: LabelSelectorAsSelector_def)
  have se: "LabelSelectorAsSelector (validateLabelKey E0) (validateLabelValue E0)
              (crcMachineConfigPoolSelector ?e) = Inr Everything"
    by (simp add: LabelSelectorAsSelector_def emptyLabelSelector_def)
  have si: "LabelSelectorAsSelector (validateLabelKey E0) (validateLabelValue E0)
              (crcMachineConfigPoolSelector ?i) = Inr ?si"
    by (simp add: LabelSelectorAsSelector_def infraSelector_def E0_def NewRequirement_def)
  have sw: "LabelSelectorAsSelector (validateLabelKey E0) (validateLabelValue E0)
              (crcMachineConfigPoolSelector pidsCfg) = Inr ?sw"
    by (simp add: LabelSelectorAsSelector_def pidsCfg_def workerSelector_def E0_def NewRequirement_def)
  have mi: "matchedPools ?si (mcpLister ?W) = []"
    by (simp add: matchedPools_def worldOf_def workerPool_def builtInLabelKey_def)
  have mw: "matchedPools ?sw (mcpLister ?W) = [workerPool]"
    by (simp add: matchedPools_def worldOf_def workerPool_def builtInLabelKey_def)
  have rn: "fst (getPoolsForContainerRuntimeConfig E0 ?n ?W) = ?msg"
    using empty_selector_matches_nothing[of ?n E0 "[workerPool]" ?W] sn matchedPools_Nothing[of "mcpLister ?W"]
    unfolding nm by simp
  have re: "fst (getPoolsForContainerRuntimeConfig E0 ?e ?W) = ?msg"
    using empty_selector_matches_nothing[of ?e E0 "[workerPool]" ?W] se matchedPools_Everything[of "mcpLister ?W"]
    unfolding nm by simp
  have ri: "fst (getPoolsForContainerRuntimeConfig E0 ?i ?W) = ?msg"
    using empty_selector_matches_nothing[of ?i E0 "[workerPool]" ?W] si mi unfolding nm by simp
  have rw: "fst (getPoolsForContainerRuntimeConfig E0 pidsCfg ?W) = Inr [workerPool]"
    using empty_selector_matches_nothing[of pidsCfg E0 "[workerPool]" ?W] sw mw by simp
  show ?thesis
    apply (intro conjI)
    apply (rule hn)
    apply (rule rn)
    apply (rule he[THEN conjunct1])
    apply (rule he[THEN conjunct2])
    apply (rule re)
    apply (rule si)
    apply (rule mi)
    apply (rule ri)
    apply (rule sw)
    apply (rule mw)
    apply (rule rw)
    done
qed

subsection \<open>Cascading deletion\<close>

lemma clientCall_frame:
  assumes "clientCall c w = (r, w')"
  shows "trace w' = trace w @ [c]" "mccrLister w' = mccrLister w" "machineConfigs w' = machineConfigs w"
    "containerRuntimeConfigs w' = containerRuntimeConfigs w" "configMaps w' = configMaps w"
    "clock w' = clock w"
  using assms by (auto simp: clientCall_def traced_def split: list.splits)

lemma Patch_frame:
  assumes "ContainerRuntimeConfigsPatch name p w = (r, w')"
  shows "trace w' = trace w @ [PatchContainerRuntimeConfig name p]" "mccrLister w' = mccrLister w"
    "machineConfigs w' = machineConfigs w"
proof -
  obtain r0 w0 where c: "clientCall (PatchContainerRuntimeConfig name p) w = (r0, w0)"
    by (cases "clientCall (PatchContainerRuntimeConfig name p) w")
  note f = clientCall_frame[OF c]
  from assms c have "trace w' = trace w0 \<and> mccrLister w' = mccrLister w0 \<and> machineConfigs w' = machineConfigs w0"
    by (auto simp: ContainerRuntimeConfigsPatch_def split: option.splits)
  with f show "trace w' = trace w @ [PatchContainerRuntimeConfig name p]" "mccrLister w' = mccrLister w"
    "machineConfigs w' = machineConfigs w" by auto
qed

lemma Patch_success:
  assumes "ContainerRuntimeConfigsPatch name (SetFinalizers fs) w = (None, w')"
  shows "\<exists>obj. getByName crcName name (containerRuntimeConfigs w') = Some obj \<and> crcFinalizers obj = fs"
proof -
  obtain r0 w0 where c: "clientCall (PatchContainerRuntimeConfig name (SetFinalizers fs)) w = (r0, w0)"
    by (cases "clientCall (PatchContainerRuntimeConfig name (SetFinalizers fs)) w")
  from assms c obtain old where o: "getByName crcName name (containerRuntimeConfigs w0) = Some old"
    and w': "w' = w0\<lparr>containerRuntimeConfigs :=
                  replaceByName crcName name (applyPatch (SetFinalizers fs) old) (containerRuntimeConfigs w0)\<rparr>"
    by (auto simp: ContainerRuntimeConfigsPatch_def split: option.splits)
  have "crcName old = name" using o by (rule getByName_name)
  then have "crcName (applyPatch (SetFinalizers fs) old) = name" by (simp add: applyPatch_def)
  from getByName_replace[OF o this] show ?thesis unfolding w' by (auto simp: applyPatch_def)
qed

lemma popFinalizerOnce_step:
  assumes g: "getByName crcName name (mccrLister w) = Some c" and ne: "crcFinalizers c \<noteq> []"
    and p: "popFinalizerOnce name ([tok], w) = (r, (fs, w'))"
  shows "fs = [tok]" "mccrLister w' = mccrLister w" "machineConfigs w' = machineConfigs w"
    "trace w' = trace w @ [ListerGetContainerRuntimeConfig name, PatchContainerRuntimeConfig name (SetFinalizers [])]"
    "r = Return None \<longrightarrow> (\<exists>obj. getByName crcName name (containerRuntimeConfigs w') = Some obj \<and> crcFinalizers obj = [])"
proof -
  let ?w1 = "traced (ListerGetContainerRuntimeConfig name) w"
  have patch: "CreateThreeWayJSONMergePatch c (c\<lparr>crcFinalizers := []\<rparr>) = SetFinalizers []"
    using ne by (auto simp: CreateThreeWayJSONMergePatch_def)
  obtain e w2 where pc: "ContainerRuntimeConfigsPatch name (SetFinalizers []) ?w1 = (e, w2)"
    by (cases "ContainerRuntimeConfigsPatch name (SetFinalizers []) ?w1")
  from p g patch pc have res: "r = Return e" "fs = [tok]" "w' = w2"
    by (auto simp: popFinalizerOnce_def mccrListerGet_def Let_def)
  note f = Patch_frame[OF pc]
  show "fs = [tok]" by (rule res)
  show "mccrLister w' = mccrLister w" using f res by (simp add: traced_def)
  show "machineConfigs w' = machineConfigs w" using f res by (simp add: traced_def)
  show "trace w' = trace w @ [ListerGetContainerRuntimeConfig name, PatchContainerRuntimeConfig name (SetFinalizers [])]"
    using f res by (simp add: traced_def)
  show "r = Return None \<longrightarrow> (\<exists>obj. getByName crcName name (containerRuntimeConfigs w') = Some obj \<and> crcFinalizers obj = [])"
    using Patch_success[of name "[]" ?w1 w2] pc res by auto
qed

lemma popFinalizer_one:
  assumes fin: "crcFinalizers cfg = [tok]"
    and g: "getByName crcName (crcName cfg) (mccrLister w) = Some c" and ne: "crcFinalizers c \<noteq> []"
    and p: "popFinalizerFromContainerRuntimeConfig cfg w = (Return None, w')"
  shows "\<exists>obj. getByName crcName (crcName cfg) (containerRuntimeConfigs w') = Some obj \<and> crcFinalizers obj = []"
    and "machineConfigs w' = machineConfigs w"
    and "\<exists>rest. trace w' = trace w @ rest \<and> rest \<noteq> []
           \<and> last rest = PatchContainerRuntimeConfig (crcName cfg) (SetFinalizers [])
           \<and> set rest \<subseteq> popCalls (crcName cfg)"
proof -
  let ?name = "crcName cfg"
  define I where "I = (\<lambda>s::string list \<times> world. fst s = [tok] \<and> mccrLister (snd s) = mccrLister w
      \<and> machineConfigs (snd s) = machineConfigs w
      \<and> (\<exists>rest. trace (snd s) = trace w @ rest \<and> set rest \<subseteq> popCalls ?name))"
  have I0: "I ([tok], w)" unfolding I_def by simp
  have step: "I t" if Is: "I s" and ps: "popFinalizerOnce ?name s = (r, t)" for s r t
  proof -
    have "fst s = [tok]" using Is unfolding I_def by simp
    then obtain ws where s: "s = ([tok], ws)" by (cases s) auto
    obtain fs wt where t: "t = (fs, wt)" by (cases t)
    have gs: "getByName crcName ?name (mccrLister ws) = Some c" using Is g unfolding I_def s by simp
    note st = popFinalizerOnce_step[OF gs ne ps[unfolded s t]]
    from Is obtain rest where rest: "trace ws = trace w @ rest" "set rest \<subseteq> popCalls ?name"
      unfolding I_def s by auto
    have "trace wt = trace w @ (rest @ [ListerGetContainerRuntimeConfig ?name,
               PatchContainerRuntimeConfig ?name (SetFinalizers [])])"
      using st(4) rest by simp
    moreover have "set (rest @ [ListerGetContainerRuntimeConfig ?name,
               PatchContainerRuntimeConfig ?name (SetFinalizers [])]) \<subseteq> popCalls ?name"
      using rest(2) by (auto simp: popCalls_def)
    ultimately show ?thesis unfolding I_def t using st(1,2,3) Is unfolding I_def s by auto
  qed
  obtain r fs wr where rr: "retrySteps updateBackoffSteps (popFinalizerOnce ?name) ([tok], w) = (r, (fs, wr))"
    by (metis prod.collapse)
  with p fin have rr': "retrySteps updateBackoffSteps (popFinalizerOnce ?name) ([tok], w) = (Return None, (fs, w'))"
    by (auto simp: popFinalizerFromContainerRuntimeConfig_def RetryOnConflict_def)
  have "\<exists>s0. I s0 \<and> popFinalizerOnce ?name s0 = (Return None, (fs, w'))"
  proof (rule retrySteps_success[where I=I and n=updateBackoffSteps and s="([tok], w)"])
    show "retrySteps updateBackoffSteps (popFinalizerOnce ?name) ([tok], w) = (Return None, (fs, w'))"
      by (rule rr')
    show "0 < updateBackoffSteps" by (simp add: updateBackoffSteps_def)
    show "I ([tok], w)" by (rule I0)
    show "\<And>s r t. I s \<Longrightarrow> popFinalizerOnce ?name s = (r, t) \<Longrightarrow> I t" by (rule step)
  qed
  then obtain s0 where s0: "I s0" "popFinalizerOnce ?name s0 = (Return None, (fs, w'))" by blast
  have "fst s0 = [tok]" using s0(1) unfolding I_def by simp
  then obtain ws where s: "s0 = ([tok], ws)" by (cases s0) auto
  have gs: "getByName crcName ?name (mccrLister ws) = Some c" using s0(1) g unfolding I_def s by simp
  note st = popFinalizerOnce_step[OF gs ne s0(2)[unfolded s]]
  from s0(1) obtain rest where rest: "trace ws = trace w @ rest" "set rest \<subseteq> popCalls ?name"
    and mw: "machineConfigs ws = machineConfigs w"
    unfolding I_def s by auto
  show "\<exists>obj. getByName crcName ?name (containerRuntimeConfigs w') = Some obj \<and> crcFinalizers obj = []"
    using st(5) by simp
  show "machineConfigs w' = machineConfigs w" using st(3) mw by simp
  let ?rest' = "rest @ [ListerGetContainerRuntimeConfig ?name, PatchContainerRuntimeConfig ?name (SetFinalizers [])]"
  have "trace w' = trace w @ ?rest'" using st(4) rest by simp
  moreover have "?rest' \<noteq> []" "last ?rest' = PatchContainerRuntimeConfig ?name (SetFinalizers [])" by simp_all
  moreover have "set ?rest' \<subseteq> popCalls ?name" using rest(2) by (auto simp: popCalls_def)
  ultimately show "\<exists>rest. trace w' = trace w @ rest \<and> rest \<noteq> []
           \<and> last rest = PatchContainerRuntimeConfig (crcName cfg) (SetFinalizers [])
           \<and> set rest \<subseteq> popCalls (crcName cfg)" by blast
qed

lemma Delete_result:
  assumes "MachineConfigsDelete name w = (r, w1)"
  shows "trace w1 = trace w @ [DeleteMachineConfig name]" "mccrLister w1 = mccrLister w"
    "r = None \<or> r = Some StatusNotFound \<longrightarrow> getByName mcName name (machineConfigs w1) = None"
proof -
  obtain r0 w0 where c: "clientCall (DeleteMachineConfig name) w = (r0, w0)"
    by (cases "clientCall (DeleteMachineConfig name) w")
  note f = clientCall_frame[OF c]
  have r0: "r0 \<noteq> Some StatusNotFound" using c
    by (auto simp: clientCall_def split: list.splits elim: faultError.elims)
  from assms c f show "trace w1 = trace w @ [DeleteMachineConfig name]" "mccrLister w1 = mccrLister w"
    by (auto simp: MachineConfigsDelete_def split: option.splits)
  from assms c r0 show "r = None \<or> r = Some StatusNotFound \<longrightarrow> getByName mcName name (machineConfigs w1) = None"
    by (auto simp: MachineConfigsDelete_def getByName_delete split: option.splits)
qed

text \<open>
  C3. Let a ContainerRuntimeConfig have exactly one finalizer, \<open>tok\<close>, and let the lister
  hold it. When \<^verbatim>\<open>cascadeDelete\<close> returns nil, no machine config named \<open>tok\<close> is stored,
  the stored ContainerRuntimeConfig has no finalizer, and the calls made were the deletion
  of \<open>tok\<close> followed by attempts to patch the finalizers to the empty list, the last
  call being such a patch. A deletion that fails with anything but not-found is returned
  as the error of the pass, without a patch; after a not-found the finalizer is removed
  as after a deletion. A pass of the synchroniser for a key whose object carries a
  deletion timestamp and this finalizer is this call of \<^verbatim>\<open>cascadeDelete\<close>.
\<close>

theorem cascade_delete_one_finalizer:
  "(crcFinalizers cfg = [tok] \<and> getByName crcName (crcName cfg) (mccrLister w) = Some cfg
      \<and> cascadeDelete cfg w = (Return None, w') \<longrightarrow>
        getByName mcName tok (machineConfigs w') = None
      \<and> (\<exists>obj. getByName crcName (crcName cfg) (containerRuntimeConfigs w') = Some obj
                 \<and> crcFinalizers obj = [])
      \<and> (\<exists>rest. trace w' = trace w @ DeleteMachineConfig tok # rest \<and> rest \<noteq> []
                 \<and> last rest = PatchContainerRuntimeConfig (crcName cfg) (SetFinalizers [])
                 \<and> set rest \<subseteq> popCalls (crcName cfg)))
   \<and> (crcFinalizers cfg = [tok] \<and> fst (MachineConfigsDelete tok w) = Some e \<and> e \<noteq> StatusNotFound \<longrightarrow>
        cascadeDelete cfg w = (Return (Some e), snd (MachineConfigsDelete tok w)))
   \<and> (crcFinalizers cfg = [tok] \<and> fst (MachineConfigsDelete tok w) = Some StatusNotFound \<longrightarrow>
        cascadeDelete cfg w = popFinalizerFromContainerRuntimeConfig cfg (snd (MachineConfigsDelete tok w)))
   \<and> (createSeccompUseDefaultMC E w0 = (Return None, w1) \<and> key \<noteq> forceSyncOnUpgrade
        \<and> SplitMetaNamespaceKey key = Inr (ns, crcName cfg)
        \<and> getByName crcName (crcName cfg) (mccrLister w1) = Some cfg
        \<and> crcDeletionTimestamp cfg \<noteq> None \<and> crcFinalizers cfg = [tok] \<longrightarrow>
        syncContainerRuntimeConfig E key w0
          = cascadeDelete cfg (traced (ListerGetContainerRuntimeConfig (crcName cfg)) w1))"
proof (intro conjI impI)
  assume a: "crcFinalizers cfg = [tok] \<and> getByName crcName (crcName cfg) (mccrLister w) = Some cfg
      \<and> cascadeDelete cfg w = (Return None, w')"
  obtain r w1 where d: "MachineConfigsDelete tok w = (r, w1)" by (cases "MachineConfigsDelete tok w")
  note dr = Delete_result[OF d]
  obtain rp wp where pp: "popFinalizerFromContainerRuntimeConfig cfg w1 = (rp, wp)"
    by (cases "popFinalizerFromContainerRuntimeConfig cfg w1")
  from a d pp have ok: "r = None \<or> r = Some StatusNotFound" and p: "rp = Return None" "wp = w'"
    by (auto simp: cascadeDelete_def IsNotFound_def split: if_splits outcome.splits option.splits)
  have g1: "getByName crcName (crcName cfg) (mccrLister w1) = Some cfg" using a dr(2) by simp
  have ne: "crcFinalizers cfg \<noteq> []" using a by simp
  note pf = popFinalizer_one[OF _ g1 ne pp[unfolded p], of tok]
  have fin: "crcFinalizers cfg = [tok]" using a by simp
  show "getByName mcName tok (machineConfigs w') = None" using pf(2)[OF fin] dr(3) ok by simp
  show "\<exists>obj. getByName crcName (crcName cfg) (containerRuntimeConfigs w') = Some obj
                 \<and> crcFinalizers obj = []" using pf(1)[OF fin] .
  from pf(3)[OF fin] obtain rest where "trace w' = trace w1 @ rest" "rest \<noteq> []"
    "last rest = PatchContainerRuntimeConfig (crcName cfg) (SetFinalizers [])"
    "set rest \<subseteq> popCalls (crcName cfg)" by blast
  then show "\<exists>rest. trace w' = trace w @ DeleteMachineConfig tok # rest \<and> rest \<noteq> []
                 \<and> last rest = PatchContainerRuntimeConfig (crcName cfg) (SetFinalizers [])
                 \<and> set rest \<subseteq> popCalls (crcName cfg)"
    using dr(1) by auto
next
  assume "crcFinalizers cfg = [tok] \<and> fst (MachineConfigsDelete tok w) = Some e \<and> e \<noteq> StatusNotFound"
  then show "cascadeDelete cfg w = (Return (Some e), snd (MachineConfigsDelete tok w))"
    by (auto simp: cascadeDelete_def IsNotFound_def split: prod.splits)
next
  assume "crcFinalizers cfg = [tok] \<and> fst (MachineConfigsDelete tok w) = Some StatusNotFound"
  then show "cascadeDelete cfg w = popFinalizerFromContainerRuntimeConfig cfg (snd (MachineConfigsDelete tok w))"
    by (auto simp: cascadeDelete_def IsNotFound_def split: prod.splits outcome.splits option.splits)
next
  assume "createSeccompUseDefaultMC E w0 = (Return None, w1) \<and> key \<noteq> forceSyncOnUpgrade
        \<and> SplitMetaNamespaceKey key = Inr (ns, crcName cfg)
        \<and> getByName crcName (crcName cfg) (mccrLister w1) = Some cfg
        \<and> crcDeletionTimestamp cfg \<noteq> None \<and> crcFinalizers cfg = [tok]"
  then show "syncContainerRuntimeConfig E key w0
          = cascadeDelete cfg (traced (ListerGetContainerRuntimeConfig (crcName cfg)) w1)"
    by (auto simp: syncContainerRuntimeConfig_def mccrListerGet_def)
qed

theorem cascade_delete_one_finalizer_witness:
  "crcFinalizers deletedCfg = [''99-worker-generated-containerruntime'']
   \<and> getByName crcName (crcName deletedCfg)
        (mccrLister (worldOf deletedCfg [workerMC] [NoFault, FaultConflict])) = Some deletedCfg
   \<and> getByName mcName ''99-worker-generated-containerruntime''
        (machineConfigs (worldOf deletedCfg [workerMC] [NoFault, FaultConflict])) = Some workerMC
   \<and> fst (cascadeDelete deletedCfg (worldOf deletedCfg [workerMC] [NoFault, FaultConflict])) = Return None
   \<and> getByName mcName ''99-worker-generated-containerruntime''
        (machineConfigs (snd (cascadeDelete deletedCfg (worldOf deletedCfg [workerMC] [NoFault, FaultConflict]))))
       = None
   \<and> (\<exists>obj. getByName crcName (crcName deletedCfg)
              (containerRuntimeConfigs
                 (snd (cascadeDelete deletedCfg (worldOf deletedCfg [workerMC] [NoFault, FaultConflict]))))
              = Some obj
            \<and> crcFinalizers obj = [])
   \<and> fst (MachineConfigsDelete ''99-worker-generated-containerruntime''
             (worldOf deletedCfg [workerMC] [FaultOther ''timeout''])) = Some (Err ''timeout'')
   \<and> fst (cascadeDelete deletedCfg (worldOf deletedCfg [workerMC] [FaultOther ''timeout'']))
       = Return (Some (Err ''timeout''))
   \<and> fst (MachineConfigsDelete ''99-worker-generated-containerruntime'' (worldOf deletedCfg [] []))
       = Some StatusNotFound
   \<and> cascadeDelete deletedCfg (worldOf deletedCfg [] [])
       = popFinalizerFromContainerRuntimeConfig deletedCfg
           (snd (MachineConfigsDelete ''99-worker-generated-containerruntime'' (worldOf deletedCfg [] [])))
   \<and> crcDeletionTimestamp deletedCfg \<noteq> None
   \<and> syncContainerRuntimeConfig E0 ''set-pids'' (worldOf deletedCfg [workerMC] [])
       = cascadeDelete deletedCfg
           (traced (ListerGetContainerRuntimeConfig ''set-pids'')
              (traced (GetConfigMap configMapName) (worldOf deletedCfg [workerMC] [])))"
proof -
  let ?tok = "''99-worker-generated-containerruntime''"
  let ?W = "worldOf deletedCfg [workerMC] [NoFault, FaultConflict]"
  let ?T = "worldOf deletedCfg [workerMC] [FaultOther ''timeout'']"
  let ?N = "worldOf deletedCfg [] []"
  let ?S = "worldOf deletedCfg [workerMC] []"
  have fin: "crcFinalizers deletedCfg = [?tok]" by (simp add: deletedCfg_def)
  have nm: "crcName deletedCfg = ''set-pids''" by (simp add: deletedCfg_def pidsCfg_def)
  have dt: "crcDeletionTimestamp deletedCfg \<noteq> None" by (simp add: deletedCfg_def)
  have g: "getByName crcName (crcName deletedCfg) (mccrLister ?W) = Some deletedCfg"
    by (simp add: getByName_def worldOf_def)
  have m: "getByName mcName ?tok (machineConfigs ?W) = Some workerMC"
    by (simp add: getByName_def worldOf_def workerMC_def sampleMachineConfig_def)
  have r: "fst (cascadeDelete deletedCfg ?W) = Return None"
    by (simp add: cascadeDelete_def popFinalizerFromContainerRuntimeConfig_def popFinalizerOnce_def
        run_defs worldOf_def deletedCfg_def pidsCfg_def workerMC_def sampleMachineConfig_def
        eval_nat_numeral)
  then have run: "cascadeDelete deletedCfg ?W = (Return None, snd (cascadeDelete deletedCfg ?W))"
    by (metis prod.collapse)
  have t2: "fst (MachineConfigsDelete ?tok ?T) = Some (Err ''timeout'')"
    by (simp add: run_defs worldOf_def)
  have t3: "fst (MachineConfigsDelete ?tok ?N) = Some StatusNotFound"
    by (simp add: run_defs worldOf_def)
  have t4: "createSeccompUseDefaultMC E0 ?S = (Return None, traced (GetConfigMap configMapName) ?S)"
    by (simp add: createSeccompUseDefaultMC_def run_defs worldOf_def marker_def)
  have t5: "SplitMetaNamespaceKey ''set-pids'' = Inr ([], crcName deletedCfg)"
    by (simp add: SplitMetaNamespaceKey_def nm)
  have t6: "getByName crcName (crcName deletedCfg)
              (mccrLister (traced (GetConfigMap configMapName) ?S)) = Some deletedCfg"
    by (simp add: getByName_def worldOf_def traced_def)
  have t7: "''set-pids'' \<noteq> forceSyncOnUpgrade" by (simp add: forceSyncOnUpgrade_def)
  note A = cascade_delete_one_finalizer[of deletedCfg ?tok ?W "snd (cascadeDelete deletedCfg ?W)"
      "Err ''timeout''" E0 ?S "traced (GetConfigMap configMapName) ?S" "''set-pids''" "[]"]
  have a1: "getByName mcName ?tok (machineConfigs (snd (cascadeDelete deletedCfg ?W))) = None"
    using A fin g run by blast
  have a2: "\<exists>obj. getByName crcName (crcName deletedCfg)
              (containerRuntimeConfigs (snd (cascadeDelete deletedCfg ?W))) = Some obj
            \<and> crcFinalizers obj = []"
    using A fin g run by blast
  have a3: "syncContainerRuntimeConfig E0 ''set-pids'' ?S
       = cascadeDelete deletedCfg
           (traced (ListerGetContainerRuntimeConfig ''set-pids'') (traced (GetConfigMap configMapName) ?S))"
    using A t4 t5 t6 t7 dt fin nm by simp
  note B = cascade_delete_one_finalizer[of deletedCfg ?tok ?T "snd (cascadeDelete deletedCfg ?T)"
      "Err ''timeout''" E0 ?S "traced (GetConfigMap configMapName) ?S" "''set-pids''" "[]"]
  have b1: "fst (cascadeDelete deletedCfg ?T) = Return (Some (Err ''timeout''))"
    using B fin t2 by simp
  note C = cascade_delete_one_finalizer[of deletedCfg ?tok ?N "snd (cascadeDelete deletedCfg ?N)"
      "Err ''timeout''" E0 ?S "traced (GetConfigMap configMapName) ?S" "''set-pids''" "[]"]
  have c1: "cascadeDelete deletedCfg ?N
       = popFinalizerFromContainerRuntimeConfig deletedCfg (snd (MachineConfigsDelete ?tok ?N))"
    using C fin t3 by blast
  show ?thesis using fin g m r a1 a2 t2 b1 t3 c1 dt a3 by blast
qed

subsection \<open>The annotation of the name suffix\<close>

lemma addAnnotationOnce_success:
  assumes "addAnnotationOnce cfg k v w = (Return None, w')"
  shows "\<exists>obj. getByName crcName (crcName cfg) (containerRuntimeConfigs w') = Some obj
               \<and> crcAnnotations obj = [k \<mapsto> v]"
    and "\<exists>obj. getByName crcName (crcName cfg) (mccrLister w') = Some obj
               \<and> crcAnnotations obj = [k \<mapsto> v]"
proof -
  obtain newcfg where g: "getByName crcName (crcName cfg) (mccrLister w) = Some newcfg"
    using assms by (auto simp: addAnnotationOnce_def mccrListerGet_def split: option.splits)
  have nm: "crcName newcfg = crcName cfg" using g by (rule getByName_name)
  let ?n1 = "newcfg\<lparr>crcAnnotations := [k \<mapsto> v]\<rparr>"
  let ?w2 = "(traced (ListerGetContainerRuntimeConfig (crcName cfg)) w)
               \<lparr>mccrLister := replaceByName crcName (crcName cfg) ?n1 (mccrLister w)\<rparr>"
  have u: "ContainerRuntimeConfigsUpdate ?n1 ?w2 = (None, w')"
    using assms g
    by (auto simp: addAnnotationOnce_def mccrListerGet_def Let_def traced_def split: prod.splits)
  then obtain old w3 where c: "clientCall (UpdateContainerRuntimeConfig (crcName cfg)) ?w2 = (None, w3)"
    and o: "getByName crcName (crcName cfg) (containerRuntimeConfigs w3) = Some old"
    and w': "w' = w3\<lparr>containerRuntimeConfigs := replaceByName crcName (crcName cfg)
                 (?n1\<lparr>crcObservedGeneration := crcObservedGeneration old, crcConditions := crcConditions old\<rparr>)
                 (containerRuntimeConfigs w3)\<rparr>"
    using nm by (auto simp: ContainerRuntimeConfigsUpdate_def split: prod.splits option.splits)
  have l3: "mccrLister w3 = replaceByName crcName (crcName cfg) ?n1 (mccrLister w)"
    using c by (auto simp: clientCall_def traced_def split: list.splits)
  show "\<exists>obj. getByName crcName (crcName cfg) (containerRuntimeConfigs w') = Some obj
               \<and> crcAnnotations obj = [k \<mapsto> v]"
    unfolding w' using getByName_replace[OF o, of "?n1\<lparr>crcObservedGeneration := crcObservedGeneration old, crcConditions := crcConditions old\<rparr>"] nm
    by simp
  show "\<exists>obj. getByName crcName (crcName cfg) (mccrLister w') = Some obj
               \<and> crcAnnotations obj = [k \<mapsto> v]"
    unfolding w' using l3 getByName_replace[OF g, of ?n1] nm by simp
qed

lemma newMachineConfig_annotates:
  assumes mk: "MachineConfigFromIgnConfig E role managedKey (NewIgnConfig E) = Inr mc"
    and no: "crcAnnotations cfg (MCNameSuffixAnnotationKey E) = None"
    and len: "length (Split managedKey CHR ''-'') > 4"
    and num: "Atoi (last (Split managedKey CHR ''-'')) = Inr n"
    and res: "newMachineConfig E cfg role managedKey w = (Inr mc', w')"
  shows "addAnnotation cfg (MCNameSuffixAnnotationKey E) (last (Split managedKey CHR ''-'')) w
           = (Return None, w')"
proof -
  let ?arr = "Split managedKey CHR ''-''"
  have ne: "?arr \<noteq> []" using len by auto
  have l: "?arr ! (length ?arr - 1) = last ?arr" using ne by (simp add: last_conv_nth)
  obtain r wa where a: "addAnnotation cfg (MCNameSuffixAnnotationKey E) (last ?arr) w = (r, wa)"
    by (metis prod.collapse)
  from res mk no len num a l show ?thesis
    by (auto simp: newMachineConfig_def Let_def split: outcome.splits option.splits prod.splits)
qed

text \<open>
  C9. When \<^verbatim>\<open>addAnnotation\<close> succeeds, the ContainerRuntimeConfig stored by the server has
  exactly one annotation, the one given: every other key of its annotations is unset,
  whatever was stored before. The object in the lister's cache is changed in the same
  way. The synchroniser calls it when it makes a machine config anew whose key ends in a
  number and the ContainerRuntimeConfig has no suffix annotation: when that step goes
  on, the stored object has the suffix as its only annotation.
\<close>

theorem addAnnotation_replaces_annotations:
  "(addAnnotation cfg annotationKey annotationVal w = (Return None, w') \<longrightarrow>
     (\<exists>obj. getByName crcName (crcName cfg) (containerRuntimeConfigs w') = Some obj
            \<and> crcAnnotations obj = [annotationKey \<mapsto> annotationVal]
            \<and> (\<forall>k. k \<noteq> annotationKey \<longrightarrow> crcAnnotations obj k = None))
     \<and> (\<exists>obj. getByName crcName (crcName cfg) (mccrLister w') = Some obj
            \<and> crcAnnotations obj = [annotationKey \<mapsto> annotationVal]))
   \<and> (MachineConfigFromIgnConfig E role managedKey (NewIgnConfig E) = Inr mc
        \<and> crcAnnotations cfg (MCNameSuffixAnnotationKey E) = None
        \<and> length (Split managedKey CHR ''-'') > 4
        \<and> Atoi (last (Split managedKey CHR ''-'')) = Inr n
        \<and> newMachineConfig E cfg role managedKey v = (Inr mc', v') \<longrightarrow>
        (\<exists>obj. getByName crcName (crcName cfg) (containerRuntimeConfigs v') = Some obj
               \<and> crcAnnotations obj = [MCNameSuffixAnnotationKey E \<mapsto> last (Split managedKey CHR ''-'')]))"
proof -
  have main: "(\<exists>obj. getByName crcName (crcName cfg) (containerRuntimeConfigs w') = Some obj
            \<and> crcAnnotations obj = [annotationKey \<mapsto> annotationVal]
            \<and> (\<forall>k. k \<noteq> annotationKey \<longrightarrow> crcAnnotations obj k = None))
     \<and> (\<exists>obj. getByName crcName (crcName cfg) (mccrLister w') = Some obj
            \<and> crcAnnotations obj = [annotationKey \<mapsto> annotationVal])"
    if a: "addAnnotation cfg annotationKey annotationVal w = (Return None, w')"
    for annotationKey annotationVal w w'
  proof -
    have "\<exists>s0. True \<and> addAnnotationOnce cfg annotationKey annotationVal s0 = (Return None, w')"
      by (rule retrySteps_success[where I="\<lambda>_. True" and n=updateBackoffSteps and s=w])
         (use a in \<open>auto simp: addAnnotation_def RetryOnConflict_def updateBackoffSteps_def\<close>)
    then obtain s0 where s0: "addAnnotationOnce cfg annotationKey annotationVal s0 = (Return None, w')"
      by blast
    from addAnnotationOnce_success[OF s0] show ?thesis by auto
  qed
  have new: "\<exists>obj. getByName crcName (crcName cfg) (containerRuntimeConfigs v') = Some obj
               \<and> crcAnnotations obj = [MCNameSuffixAnnotationKey E \<mapsto> last (Split managedKey CHR ''-'')]"
    if h: "MachineConfigFromIgnConfig E role managedKey (NewIgnConfig E) = Inr mc
        \<and> crcAnnotations cfg (MCNameSuffixAnnotationKey E) = None
        \<and> length (Split managedKey CHR ''-'') > 4
        \<and> Atoi (last (Split managedKey CHR ''-'')) = Inr n
        \<and> newMachineConfig E cfg role managedKey v = (Inr mc', v')"
  proof -
    have "addAnnotation cfg (MCNameSuffixAnnotationKey E) (last (Split managedKey CHR ''-'')) v
            = (Return None, v')"
      by (rule newMachineConfig_annotates[of E role managedKey mc cfg n v mc' v']) (use h in simp_all)
    from main[OF this] show ?thesis by blast
  qed
  show ?thesis
    apply (intro conjI impI)
      apply (drule main, blast)
     apply (drule main, blast)
    apply (erule new)
    done
qed

theorem addAnnotation_replaces_annotations_witness:
  "crcAnnotations annotatedCfg ''team'' = Some ''a''
   \<and> getByName crcName ''set-pids'' (containerRuntimeConfigs (worldOf annotatedCfg [] [])) = Some annotatedCfg
   \<and> fst (addAnnotation annotatedCfg (MCNameSuffixAnnotationKey E0) ''1'' (worldOf annotatedCfg [] []))
       = Return None
   \<and> (\<exists>obj. getByName crcName (crcName annotatedCfg)
              (containerRuntimeConfigs
                 (snd (addAnnotation annotatedCfg (MCNameSuffixAnnotationKey E0) ''1''
                         (worldOf annotatedCfg [] [])))) = Some obj
            \<and> crcAnnotations obj = [MCNameSuffixAnnotationKey E0 \<mapsto> ''1'']
            \<and> crcAnnotations obj ''team'' = None)
   \<and> crcAnnotations annotatedCfg (MCNameSuffixAnnotationKey E0) = None
   \<and> Split ''99-worker-generated-containerruntime-1'' CHR ''-''
       = [''99'', ''worker'', ''generated'', ''containerruntime'', ''1'']
   \<and> Atoi ''1'' = Inr 1
   \<and> fst (newMachineConfig E0 annotatedCfg ''worker'' ''99-worker-generated-containerruntime-1''
             (worldOf annotatedCfg [] []))
       = Inr (Some (sampleMachineConfig ''worker'' ''99-worker-generated-containerruntime-1''))
   \<and> (\<exists>obj. getByName crcName (crcName annotatedCfg)
              (containerRuntimeConfigs
                 (snd (newMachineConfig E0 annotatedCfg ''worker'' ''99-worker-generated-containerruntime-1''
                         (worldOf annotatedCfg [] [])))) = Some obj
            \<and> crcAnnotations obj = [MCNameSuffixAnnotationKey E0 \<mapsto> ''1'']
            \<and> crcAnnotations obj ''team'' = None)"
proof -
  let ?W = "worldOf annotatedCfg [] []"
  let ?k = "MCNameSuffixAnnotationKey E0"
  let ?key = "''99-worker-generated-containerruntime-1''"
  let ?mc = "sampleMachineConfig ''worker'' ?key"
  have once: "fst (addAnnotationOnce annotatedCfg ?k ''1'' ?W) = Return None"
    by (simp add: addAnnotationOnce_def mccrListerGet_def getByName_def worldOf_def traced_def
        ContainerRuntimeConfigsUpdate_def clientCall_def Let_def annotatedCfg_def pidsCfg_def)
  then have "addAnnotationOnce annotatedCfg ?k ''1'' ?W
               = (Return None, snd (addAnnotationOnce annotatedCfg ?k ''1'' ?W))"
    by (metis prod.collapse)
  then have run: "addAnnotation annotatedCfg ?k ''1'' ?W
               = (Return None, snd (addAnnotationOnce annotatedCfg ?k ''1'' ?W))"
    unfolding addAnnotation_def RetryOnConflict_def
    by (rule retrySteps_done) (simp add: updateBackoffSteps_def)
  have a: "crcAnnotations annotatedCfg ''team'' = Some ''a''" by (simp add: annotatedCfg_def)
  have b: "getByName crcName ''set-pids'' (containerRuntimeConfigs ?W) = Some annotatedCfg"
    by (simp add: getByName_def worldOf_def annotatedCfg_def pidsCfg_def)
  have k: "''team'' \<noteq> ?k" by (simp add: E0_def)
  have sp: "Split ?key CHR ''-'' = [''99'', ''worker'', ''generated'', ''containerruntime'', ''1'']"
    by simp
  have at1: "Atoi ''1'' = Inr 1"
    by (simp add: Atoi_def isDigit_def digitsValue_def)
  have no: "crcAnnotations annotatedCfg ?k = None" by (simp add: annotatedCfg_def E0_def)
  have mk: "MachineConfigFromIgnConfig E0 ''worker'' ?key (NewIgnConfig E0) = Inr ?mc"
    by (simp add: E0_def)
  have nw: "newMachineConfig E0 annotatedCfg ''worker'' ?key ?W
       = (Inr (Some ?mc), snd (addAnnotationOnce annotatedCfg ?k ''1'' ?W))"
    using mk no at1 run by (simp add: newMachineConfig_def Let_def sp)
  note T = addAnnotation_replaces_annotations[of annotatedCfg ?k "''1''" ?W
      "snd (addAnnotationOnce annotatedCfg ?k ''1'' ?W)" E0 "''worker''" ?key ?mc 1 ?W "Some ?mc"
      "snd (addAnnotationOnce annotatedCfg ?k ''1'' ?W)"]
  have c: "\<exists>obj. getByName crcName (crcName annotatedCfg)
              (containerRuntimeConfigs (snd (addAnnotationOnce annotatedCfg ?k ''1'' ?W))) = Some obj
            \<and> crcAnnotations obj = [?k \<mapsto> ''1'']
            \<and> crcAnnotations obj ''team'' = None"
    using T run k by blast
  have pre: "MachineConfigFromIgnConfig E0 ''worker'' ?key (NewIgnConfig E0) = Inr ?mc
        \<and> crcAnnotations annotatedCfg ?k = None
        \<and> length (Split ?key CHR ''-'') > 4
        \<and> Atoi (last (Split ?key CHR ''-'')) = Inr 1
        \<and> newMachineConfig E0 annotatedCfg ''worker'' ?key ?W
            = (Inr (Some ?mc), snd (addAnnotationOnce annotatedCfg ?k ''1'' ?W))"
    using mk no at1 nw by (simp add: sp)
  have d0: "\<exists>obj. getByName crcName (crcName annotatedCfg)
              (containerRuntimeConfigs (snd (addAnnotationOnce annotatedCfg ?k ''1'' ?W))) = Some obj
            \<and> crcAnnotations obj = [?k \<mapsto> last (Split ?key CHR ''-'')]"
    using T pre by blast
  have d: "\<exists>obj. getByName crcName (crcName annotatedCfg)
              (containerRuntimeConfigs (snd (newMachineConfig E0 annotatedCfg ''worker'' ?key ?W))) = Some obj
            \<and> crcAnnotations obj = [?k \<mapsto> ''1'']
            \<and> crcAnnotations obj ''team'' = None"
    using d0 k unfolding nw by (auto simp: sp)
  show ?thesis using a b run c no sp at1 nw d by simp
qed

subsection \<open>One pool of a pass\<close>

lemma syncStatusOnlyOnce_no_panic:
  "\<exists>eo t. syncStatusOnlyOnce E cfg err args w = (Return eo, t)"
  by (auto simp: syncStatusOnlyOnce_def Let_def split: prod.splits sum.splits)

lemma syncStatusOnly_returns: "fst (syncStatusOnly E cfg err args w) = Return err"
proof -
  obtain eo t where "retrySteps updateBackoffSteps (syncStatusOnlyOnce E cfg err args) w = (Return eo, t)"
    using retrySteps_no_panic[of "syncStatusOnlyOnce E cfg err args" updateBackoffSteps w]
      syncStatusOnlyOnce_no_panic by blast
  then show ?thesis by (simp add: syncStatusOnly_def RetryOnConflict_def)
qed











lemmas sample_defs = E0_def sampleValidate_def sampleCondition_def sampleFile_def sampleMarshal_def
  sampleMachineConfig_def versionKey_def worldOf_def workerPool_def workerSelector_def marker_def
  pidsCfg_def emptyQueue_def workerMC_def syncedCfg_def currentMC_def staleMC_def deletedCfg_def
  seenCfg_def invalidCfg_def sampleImage_def registriesPayload_def registriesMC_def




subsection \<open>The index into the conditions\<close>

text \<open>
  C8. Let the machine config of a pool be found and the observed generation of the
  ContainerRuntimeConfig be at least its generation. Then the check of lines 554 to 559
  indexes the last condition: when the list of conditions is empty, the iteration
  panics with an index out of range, and so do the loop over the pools and the whole
  pass that reaches this pool first; an iteration that does not panic in this way has a
  non-empty list. With a non-empty list the check does not raise this panic.
\<close>

theorem condition_index_unguarded:
  "(getManagedKeyCtrCfg E pool cfg w = (Inr managedKey, w0)
    \<and> MachineConfigsGet managedKey w0 = ((mc, None), w1)
    \<and> crcGeneration cfg \<le> crcObservedGeneration cfg \<longrightarrow>
      (crcConditions cfg = [] \<longrightarrow>
         syncPool E cfg controllerConfig pool w = (Stop (Panic ''index out of range [-1]''), w1)
         \<and> syncPools E cfg controllerConfig (pool # pools) w
             = (Some (Panic ''index out of range [-1]''), w1))
      \<and> (fst (syncPool E cfg controllerConfig pool w) \<noteq> Stop (Panic ''index out of range [-1]'') \<longrightarrow>
           crcConditions cfg \<noteq> []))
   \<and> (crcConditions cfg \<noteq> [] \<longrightarrow> seenAndCurrent E cfg mc isNotFound \<noteq> Panic ''index out of range [-1]'')
   \<and> (createSeccompUseDefaultMC E v = (Return None, v1) \<and> key \<noteq> forceSyncOnUpgrade
       \<and> SplitMetaNamespaceKey key = Inr (ns, name)
       \<and> getByName crcName name (mccrLister v1) = Some cfg
       \<and> crcDeletionTimestamp cfg = None
       \<and> validateUserContainerRuntimeConfig E cfg = None
       \<and> ccLister v1 = Some controllerConfig
       \<and> getPoolsForContainerRuntimeConfig E cfg
            (traced ListerGetControllerConfig (traced (ListerGetContainerRuntimeConfig name) v1))
           = (Inr (pool # pools), v4)
       \<and> getManagedKeyCtrCfg E pool cfg v4 = (Inr managedKey, v5)
       \<and> MachineConfigsGet managedKey v5 = ((mc, None), v6)
       \<and> crcGeneration cfg \<le> crcObservedGeneration cfg
       \<and> crcConditions cfg = [] \<longrightarrow>
        syncContainerRuntimeConfig E key v = (Panic ''index out of range [-1]'', v6))"
proof -
  have body: "syncPool E cfg controllerConfig pool w = (Stop (Panic ''index out of range [-1]''), w1)"
    if "getManagedKeyCtrCfg E pool cfg w = (Inr managedKey, w0)"
      "MachineConfigsGet managedKey w0 = ((mc, None), w1)"
      "crcGeneration cfg \<le> crcObservedGeneration cfg" "crcConditions cfg = []"
    for w w0 w1 mc
    using that by (simp add: syncPool_def seenAndCurrent_def IsNotFound_def Let_def)
  have loop: "syncPools E cfg controllerConfig (pool # pools) w = (Some (Panic ''index out of range [-1]''), w1)"
    if "getManagedKeyCtrCfg E pool cfg w = (Inr managedKey, w0)"
      "MachineConfigsGet managedKey w0 = ((mc, None), w1)"
      "crcGeneration cfg \<le> crcObservedGeneration cfg" "crcConditions cfg = []"
    for w w0 w1 mc
    using body[OF that] by simp
  have guard: "seenAndCurrent E cfg mc isNotFound \<noteq> Panic ''index out of range [-1]''"
    if "crcConditions cfg \<noteq> []"
    using that by (auto simp: seenAndCurrent_def split: option.splits)
  have pass: "syncContainerRuntimeConfig E key v = (Panic ''index out of range [-1]'', v6)"
    if h: "createSeccompUseDefaultMC E v = (Return None, v1)" "key \<noteq> forceSyncOnUpgrade"
      "SplitMetaNamespaceKey key = Inr (ns, name)"
      "getByName crcName name (mccrLister v1) = Some cfg"
      "crcDeletionTimestamp cfg = None"
      "validateUserContainerRuntimeConfig E cfg = None"
      "ccLister v1 = Some controllerConfig"
      "getPoolsForContainerRuntimeConfig E cfg
            (traced ListerGetControllerConfig (traced (ListerGetContainerRuntimeConfig name) v1))
           = (Inr (pool # pools), v4)"
      "getManagedKeyCtrCfg E pool cfg v4 = (Inr managedKey, v5)"
      "MachineConfigsGet managedKey v5 = ((mc, None), v6)"
      "crcGeneration cfg \<le> crcObservedGeneration cfg"
      "crcConditions cfg = []"
  proof -
    have l: "syncPools E cfg controllerConfig (pool # pools) v4 = (Some (Panic ''index out of range [-1]''), v6)"
      by (rule loop[OF h(9,10,11,12)])
    have cc: "ccListerGet (traced (ListerGetContainerRuntimeConfig name) v1)
        = (Inr controllerConfig, traced ListerGetControllerConfig (traced (ListerGetContainerRuntimeConfig name) v1))"
      using h(7) by (simp add: ccListerGet_def traced_def)
    show ?thesis
      using h(1-6) cc h(8) l
      by (simp add: syncContainerRuntimeConfig_def mccrListerGet_def)
  qed
  show ?thesis
    using body loop guard pass by (intro conjI impI) (auto simp del: syncPools.simps)
qed

theorem condition_index_unguarded_witness:
  "crcConditions seenCfg = []
   \<and> crcGeneration seenCfg \<le> crcObservedGeneration seenCfg
   \<and> getByName mcName ''99-worker-generated-containerruntime''
         (machineConfigs (worldOf seenCfg [currentMC] [])) = Some currentMC
   \<and> fst (syncPool E0 seenCfg ''controller-config'' workerPool (worldOf seenCfg [currentMC] []))
       = Stop (Panic ''index out of range [-1]'')
   \<and> fst (syncContainerRuntimeConfig E0 ''set-pids'' (worldOf seenCfg [currentMC] []))
       = Panic ''index out of range [-1]''
   \<and> crcConditions syncedCfg \<noteq> []
   \<and> seenAndCurrent E0 syncedCfg (Some currentMC) False = Return True"
proof -
  let ?key = "''99-worker-generated-containerruntime''"
  let ?W = "worldOf seenCfg [currentMC] []"
  let ?v1 = "traced (GetConfigMap configMapName) ?W"
  let ?v3 = "traced ListerGetControllerConfig (traced (ListerGetContainerRuntimeConfig ''set-pids'') ?v1)"
  let ?v4 = "traced ListerListMachineConfigPools ?v3"
  let ?v6 = "traced (GetMachineConfig ?key) ?v4"
  have c: "crcConditions seenCfg = []" "crcGeneration seenCfg \<le> crcObservedGeneration seenCfg"
    "crcDeletionTimestamp seenCfg = None"
    by (simp_all add: seenCfg_def pidsCfg_def)
  have m: "getByName mcName ?key (machineConfigs ?W) = Some currentMC"
    by (simp add: run_defs sample_defs)
  have k0: "getManagedKeyCtrCfg E0 workerPool seenCfg ?W = (Inr ?key, ?W)"
    by (simp add: E0_def workerPool_def)
  have g0: "MachineConfigsGet ?key ?W = ((Some currentMC, None), traced (GetMachineConfig ?key) ?W)"
    by (simp add: run_defs sample_defs)
  have h1: "createSeccompUseDefaultMC E0 ?W = (Return None, ?v1)"
    by (simp add: createSeccompUseDefaultMC_def run_defs worldOf_def marker_def)
  have h2: "''set-pids'' \<noteq> forceSyncOnUpgrade" by (simp add: forceSyncOnUpgrade_def)
  have h3: "SplitMetaNamespaceKey ''set-pids'' = Inr ([], ''set-pids'')"
    by (simp add: SplitMetaNamespaceKey_def)
  have h4: "getByName crcName ''set-pids'' (mccrLister ?v1) = Some seenCfg"
    by (simp add: run_defs sample_defs)
  have h6: "validateUserContainerRuntimeConfig E0 seenCfg = None"
    by (simp add: sample_defs)
  have h7: "ccLister ?v1 = Some ''controller-config''"
    by (simp add: traced_def worldOf_def)
  have h8: "getPoolsForContainerRuntimeConfig E0 seenCfg ?v3 = (Inr [workerPool], ?v4)"
    by (simp add: getPoolsForContainerRuntimeConfig_def mcpListerList_def Let_def
        LabelSelectorAsSelector_def NewRequirement_def matchedPools_def Everything_def
        traced_def sample_defs)
  have h9: "getManagedKeyCtrCfg E0 workerPool seenCfg ?v4 = (Inr ?key, ?v4)"
    by (simp add: E0_def workerPool_def)
  have h10: "MachineConfigsGet ?key ?v4 = ((Some currentMC, None), ?v6)"
    by (simp add: run_defs sample_defs)
  note A = condition_index_unguarded[of E0 workerPool seenCfg ?W ?key ?W "Some currentMC"
      "traced (GetMachineConfig ?key) ?W" "''controller-config''" "[]" False
      ?W ?v1 "''set-pids''" "[]" "''set-pids''" ?v4 ?v4 ?v6]
  have a: "fst (syncPool E0 seenCfg ''controller-config'' workerPool ?W)
       = Stop (Panic ''index out of range [-1]'')"
    using A k0 g0 c by simp
  have b: "fst (syncContainerRuntimeConfig E0 ''set-pids'' ?W) = Panic ''index out of range [-1]''"
    using A h1 h2 h3 h4 h6 h7 h8 h9 h10 c by simp
  have d: "crcConditions syncedCfg \<noteq> []" by (simp add: syncedCfg_def)
  have e: "seenAndCurrent E0 syncedCfg (Some currentMC) False = Return True"
    by (simp add: seenAndCurrent_def sample_defs at_def)
  show ?thesis using c m a b d e by simp
qed

subsection \<open>A ContainerRuntimeConfig that fails validation\<close>

lemma recordCondition_last: "recordCondition cs c \<noteq> [] \<and> last (recordCondition cs c) = c"
  by (simp add: recordCondition_eq)

lemma UpdateStatus_frame:
  assumes "ContainerRuntimeConfigsUpdateStatus cfg w = (r, w')"
  shows "trace w' = trace w @ [UpdateStatusContainerRuntimeConfig (crcName cfg)]"
    "mccrLister w' = mccrLister w" "clock w' = clock w" "queue w' = queue w"
proof -
  obtain r0 w0 where c: "clientCall (UpdateStatusContainerRuntimeConfig (crcName cfg)) w = (r0, w0)"
    by (cases "clientCall (UpdateStatusContainerRuntimeConfig (crcName cfg)) w")
  have q: "queue w0 = queue w" using c by (auto simp: clientCall_def traced_def split: list.splits)
  note f = clientCall_frame[OF c]
  from assms c have "trace w' = trace w0 \<and> mccrLister w' = mccrLister w0 \<and> clock w' = clock w0
      \<and> queue w' = queue w0"
    by (auto simp: ContainerRuntimeConfigsUpdateStatus_def split: option.splits)
  with f q show "trace w' = trace w @ [UpdateStatusContainerRuntimeConfig (crcName cfg)]"
    "mccrLister w' = mccrLister w" "clock w' = clock w" "queue w' = queue w" by auto
qed

lemma syncStatusOnlyOnce_trace:
  assumes "getByName crcName (crcName cfg) (mccrLister w) = Some c"
  shows "trace (snd (syncStatusOnlyOnce E cfg err args w))
           = trace w @ [ListerGetContainerRuntimeConfig (crcName cfg),
                        UpdateStatusContainerRuntimeConfig (crcName cfg)]"
    and "queue (snd (syncStatusOnlyOnce E cfg err args w)) = queue w"
proof -
  have nm: "crcName c = crcName cfg" using assms by (rule getByName_name)
  let ?c1 = "if crcGeneration c \<noteq> crcObservedGeneration c
             then c\<lparr>crcObservedGeneration := crcGeneration c\<rparr> else c"
  let ?c2 = "?c1\<lparr>crcConditions := recordCondition (crcConditions ?c1)
                      (wrapErrorWithCondition E (clock w) err args)\<rparr>"
  let ?w2 = "(traced (ListerGetContainerRuntimeConfig (crcName cfg)) w)
               \<lparr>mccrLister := replaceByName crcName (crcName cfg) ?c2 (mccrLister w)\<rparr>"
  obtain r w3 where u: "ContainerRuntimeConfigsUpdateStatus ?c2 ?w2 = (r, w3)"
    by (cases "ContainerRuntimeConfigsUpdateStatus ?c2 ?w2")
  have s: "snd (syncStatusOnlyOnce E cfg err args w) = w3"
    using assms u by (simp add: syncStatusOnlyOnce_def mccrListerGet_def Let_def traced_def)
  have n2: "crcName ?c2 = crcName cfg" using nm by simp
  note f = UpdateStatus_frame[OF u]
  show "trace (snd (syncStatusOnlyOnce E cfg err args w))
           = trace w @ [ListerGetContainerRuntimeConfig (crcName cfg),
                        UpdateStatusContainerRuntimeConfig (crcName cfg)]"
    unfolding s f(1) n2 by (simp add: traced_def)
  show "queue (snd (syncStatusOnlyOnce E cfg err args w)) = queue w"
    unfolding s f(4) by (simp add: traced_def)
qed

lemma syncStatusOnly_records:
  assumes "getByName crcName (crcName cfg) (mccrLister w) = Some c"
  shows "\<exists>c'. getByName crcName (crcName cfg) (mccrLister (snd (syncStatusOnly E cfg err args w))) = Some c'
            \<and> crcConditions c' \<noteq> []
            \<and> last (crcConditions c') = wrapErrorWithCondition E (clock w) err args"
    and "\<exists>rest. trace (snd (syncStatusOnly E cfg err args w)) = trace w @ rest \<and> rest \<noteq> []
            \<and> last rest = UpdateStatusContainerRuntimeConfig (crcName cfg)
            \<and> set rest \<subseteq> statusCalls (crcName cfg)"
    and "queue (snd (syncStatusOnly E cfg err args w)) = queue w"
proof -
  let ?name = "crcName cfg"
  define new where "new = wrapErrorWithCondition E (clock w) err args"
  define I where "I = (\<lambda>s::world. clock s = clock w \<and> queue s = queue w
      \<and> (\<exists>c. getByName crcName ?name (mccrLister s) = Some c)
      \<and> (\<exists>rest. trace s = trace w @ rest \<and> set rest \<subseteq> statusCalls ?name))"
  define J where "J = (\<lambda>s::world. clock s = clock w \<and> queue s = queue w
      \<and> (\<exists>c. getByName crcName ?name (mccrLister s) = Some c \<and> crcConditions c \<noteq> []
              \<and> last (crcConditions c) = new)
      \<and> (\<exists>rest. trace s = trace w @ rest \<and> rest \<noteq> []
              \<and> last rest = UpdateStatusContainerRuntimeConfig ?name
              \<and> set rest \<subseteq> statusCalls ?name))"
  have IJ: "J t" if Is: "I s" and st: "syncStatusOnlyOnce E cfg err args s = (r, t)" for s r t
  proof -
    from Is obtain c0 rest where c0: "getByName crcName ?name (mccrLister s) = Some c0"
      and rest: "trace s = trace w @ rest" "set rest \<subseteq> statusCalls ?name"
      and ck: "clock s = clock w" and q: "queue s = queue w"
      unfolding I_def by blast
    have t: "t = snd (syncStatusOnlyOnce E cfg err args s)" using st by simp
    from syncStatusOnlyOnce_cache[OF c0, of E err args]
    obtain c' where c': "getByName crcName ?name (mccrLister t) = Some c'"
      "crcConditions c' = recordCondition (crcConditions c0) new" and ck': "clock t = clock w"
      unfolding t new_def ck by auto
    note tr = syncStatusOnlyOnce_trace[OF c0, of E err args, folded t]
    let ?rest' = "rest @ [ListerGetContainerRuntimeConfig ?name, UpdateStatusContainerRuntimeConfig ?name]"
    have "trace t = trace w @ ?rest'" using tr(1) rest(1) by simp
    moreover have "?rest' \<noteq> []" "last ?rest' = UpdateStatusContainerRuntimeConfig ?name" by simp_all
    moreover have "set ?rest' \<subseteq> statusCalls ?name" using rest(2) by (auto simp: statusCalls_def)
    ultimately have "\<exists>rest. trace t = trace w @ rest \<and> rest \<noteq> []
              \<and> last rest = UpdateStatusContainerRuntimeConfig ?name
              \<and> set rest \<subseteq> statusCalls ?name" by blast
    moreover have "crcConditions c' \<noteq> [] \<and> last (crcConditions c') = new"
      unfolding c'(2) by (rule recordCondition_last)
    ultimately show ?thesis unfolding J_def using c'(1) ck' tr(2) q by auto
  qed
  have JI: "I s" if "J s" for s using that unfolding I_def J_def by auto
  have JJ: "J t" if "J s" and "syncStatusOnlyOnce E cfg err args s = (r, t)" for s r t
    using IJ[OF JI[OF that(1)] that(2)] .
  have I0: "I w" unfolding I_def using assms by auto
  have "J (snd (syncStatusOnly E cfg err args w))"
    unfolding syncStatusOnly_snd
    by (rule retrySteps_first[where I=I]) (use I0 IJ JJ in \<open>auto simp: updateBackoffSteps_def\<close>)
  then show "\<exists>c'. getByName crcName (crcName cfg) (mccrLister (snd (syncStatusOnly E cfg err args w))) = Some c'
            \<and> crcConditions c' \<noteq> []
            \<and> last (crcConditions c') = wrapErrorWithCondition E (clock w) err args"
    and "\<exists>rest. trace (snd (syncStatusOnly E cfg err args w)) = trace w @ rest \<and> rest \<noteq> []
            \<and> last rest = UpdateStatusContainerRuntimeConfig (crcName cfg)
            \<and> set rest \<subseteq> statusCalls (crcName cfg)"
    and "queue (snd (syncStatusOnly E cfg err args w)) = queue w"
    unfolding J_def new_def by auto
qed

lemma syncStatusOnlyOnce_clock: "clock (snd (syncStatusOnlyOnce E cfg err args s)) = clock s"
proof (cases "getByName crcName (crcName cfg) (mccrLister s)")
  case None
  then show ?thesis by (simp add: syncStatusOnlyOnce_def mccrListerGet_def traced_def)
next
  case (Some c)
  then show ?thesis by (rule syncStatusOnlyOnce_cache(2))
qed

lemma UpdateStatus_success:
  assumes "ContainerRuntimeConfigsUpdateStatus c w = (None, w')"
  shows "\<exists>obj. getByName crcName (crcName c) (containerRuntimeConfigs w') = Some obj
           \<and> crcConditions obj = crcConditions c
           \<and> crcObservedGeneration obj = crcObservedGeneration c"
proof -
  obtain r0 w0 where cc: "clientCall (UpdateStatusContainerRuntimeConfig (crcName c)) w = (r0, w0)"
    by (cases "clientCall (UpdateStatusContainerRuntimeConfig (crcName c)) w")
  from assms cc have r0: "r0 = None"
    by (cases r0) (simp_all add: ContainerRuntimeConfigsUpdateStatus_def)
  from assms cc r0 obtain old where old: "getByName crcName (crcName c) (containerRuntimeConfigs w0) = Some old"
    by (cases "getByName crcName (crcName c) (containerRuntimeConfigs w0)")
       (simp_all add: ContainerRuntimeConfigsUpdateStatus_def)
  let ?obj = "old\<lparr>crcObservedGeneration := crcObservedGeneration c, crcConditions := crcConditions c\<rparr>"
  have w': "containerRuntimeConfigs w'
       = replaceByName crcName (crcName c) ?obj (containerRuntimeConfigs w0)"
    using assms cc r0 old by (auto simp: ContainerRuntimeConfigsUpdateStatus_def)
  have n: "crcName ?obj = crcName c" using getByName_name[OF old] by simp
  have "getByName crcName (crcName c) (containerRuntimeConfigs w') = Some ?obj"
    unfolding w' using old n by (rule getByName_replace)
  then show ?thesis by simp
qed

lemma syncStatusOnlyOnce_server:
  assumes "syncStatusOnlyOnce E cfg err args s = (Return None, t)"
  shows "\<exists>obj. getByName crcName (crcName cfg) (containerRuntimeConfigs t) = Some obj
           \<and> crcConditions obj \<noteq> []
           \<and> last (crcConditions obj) = wrapErrorWithCondition E (clock s) err args"
proof (cases "getByName crcName (crcName cfg) (mccrLister s)")
  case None
  with assms show ?thesis by (simp add: syncStatusOnlyOnce_def mccrListerGet_def)
next
  case (Some c)
  have nm: "crcName c = crcName cfg" using Some by (rule getByName_name)
  let ?c1 = "if crcGeneration c \<noteq> crcObservedGeneration c
             then c\<lparr>crcObservedGeneration := crcGeneration c\<rparr> else c"
  let ?c2 = "?c1\<lparr>crcConditions := recordCondition (crcConditions ?c1)
                      (wrapErrorWithCondition E (clock s) err args)\<rparr>"
  let ?w2 = "(traced (ListerGetContainerRuntimeConfig (crcName cfg)) s)
               \<lparr>mccrLister := replaceByName crcName (crcName cfg) ?c2 (mccrLister s)\<rparr>"
  obtain r w3 where u: "ContainerRuntimeConfigsUpdateStatus ?c2 ?w2 = (r, w3)"
    by (cases "ContainerRuntimeConfigsUpdateStatus ?c2 ?w2")
  have s: "syncStatusOnlyOnce E cfg err args s = (Return r, w3)"
    using Some u by (simp add: syncStatusOnlyOnce_def mccrListerGet_def Let_def traced_def)
  with assms have r: "r = None" and t: "t = w3" by simp_all
  have n2: "crcName ?c2 = crcName cfg" using nm by simp
  from UpdateStatus_success[OF u[unfolded r]] obtain obj where
    obj: "getByName crcName (crcName ?c2) (containerRuntimeConfigs w3) = Some obj"
     "crcConditions obj = crcConditions ?c2" by blast
  have c2: "crcConditions ?c2 = recordCondition (crcConditions c) (wrapErrorWithCondition E (clock s) err args)"
    by simp
  have "crcConditions obj \<noteq> [] \<and> last (crcConditions obj) = wrapErrorWithCondition E (clock s) err args"
    unfolding obj(2) c2 by (rule recordCondition_last)
  with obj(1) show ?thesis unfolding n2 t by blast
qed

lemma syncStatusOnly_server:
  assumes "fst (RetryOnConflict (syncStatusOnlyOnce E cfg err args) w) = Return None"
  shows "\<exists>obj. getByName crcName (crcName cfg)
                 (containerRuntimeConfigs (snd (syncStatusOnly E cfg err args w))) = Some obj
           \<and> crcConditions obj \<noteq> []
           \<and> last (crcConditions obj) = wrapErrorWithCondition E (clock w) err args"
proof -
  obtain w' where r: "retrySteps updateBackoffSteps (syncStatusOnlyOnce E cfg err args) w = (Return None, w')"
    using assms unfolding RetryOnConflict_def
    by (cases "retrySteps updateBackoffSteps (syncStatusOnlyOnce E cfg err args) w") simp
  have s: "snd (syncStatusOnly E cfg err args w) = w'"
    unfolding syncStatusOnly_snd r by simp
  define I where "I = (\<lambda>s::world. clock s = clock w)"
  have step: "I t" if Is: "I s" and st: "syncStatusOnlyOnce E cfg err args s = (r, t)" for s r t
  proof -
    have "clock t = clock s" using syncStatusOnlyOnce_clock[of E cfg err args s] st by simp
    then show ?thesis using Is unfolding I_def by simp
  qed
  have "\<exists>s0. I s0 \<and> syncStatusOnlyOnce E cfg err args s0 = (Return None, w')"
  proof (rule retrySteps_success[where I=I and n=updateBackoffSteps and s=w])
    show "retrySteps updateBackoffSteps (syncStatusOnlyOnce E cfg err args) w = (Return None, w')" by (rule r)
    show "0 < updateBackoffSteps" by (simp add: updateBackoffSteps_def)
    show "I w" by (simp add: I_def)
    show "\<And>s r t. I s \<Longrightarrow> syncStatusOnlyOnce E cfg err args s = (r, t) \<Longrightarrow> I t" by (rule step)
  qed
  then obtain s0 where s0: "clock s0 = clock w" "syncStatusOnlyOnce E cfg err args s0 = (Return None, w')"
    unfolding I_def by blast
  show ?thesis unfolding s using syncStatusOnlyOnce_server[OF s0(2)] s0(1) by simp
qed

lemma syncStatusOnlyOnce_no_fault:
  assumes "getByName crcName (crcName cfg) (mccrLister w) = Some c"
    and "getByName crcName (crcName cfg) (containerRuntimeConfigs w) = Some old"
    and "faults w = []"
  shows "fst (syncStatusOnlyOnce E cfg err args w) = Return None"
proof -
  have nm: "crcName c = crcName cfg" using assms(1) by (rule getByName_name)
  show ?thesis
    using assms nm
    by (simp add: syncStatusOnlyOnce_def mccrListerGet_def Let_def traced_def
        ContainerRuntimeConfigsUpdateStatus_def clientCall_def)
qed

lemma syncStatusOnly_no_fault:
  assumes "getByName crcName (crcName cfg) (mccrLister w) = Some c"
    and "getByName crcName (crcName cfg) (containerRuntimeConfigs w) = Some old"
    and "faults w = []"
  shows "fst (RetryOnConflict (syncStatusOnlyOnce E cfg err args) w) = Return None"
proof -
  obtain t where t: "syncStatusOnlyOnce E cfg err args w = (Return None, t)"
    using syncStatusOnlyOnce_no_fault[OF assms, of E err args]
    by (cases "syncStatusOnlyOnce E cfg err args w") simp
  have "retrySteps updateBackoffSteps (syncStatusOnlyOnce E cfg err args) w = (Return None, t)"
    using t by (rule retrySteps_done) (simp add: updateBackoffSteps_def)
  then show ?thesis by (simp add: RetryOnConflict_def)
qed

text \<open>
  C1, as the claim states it, fails: for a ContainerRuntimeConfig that validation refuses,
  the pass returns the validation error to the worker, which adds the key to the queue
  again, rate limited.
\<close>

theorem validation_failure_counterexample:
  "validateUserContainerRuntimeConfig E0 invalidCfg = Some (Err ''invalid PidsLimit'')
   \<and> getByName crcName ''set-pids'' (mccrLister (worldOf invalidCfg [] [])) = Some invalidCfg
   \<and> fst (syncContainerRuntimeConfig E0 ''set-pids'' (worldOf invalidCfg [] []))
       = Return (Some (Err ''invalid PidsLimit''))
   \<and> fst (syncContainerRuntimeConfig E0 ''set-pids'' (worldOf invalidCfg [] [])) \<noteq> Return None
   \<and> scheduled (queue (snd (processNextWorkItem E0 ''set-pids'' (worldOf invalidCfg [] []))))
       = [(''set-pids'', RateLimited 0)]"
proof -
  let ?W = "worldOf invalidCfg [] []"
  have v: "validateUserContainerRuntimeConfig E0 invalidCfg = Some (Err ''invalid PidsLimit'')"
    by (simp add: sample_defs)
  have g: "getByName crcName ''set-pids'' (mccrLister ?W) = Some invalidCfg"
    by (simp add: run_defs sample_defs)
  have s: "syncContainerRuntimeConfig E0 ''set-pids'' ?W
       = syncStatusOnly E0 invalidCfg (Some (Err ''invalid PidsLimit'')) []
           (traced (ListerGetContainerRuntimeConfig ''set-pids'') (traced (GetConfigMap configMapName) ?W))"
    using v
    by (simp add: syncContainerRuntimeConfig_def createSeccompUseDefaultMC_def SplitMetaNamespaceKey_def
        forceSyncOnUpgrade_def run_defs worldOf_def marker_def invalidCfg_def pidsCfg_def)
  have f: "fst (syncContainerRuntimeConfig E0 ''set-pids'' ?W) = Return (Some (Err ''invalid PidsLimit''))"
    unfolding s by (rule syncStatusOnly_returns)
  have q: "queue (snd (syncContainerRuntimeConfig E0 ''set-pids'' ?W)) = emptyQueue"
    unfolding s
    by (simp add: syncStatusOnly_def syncStatusOnlyOnce_def recordCondition_def run_defs sample_defs
        eval_nat_numeral)
  have p: "snd (processNextWorkItem E0 ''set-pids'' ?W)
       = handleErr (Some (Err ''invalid PidsLimit'')) ''set-pids''
           (snd (syncContainerRuntimeConfig E0 ''set-pids'' ?W))"
    using f by (cases "syncContainerRuntimeConfig E0 ''set-pids'' ?W") (simp add: processNextWorkItem_def)
  have r: "scheduled (queue (snd (processNextWorkItem E0 ''set-pids'' ?W))) = [(''set-pids'', RateLimited 0)]"
    unfolding p
    by (simp add: handleErr_def q NumRequeues_def maxRetries_def emptyQueue_def AddRateLimited_def)
  show ?thesis using v g f r by simp
qed

text \<open>
  C1, amended. When the object of the key is in the lister's cache, is not under
  deletion and fails validation with \<open>err\<close>, the pass returns \<open>err\<close>. It has recorded
  the condition of \<open>err\<close> as the last condition of the cached object and has made no
  call but those of the status update, the last one an \<^verbatim>\<open>UpdateStatus\<close>. When the
  retried status update returns nil, the object that the server stores has the
  condition of \<open>err\<close> as its last condition too; it does return nil when the server
  stores an object of that name and no fault is left. The worker hands \<open>err\<close> to
  \<^verbatim>\<open>handleErr\<close>, which adds the key rate limited while it has been requeued fewer than
  \<^verbatim>\<open>maxRetries\<close> times.
\<close>

theorem validation_failure_is_returned:
  "createSeccompUseDefaultMC E w = (Return None, w1) \<and> key \<noteq> forceSyncOnUpgrade
   \<and> SplitMetaNamespaceKey key = Inr (ns, name)
   \<and> getByName crcName name (mccrLister w1) = Some cfg
   \<and> crcDeletionTimestamp cfg = None
   \<and> validateUserContainerRuntimeConfig E cfg = Some err \<longrightarrow>
     fst (syncContainerRuntimeConfig E key w) = Return (Some err)
     \<and> (\<exists>c'. getByName crcName name (mccrLister (snd (syncContainerRuntimeConfig E key w))) = Some c'
            \<and> crcConditions c' \<noteq> []
            \<and> last (crcConditions c') = wrapErrorWithCondition E (clock w1) (Some err) [])
     \<and> (fst (RetryOnConflict (syncStatusOnlyOnce E cfg (Some err) [])
                (traced (ListerGetContainerRuntimeConfig name) w1)) = Return None \<longrightarrow>
          (\<exists>obj. getByName crcName name
                    (containerRuntimeConfigs (snd (syncContainerRuntimeConfig E key w))) = Some obj
             \<and> crcConditions obj \<noteq> []
             \<and> last (crcConditions obj) = wrapErrorWithCondition E (clock w1) (Some err) []))
     \<and> (getByName crcName name (containerRuntimeConfigs w1) \<noteq> None \<and> faults w1 = [] \<longrightarrow>
          fst (RetryOnConflict (syncStatusOnlyOnce E cfg (Some err) [])
                (traced (ListerGetContainerRuntimeConfig name) w1)) = Return None)
     \<and> (\<exists>rest. trace (snd (syncContainerRuntimeConfig E key w))
                  = trace w1 @ ListerGetContainerRuntimeConfig name # rest
            \<and> rest \<noteq> [] \<and> last rest = UpdateStatusContainerRuntimeConfig name
            \<and> set rest \<subseteq> statusCalls name)
     \<and> snd (processNextWorkItem E key w)
         = handleErr (Some err) key (snd (syncContainerRuntimeConfig E key w))
     \<and> (NumRequeues key (queue w1) < maxRetries \<longrightarrow>
          queue (snd (processNextWorkItem E key w)) = AddRateLimited key (queue w1))"
proof
  assume h: "createSeccompUseDefaultMC E w = (Return None, w1) \<and> key \<noteq> forceSyncOnUpgrade
   \<and> SplitMetaNamespaceKey key = Inr (ns, name)
   \<and> getByName crcName name (mccrLister w1) = Some cfg
   \<and> crcDeletionTimestamp cfg = None
   \<and> validateUserContainerRuntimeConfig E cfg = Some err"
  let ?w2 = "traced (ListerGetContainerRuntimeConfig name) w1"
  have "getByName crcName name (mccrLister w1) = Some cfg" using h by simp
  then have nm: "crcName cfg = name" by (rule getByName_name)
  have s: "syncContainerRuntimeConfig E key w = syncStatusOnly E cfg (Some err) [] ?w2"
    using h by (simp add: syncContainerRuntimeConfig_def mccrListerGet_def)
  have g: "getByName crcName (crcName cfg) (mccrLister ?w2) = Some cfg"
    using h nm by (simp add: traced_def)
  note r0 = syncStatusOnly_records[OF g, of E "Some err" "[]"]
  have r: "\<exists>c'. getByName crcName name (mccrLister (snd (syncContainerRuntimeConfig E key w))) = Some c'
            \<and> crcConditions c' \<noteq> []
            \<and> last (crcConditions c') = wrapErrorWithCondition E (clock ?w2) (Some err) []"
    "\<exists>rest. trace (snd (syncContainerRuntimeConfig E key w)) = trace ?w2 @ rest \<and> rest \<noteq> []
            \<and> last rest = UpdateStatusContainerRuntimeConfig name
            \<and> set rest \<subseteq> statusCalls name"
    "queue (snd (syncContainerRuntimeConfig E key w)) = queue ?w2"
    using r0 unfolding s nm by blast+
  have f: "fst (syncContainerRuntimeConfig E key w) = Return (Some err)"
    unfolding s by (rule syncStatusOnly_returns)
  have p: "snd (processNextWorkItem E key w)
         = handleErr (Some err) key (snd (syncContainerRuntimeConfig E key w))"
    using f by (cases "syncContainerRuntimeConfig E key w") (simp add: processNextWorkItem_def)
  have q: "queue (snd (syncContainerRuntimeConfig E key w)) = queue w1"
    using r(3) by (simp add: traced_def)
  have a: "queue (snd (processNextWorkItem E key w)) = AddRateLimited key (queue w1)"
    if "NumRequeues key (queue w1) < maxRetries"
    unfolding p using that q by (simp add: handleErr_def)
  from r(2) obtain rest where "trace (snd (syncContainerRuntimeConfig E key w)) = trace ?w2 @ rest"
    "rest \<noteq> []" "last rest = UpdateStatusContainerRuntimeConfig name" "set rest \<subseteq> statusCalls name"
    by blast
  then have t: "\<exists>rest. trace (snd (syncContainerRuntimeConfig E key w))
                  = trace w1 @ ListerGetContainerRuntimeConfig name # rest
            \<and> rest \<noteq> [] \<and> last rest = UpdateStatusContainerRuntimeConfig name
            \<and> set rest \<subseteq> statusCalls name"
    by (auto simp: traced_def)
  have c: "\<exists>c'. getByName crcName name (mccrLister (snd (syncContainerRuntimeConfig E key w))) = Some c'
            \<and> crcConditions c' \<noteq> []
            \<and> last (crcConditions c') = wrapErrorWithCondition E (clock w1) (Some err) []"
    using r(1) by (simp add: traced_def)
  have ck: "clock ?w2 = clock w1" by (simp add: traced_def)
  have sv: "\<exists>obj. getByName crcName name
                    (containerRuntimeConfigs (snd (syncContainerRuntimeConfig E key w))) = Some obj
             \<and> crcConditions obj \<noteq> []
             \<and> last (crcConditions obj) = wrapErrorWithCondition E (clock w1) (Some err) []"
    if ok: "fst (RetryOnConflict (syncStatusOnlyOnce E cfg (Some err) []) ?w2) = Return None"
    using syncStatusOnly_server[OF ok] unfolding s nm ck .
  have nf: "fst (RetryOnConflict (syncStatusOnlyOnce E cfg (Some err) []) ?w2) = Return None"
    if pre: "getByName crcName name (containerRuntimeConfigs w1) \<noteq> None \<and> faults w1 = []"
  proof -
    from pre obtain old where "getByName crcName name (containerRuntimeConfigs w1) = Some old" by auto
    then have o: "getByName crcName (crcName cfg) (containerRuntimeConfigs ?w2) = Some old"
      unfolding nm by (simp add: traced_def)
    have fl: "faults ?w2 = []" using pre by (simp add: traced_def)
    show ?thesis using g o fl by (rule syncStatusOnly_no_fault)
  qed
  show "fst (syncContainerRuntimeConfig E key w) = Return (Some err)
     \<and> (\<exists>c'. getByName crcName name (mccrLister (snd (syncContainerRuntimeConfig E key w))) = Some c'
            \<and> crcConditions c' \<noteq> []
            \<and> last (crcConditions c') = wrapErrorWithCondition E (clock w1) (Some err) [])
     \<and> (fst (RetryOnConflict (syncStatusOnlyOnce E cfg (Some err) [])
                (traced (ListerGetContainerRuntimeConfig name) w1)) = Return None \<longrightarrow>
          (\<exists>obj. getByName crcName name
                    (containerRuntimeConfigs (snd (syncContainerRuntimeConfig E key w))) = Some obj
             \<and> crcConditions obj \<noteq> []
             \<and> last (crcConditions obj) = wrapErrorWithCondition E (clock w1) (Some err) []))
     \<and> (getByName crcName name (containerRuntimeConfigs w1) \<noteq> None \<and> faults w1 = [] \<longrightarrow>
          fst (RetryOnConflict (syncStatusOnlyOnce E cfg (Some err) [])
                (traced (ListerGetContainerRuntimeConfig name) w1)) = Return None)
     \<and> (\<exists>rest. trace (snd (syncContainerRuntimeConfig E key w))
                  = trace w1 @ ListerGetContainerRuntimeConfig name # rest
            \<and> rest \<noteq> [] \<and> last rest = UpdateStatusContainerRuntimeConfig name
            \<and> set rest \<subseteq> statusCalls name)
     \<and> snd (processNextWorkItem E key w)
         = handleErr (Some err) key (snd (syncContainerRuntimeConfig E key w))
     \<and> (NumRequeues key (queue w1) < maxRetries \<longrightarrow>
          queue (snd (processNextWorkItem E key w)) = AddRateLimited key (queue w1))"
    apply (intro conjI impI)
          apply (rule f)
         apply (rule c)
        apply (erule sv)
       apply (erule nf)
      apply (rule t)
     apply (rule p)
    apply (erule a)
    done
qed

theorem validation_failure_is_returned_witness:
  "createSeccompUseDefaultMC E0 (worldOf invalidCfg [] [])
     = (Return None, traced (GetConfigMap configMapName) (worldOf invalidCfg [] []))
   \<and> SplitMetaNamespaceKey ''set-pids'' = Inr ([], ''set-pids'')
   \<and> getByName crcName ''set-pids''
        (mccrLister (traced (GetConfigMap configMapName) (worldOf invalidCfg [] []))) = Some invalidCfg
   \<and> crcDeletionTimestamp invalidCfg = None
   \<and> validateUserContainerRuntimeConfig E0 invalidCfg = Some (Err ''invalid PidsLimit'')
   \<and> fst (syncContainerRuntimeConfig E0 ''set-pids'' (worldOf invalidCfg [] []))
       = Return (Some (Err ''invalid PidsLimit''))
   \<and> getByName crcName ''set-pids''
        (containerRuntimeConfigs (traced (GetConfigMap configMapName) (worldOf invalidCfg [] [])))
       = Some invalidCfg
   \<and> faults (traced (GetConfigMap configMapName) (worldOf invalidCfg [] [])) = []
   \<and> fst (RetryOnConflict (syncStatusOnlyOnce E0 invalidCfg (Some (Err ''invalid PidsLimit'')) [])
            (traced (ListerGetContainerRuntimeConfig ''set-pids'')
               (traced (GetConfigMap configMapName) (worldOf invalidCfg [] [])))) = Return None
   \<and> (\<exists>obj. getByName crcName ''set-pids''
               (containerRuntimeConfigs (snd (syncContainerRuntimeConfig E0 ''set-pids''
                                               (worldOf invalidCfg [] [])))) = Some obj
          \<and> crcConditions obj \<noteq> []
          \<and> last (crcConditions obj)
              = \<lparr>condType = ContainerRuntimeConfigFailure, condStatus = False,
                 condMessage = ''Error: invalid PidsLimit'', condLastTransitionTime = 7\<rparr>)
   \<and> containerRuntimeConfigs (snd (syncContainerRuntimeConfig E0 ''set-pids'' (worldOf invalidCfg [] [])))
       = [invalidCfg\<lparr>crcObservedGeneration := 1,
                     crcConditions := [\<lparr>condType = ContainerRuntimeConfigFailure, condStatus = False,
                                        condMessage = ''Error: invalid PidsLimit'',
                                        condLastTransitionTime = 7\<rparr>]\<rparr>]
   \<and> NumRequeues ''set-pids'' (queue (traced (GetConfigMap configMapName) (worldOf invalidCfg [] [])))
       < maxRetries
   \<and> queue (snd (processNextWorkItem E0 ''set-pids'' (worldOf invalidCfg [] [])))
       = AddRateLimited ''set-pids'' emptyQueue"
proof -
  let ?W = "worldOf invalidCfg [] []"
  let ?w1 = "traced (GetConfigMap configMapName) ?W"
  let ?cond = "\<lparr>condType = ContainerRuntimeConfigFailure, condStatus = False,
                 condMessage = ''Error: invalid PidsLimit'', condLastTransitionTime = 7\<rparr>"
  have h1: "createSeccompUseDefaultMC E0 ?W = (Return None, ?w1)"
    by (simp add: createSeccompUseDefaultMC_def run_defs worldOf_def marker_def)
  have h2: "''set-pids'' \<noteq> forceSyncOnUpgrade" by (simp add: forceSyncOnUpgrade_def)
  have h3: "SplitMetaNamespaceKey ''set-pids'' = Inr ([], ''set-pids'')"
    by (simp add: SplitMetaNamespaceKey_def)
  have h4: "getByName crcName ''set-pids'' (mccrLister ?w1) = Some invalidCfg"
    by (simp add: run_defs sample_defs)
  have h5: "crcDeletionTimestamp invalidCfg = None" by (simp add: sample_defs)
  have h6: "validateUserContainerRuntimeConfig E0 invalidCfg = Some (Err ''invalid PidsLimit'')"
    by (simp add: sample_defs)
  have h7: "NumRequeues ''set-pids'' (queue ?w1) < maxRetries"
    by (simp add: NumRequeues_def maxRetries_def traced_def worldOf_def emptyQueue_def)
  have h8: "getByName crcName ''set-pids'' (containerRuntimeConfigs ?w1) = Some invalidCfg"
    by (simp add: run_defs sample_defs)
  have h9: "faults ?w1 = []" by (simp add: traced_def worldOf_def)
  have q1: "queue ?w1 = emptyQueue" by (simp add: traced_def worldOf_def)
  have wc: "wrapErrorWithCondition E0 (clock ?w1) (Some (Err ''invalid PidsLimit'')) [] = ?cond"
    by (simp add: E0_def sampleCondition_def traced_def worldOf_def)
  note A = validation_failure_is_returned[of E0 ?W ?w1 "''set-pids''" "[]" "''set-pids''" invalidCfg
      "Err ''invalid PidsLimit''"]
  have a: "fst (syncContainerRuntimeConfig E0 ''set-pids'' ?W) = Return (Some (Err ''invalid PidsLimit''))"
    using A h1 h2 h3 h4 h5 h6 by blast
  have b: "queue (snd (processNextWorkItem E0 ''set-pids'' ?W)) = AddRateLimited ''set-pids'' (queue ?w1)"
    using A h1 h2 h3 h4 h5 h6 h7 by blast
  have ok: "fst (RetryOnConflict (syncStatusOnlyOnce E0 invalidCfg (Some (Err ''invalid PidsLimit'')) [])
            (traced (ListerGetContainerRuntimeConfig ''set-pids'') ?w1)) = Return None"
    using A h1 h2 h3 h4 h5 h6 h8 h9 by blast
  have sv0: "\<exists>obj. getByName crcName ''set-pids''
               (containerRuntimeConfigs (snd (syncContainerRuntimeConfig E0 ''set-pids'' ?W))) = Some obj
          \<and> crcConditions obj \<noteq> []
          \<and> last (crcConditions obj)
              = wrapErrorWithCondition E0 (clock ?w1) (Some (Err ''invalid PidsLimit'')) []"
    using A h1 h2 h3 h4 h5 h6 ok by blast
  have sv: "\<exists>obj. getByName crcName ''set-pids''
               (containerRuntimeConfigs (snd (syncContainerRuntimeConfig E0 ''set-pids'' ?W))) = Some obj
          \<and> crcConditions obj \<noteq> [] \<and> last (crcConditions obj) = ?cond"
    using sv0 unfolding wc .
  have s: "syncContainerRuntimeConfig E0 ''set-pids'' ?W
       = syncStatusOnly E0 invalidCfg (Some (Err ''invalid PidsLimit'')) []
           (traced (ListerGetContainerRuntimeConfig ''set-pids'') ?w1)"
    using h6
    by (simp add: syncContainerRuntimeConfig_def createSeccompUseDefaultMC_def SplitMetaNamespaceKey_def
        forceSyncOnUpgrade_def run_defs worldOf_def marker_def invalidCfg_def pidsCfg_def)
  have st: "containerRuntimeConfigs (snd (syncContainerRuntimeConfig E0 ''set-pids'' ?W))
       = [invalidCfg\<lparr>crcObservedGeneration := 1, crcConditions := [?cond]\<rparr>]"
    unfolding s
    by (simp add: syncStatusOnly_def syncStatusOnlyOnce_def recordCondition_def run_defs sample_defs
        eval_nat_numeral)
  show ?thesis
    apply (intro conjI)
    apply (rule h1)
    apply (rule h3)
    apply (rule h4)
    apply (rule h5)
    apply (rule h6)
    apply (rule a)
    apply (rule h8)
    apply (rule h9)
    apply (rule ok)
    apply (rule sv)
    apply (rule st)
    apply (rule h7)
    apply (rule b[unfolded q1])
    done
qed

subsection \<open>The seccomp machine configs come first\<close>













lemma later_append: "trace w' = trace w @ cs \<Longrightarrow> later a w \<Longrightarrow> later a w'"
  unfolding later_def by (metis prefix_order.trans prefixI)

lemma later_traced: "later a w \<Longrightarrow> later a (traced c w)"
  by (rule later_append[of _ _ "[c]"]) (simp_all add: traced_def)











lemma mccrListerGet_later: "mccrListerGet name w = (r, w') \<Longrightarrow> later a w \<Longrightarrow> later a w'"
  by (auto simp: mccrListerGet_def split: option.splits intro: later_traced)






























subsection \<open>The registries machine config of a pool\<close>




end
